theory Spec2Isabelle
  imports Complex_Main
begin

section \<open>Strings, paths and the standard-library helpers the add-on relies on\<close>

text \<open>
  Python strings are modelled as \<open>string\<close>, lists of 8-bit characters, each read as
  the code point of the same number: the model covers the texts whose code points
  lie between 0 and 255. The functions below are the fragments of \<open>str\<close>, \<open>int\<close>,
  \<open>float\<close> and \<open>os.path\<close> (POSIX flavour) that the program calls.
\<close>

definition digit_char :: "nat \<Rightarrow> char" where
  "digit_char d = ''0123456789'' ! d"

fun str_nat :: "nat \<Rightarrow> string" where
  "str_nat n = (if n < 10 then [digit_char n] else str_nat (n div 10) @ [digit_char (n mod 10)])"

declare str_nat.simps [simp del]

text \<open>\<open>str(i)\<close> for a Python integer.\<close>

definition str_int :: "int \<Rightarrow> string" where
  "str_int i = (if i < 0 then CHR ''-'' # str_nat (nat (- i)) else str_nat (nat i))"

text \<open>
  \<open>os.path.join(a, *p)\<close> (posixpath): a component that starts with the separator
  replaces what came before; otherwise it is appended, with a separator unless the
  path so far is empty or already ends in one.
\<close>

definition join2 :: "string \<Rightarrow> string \<Rightarrow> string" where
  "join2 path b =
     (if b \<noteq> [] \<and> hd b = CHR ''/'' then b
      else if path = [] \<or> last path = CHR ''/'' then path @ b
      else path @ ''/'' @ b)"

definition os_path_join :: "string \<Rightarrow> string list \<Rightarrow> string" where
  "os_path_join a p = foldl join2 a p"

section \<open>Mapping records and the model configuration\<close>

text \<open>The dictionary that \<open>parse_mapping_table\<close> stores per position id.\<close>

record mapping_record =
  position_id :: int
  blocktype :: string
  main_texture_prefix :: string
  submodel_name :: string
  z_texture_prefix :: string
  has_main_texture :: bool
  has_submodel :: bool
  has_z_texture :: bool
  all_parts :: "string list"

datatype material_system_kind =
  Teamspawn_system | Soil_system | Minestone_system | Submodel_only | Default_system

text \<open>The attributes of a \<open>ModelConfig\<close> object after \<open>__init__\<close>.\<close>

record model_config =
  cfg_position_id :: int
  cfg_texture_base_path :: string
  cfg_models_base_path :: string
  cfg_blocktype :: string
  cfg_main_texture_prefix :: string
  cfg_submodel_name :: string
  cfg_z_texture_prefix :: string
  material_system :: material_system_kind
  main_model_path :: string
  submodel_path :: "string option"
  need_main_model :: bool

text \<open>
  The \<open>if/elif\<close> chain of \<open>ModelConfig.__init__\<close> that picks the material system,
  in the order of the source, with its fourth branch kept as written.
\<close>

definition select_material_system :: "string \<Rightarrow> string \<Rightarrow> material_system_kind" where
  "select_material_system bt mtp =
     (if bt = ''teamspawn'' then Teamspawn_system
      else if bt \<in> set [''soil'', ''plantash''] then Soil_system
      else if bt \<in> set [''minestone'', ''stone'', ''buildblueprint'', ''regionreplicator'',
                          ''replicator'', ''airwall'', ''copier''] then Minestone_system
      else if bt \<in> set [''replicator'', ''regionreplicator'', ''airwall'', ''copier''] then
        (if mtp \<noteq> [] then Minestone_system else Submodel_only)
      else Default_system)"

text \<open>
  The first existing candidate of a probe list (\<open>for name in possible_names: ... break\<close>).
\<close>

fun first_existing :: "(string \<Rightarrow> bool) \<Rightarrow> string list \<Rightarrow> string option" where
  "first_existing ex [] = None"
| "first_existing ex (p # ps) = (if ex p then Some p else first_existing ex ps)"

definition possible_names :: "string \<Rightarrow> string list" where
  "possible_names sub = [sub @ ''.obj'', sub @ ''_lod1.obj'', sub @ ''_lod0.obj'']"

text \<open>
  The submodel lookup at the end of \<open>__init__\<close>: the id folder first, then the shared
  \<open>models\<close> folder.
\<close>

definition find_submodel_path ::
  "(string \<Rightarrow> bool) \<Rightarrow> string \<Rightarrow> int \<Rightarrow> string \<Rightarrow> string option" where
  "find_submodel_path ex models_base_path pid sub =
     (let id_folder = os_path_join models_base_path [str_int pid] in
      case first_existing ex (map (\<lambda>name. os_path_join id_folder [name]) (possible_names sub)) of
        Some p \<Rightarrow> Some p
      | None \<Rightarrow>
          first_existing ex
            (map (\<lambda>name. os_path_join models_base_path [''models'', name]) (possible_names sub)))"

text \<open>
  \<open>ModelConfig.__init__(position_id, mapping_data, texture_base_path, models_base_path)\<close>;
  \<open>ex\<close> is \<open>os.path.exists\<close>. The statements are taken in the order of the source:
  fields from the mapping data (empty strings when there is none), the material
  system, the main model path (where teamspawn clears the submodel name), the
  \<open>need_main_model\<close> decision and its two overrides, and the submodel lookup.
\<close>

definition ModelConfig_init ::
  "(string \<Rightarrow> bool) \<Rightarrow> int \<Rightarrow> mapping_record option \<Rightarrow> string \<Rightarrow> string \<Rightarrow> model_config" where
  "ModelConfig_init ex pid mapping_data texture_base_path models_base_path =
     (let bt = (case mapping_data of Some m \<Rightarrow> blocktype m | None \<Rightarrow> []);
          mtp = (case mapping_data of Some m \<Rightarrow> main_texture_prefix m | None \<Rightarrow> []);
          sub0 = (case mapping_data of Some m \<Rightarrow> submodel_name m | None \<Rightarrow> []);
          ztp = (case mapping_data of Some m \<Rightarrow> z_texture_prefix m | None \<Rightarrow> []);
          ms = select_material_system bt mtp;
          mmp = (if bt = ''teamspawn''
                 then os_path_join models_base_path [str_int pid, ''teamspawn.obj'']
                 else os_path_join models_base_path [''models'', ''block.obj'']);
          sub1 = (if bt = ''teamspawn'' then [] else sub0);
          need0 = (if sub1 \<noteq> [] then (if mtp = [] then False else True)
                   else (if mtp \<noteq> [] then True else False));
          need1 = (if ms = Submodel_only then False else need0);
          need2 = (if bt = ''teamspawn'' then True else need1);
          sub2 = (if bt = ''teamspawn'' then [] else sub1);
          sp = (if sub2 \<noteq> [] \<and> bt \<noteq> ''teamspawn''
                then find_submodel_path ex models_base_path pid sub2 else None)
      in \<lparr> cfg_position_id = pid,
           cfg_texture_base_path = texture_base_path,
           cfg_models_base_path = models_base_path,
           cfg_blocktype = bt,
           cfg_main_texture_prefix = mtp,
           cfg_submodel_name = sub2,
           cfg_z_texture_prefix = ztp,
           material_system = ms,
           main_model_path = mmp,
           submodel_path = sp,
           need_main_model = need2 \<rparr>)"

section \<open>The mapping-table parser\<close>

text \<open>
  The characters \<open>str.strip()\<close> removes and \<open>\s\<close> matches, among the code points
  below 256: space, tab, line feed, vertical tab, form feed, carriage return, the
  four separators \<open>0x1c\<close> to \<open>0x1f\<close>, the next-line character \<open>0x85\<close> and the
  no-break space \<open>0xa0\<close>.
\<close>

definition is_space :: "char \<Rightarrow> bool" where
  "is_space c = (c \<in> set [CHR '' '', CHR 0x09, CHR 0x0A, CHR 0x0B, CHR 0x0C, CHR 0x0D,
                            CHR 0x1C, CHR 0x1D, CHR 0x1E, CHR 0x1F, CHR 0x85, CHR 0xA0])"

definition lstrip :: "string \<Rightarrow> string" where
  "lstrip s = dropWhile is_space s"

definition rstrip :: "string \<Rightarrow> string" where
  "rstrip s = rev (dropWhile is_space (rev s))"

definition strip :: "string \<Rightarrow> string" where
  "strip s = rstrip (lstrip s)"

text \<open>
  \<open>s.split(sep)\<close> for a one-character separator: a left-to-right scan that closes
  the current field at every separator; the result always has at least one field.
\<close>

fun split_from :: "char \<Rightarrow> string \<Rightarrow> string \<Rightarrow> string list" where
  "split_from sep cur [] = [cur]"
| "split_from sep cur (c # cs) =
     (if c = sep then cur # split_from sep [] cs else split_from sep (cur @ [c]) cs)"

definition py_split :: "char \<Rightarrow> string \<Rightarrow> string list" where
  "py_split sep s = split_from sep [] s"

text \<open>
  The whitespace \<open>int()\<close> and \<open>float()\<close> skip around a literal is a smaller set:
  the six characters of the C locale (space, tab, line feed, vertical tab, form
  feed and carriage return) and, of the code points from 128 on, the two spaces
  \<open>0x85\<close> and \<open>0xa0\<close>, which the conversion turns into a plain space before the
  literal is read. The separators \<open>0x1c\<close> to \<open>0x1f\<close> are not skipped.
\<close>

definition is_c_space :: "char \<Rightarrow> bool" where
  "is_c_space c = (c \<in> set [CHR '' '', CHR 0x09, CHR 0x0A, CHR 0x0B, CHR 0x0C, CHR 0x0D,
                              CHR 0x85, CHR 0xA0])"

definition c_strip :: "string \<Rightarrow> string" where
  "c_strip s = rev (dropWhile is_c_space (rev (dropWhile is_c_space s)))"

definition is_digit :: "char \<Rightarrow> bool" where
  "is_digit c = (c \<in> set ''0123456789'')"

definition digit_val :: "char \<Rightarrow> nat" where
  "digit_val c = of_char c - 48"

text \<open>
  The digit part of a numeric literal: decimal digits, where single underscores may
  stand between two digits.
\<close>

fun valid_digits :: "string \<Rightarrow> bool" where
  "valid_digits [] = False"
| "valid_digits [c] = is_digit c"
| "valid_digits (c # d # cs) =
     (is_digit c \<and> (if d = CHR ''_'' then valid_digits cs else valid_digits (d # cs)))"

definition nat_of_digits :: "string \<Rightarrow> nat" where
  "nat_of_digits ds = foldl (\<lambda>acc c. 10 * acc + digit_val c) 0 (filter is_digit ds)"

text \<open>
  \<open>int(s)\<close> on a string: surrounding whitespace is ignored, one sign is allowed, the
  rest must be decimal digits; \<open>None\<close> stands for \<open>ValueError\<close>. The limit some
  interpreters put on the number of digits is not modelled.
\<close>

definition py_int :: "string \<Rightarrow> int option" where
  "py_int s =
     (let t = c_strip s;
          neg = (t \<noteq> [] \<and> hd t = CHR ''-'');
          body = (if t \<noteq> [] \<and> (hd t = CHR ''-'' \<or> hd t = CHR ''+'') then tl t else t)
      in if valid_digits body
         then Some (if neg then - int (nat_of_digits body) else int (nat_of_digits body))
         else None)"

datatype line_result = Skipped | Invalid | Parsed mapping_record

text \<open>
  The condition of the special case in \<open>parse_mapping_table\<close>,
  \<open>',' in main_texture_prefix\<close>, on the fields of a line.
\<close>

definition packed_prefix :: "string list \<Rightarrow> bool" where
  "packed_prefix parts = (CHR '','' \<in> set (if length parts > 43 then parts ! 43 else []))"

text \<open>
  One round of the loop of \<open>parse_mapping_table\<close>: blank lines and lines starting
  with \<open>=\<close> are passed over; a line with fewer than 46 fields, or whose first field
  is no integer, is invalid; otherwise the record is built from fields 0, 6, 43 and 44.
\<close>

definition parse_mapping_line :: "string \<Rightarrow> line_result" where
  "parse_mapping_line l =
     (let line = strip l in
      if line = [] \<or> hd line = CHR ''='' then Skipped
      else
        let parts = py_split CHR '','' line in
        if length parts < 46 then Invalid
        else
          case py_int (parts ! 0) of
            None \<Rightarrow> Invalid
          | Some pid \<Rightarrow>
              let bt = (if length parts > 6 then parts ! 6 else []);
                  mtp0 = (if length parts > 43 then parts ! 43 else []);
                  sub = (if length parts > 44 then parts ! 44 else []);
                  ztp0 = (if length parts > 44 then parts ! 44 else []);
                  split_parts = py_split CHR '','' mtp0;
                  mtp = (if packed_prefix parts
                         then (if length split_parts > 0 then split_parts ! 0 else [])
                         else mtp0);
                  ztp = (if packed_prefix parts \<and> length split_parts > 1
                         then split_parts ! 1 else ztp0)
              in Parsed \<lparr> position_id = pid,
                          blocktype = bt,
                          main_texture_prefix = mtp,
                          submodel_name = sub,
                          z_texture_prefix = ztp,
                          has_main_texture = (mtp \<noteq> []),
                          has_submodel = (sub \<noteq> []),
                          has_z_texture = (ztp \<noteq> []),
                          all_parts = parts \<rparr>)"

record parse_state =
  mapping :: "int \<rightharpoonup> mapping_record"
  valid_lines :: nat
  invalid_lines :: nat

definition parse_step :: "parse_state \<Rightarrow> string \<Rightarrow> parse_state" where
  "parse_step st l =
     (case parse_mapping_line l of
        Skipped \<Rightarrow> st
      | Invalid \<Rightarrow> st\<lparr>invalid_lines := invalid_lines st + 1\<rparr>
      | Parsed r \<Rightarrow> st\<lparr>mapping := (mapping st)(position_id r \<mapsto> r),
                         valid_lines := valid_lines st + 1\<rparr>)"

definition parse_mapping_lines :: "string list \<Rightarrow> parse_state" where
  "parse_mapping_lines ls =
     foldl parse_step \<lparr>mapping = Map.empty, valid_lines = 0, invalid_lines = 0\<rparr> ls"

text \<open>
  \<open>parse_mapping_table(mapping_file_path)\<close>. The file system is a function from a
  path to the lines \<open>readlines()\<close> returns, \<open>None\<close> when the file does not exist or
  cannot be read; both give the empty mapping.
\<close>

definition parse_mapping_table ::
  "(string \<Rightarrow> string list option) \<Rightarrow> string \<Rightarrow> (int \<rightharpoonup> mapping_record)" where
  "parse_mapping_table files mapping_file_path =
     (case files mapping_file_path of
        None \<Rightarrow> Map.empty
      | Some ls \<Rightarrow> mapping (parse_mapping_lines ls))"

subsection \<open>Sample data\<close>

text \<open>
  A mapping line of 46 fields: id 7, blocktype minestone at index 6, \<open>hupo\<close> at
  index 43, \<open>hupo1\<close> at index 44.
\<close>

definition scenario_line :: string where
  "scenario_line = ''7,,,,,,minestone'' @ replicate 37 CHR '','' @ ''hupo,hupo1,''"

definition scenario_files :: "string \<Rightarrow> string list option" where
  "scenario_files p = (if p = ''mapping.csv'' then Some [scenario_line @ [CHR 0x0A]] else None)"

text \<open>A teamspawn record that carries a submodel name.\<close>

definition teamspawn_record :: mapping_record where
  "teamspawn_record =
     \<lparr> position_id = 12, blocktype = ''teamspawn'', main_texture_prefix = ''spawn'',
       submodel_name = ''flag'', z_texture_prefix = ''flag'', has_main_texture = True,
       has_submodel = True, has_z_texture = True, all_parts = [] \<rparr>"

section \<open>Meshes and the directional-face classifier\<close>

text \<open>
  Coordinates, sizes and angles are \<open>real\<close> numbers: the model idealises the
  floating-point arithmetic of the host. A polygon carries its normal and its
  material index; its \<open>index\<close> is its position in the polygon list of the mesh.
\<close>

type_synonym vec3 = "real \<times> real \<times> real"

record polygon =
  normal :: vec3
  material_index :: nat

datatype obj_type = MESH | EMPTY | OTHER

definition vec_length :: "vec3 \<Rightarrow> real" where
  "vec_length v = (case v of (x, y, z) \<Rightarrow> sqrt (x\<^sup>2 + y\<^sup>2 + z\<^sup>2))"

text \<open>
  The normal the tests are run on: \<open>normal.normalized()\<close> when the length is
  positive, the normal itself otherwise.
\<close>

definition normal_normalized :: "vec3 \<Rightarrow> vec3" where
  "normal_normalized v =
     (case v of (x, y, z) \<Rightarrow>
        if vec_length v > 0 then (x / vec_length v, y / vec_length v, z / vec_length v)
        else v)"

record face_buckets =
  x_faces :: "nat list"
  neg_x_faces :: "nat list"
  y_faces :: "nat list"
  neg_y_faces :: "nat list"
  z_faces :: "nat list"
  neg_z_faces :: "nat list"

definition no_faces :: face_buckets where
  "no_faces = \<lparr> x_faces = [], neg_x_faces = [], y_faces = [], neg_y_faces = [],
                z_faces = [], neg_z_faces = [] \<rparr>"

text \<open>
  The body of the loop of \<open>find_all_directional_faces\<close> for the polygon with index
  \<open>idx\<close> and normal \<open>n\<close>: the \<open>if/elif\<close> chain of six tests, each appending the index
  to its list.
\<close>

definition classify_polygon :: "nat \<Rightarrow> vec3 \<Rightarrow> face_buckets \<Rightarrow> face_buckets" where
  "classify_polygon idx n b =
     (case normal_normalized n of (x, y, z) \<Rightarrow>
        if x > 0.7 \<and> \<bar>y\<bar> < 0.3 \<and> \<bar>z\<bar> < 0.3 then b\<lparr>x_faces := x_faces b @ [idx]\<rparr>
        else if x < - 0.7 \<and> \<bar>y\<bar> < 0.3 \<and> \<bar>z\<bar> < 0.3 then b\<lparr>neg_x_faces := neg_x_faces b @ [idx]\<rparr>
        else if y > 0.7 \<and> \<bar>x\<bar> < 0.3 \<and> \<bar>z\<bar> < 0.3 then b\<lparr>y_faces := y_faces b @ [idx]\<rparr>
        else if y < - 0.7 \<and> \<bar>x\<bar> < 0.3 \<and> \<bar>z\<bar> < 0.3 then b\<lparr>neg_y_faces := neg_y_faces b @ [idx]\<rparr>
        else if z > 0.7 \<and> \<bar>x\<bar> < 0.3 \<and> \<bar>y\<bar> < 0.3 then b\<lparr>z_faces := z_faces b @ [idx]\<rparr>
        else if z < - 0.7 \<and> \<bar>x\<bar> < 0.3 \<and> \<bar>y\<bar> < 0.3 then b\<lparr>neg_z_faces := neg_z_faces b @ [idx]\<rparr>
        else b)"

text \<open>The loop over \<open>mesh.polygons\<close>, from index \<open>idx\<close> on.\<close>

fun faces_loop :: "nat \<Rightarrow> polygon list \<Rightarrow> face_buckets \<Rightarrow> face_buckets" where
  "faces_loop idx [] b = b"
| "faces_loop idx (p # ps) b = faces_loop (Suc idx) ps (classify_polygon idx (normal p) b)"

text \<open>
  \<open>find_all_directional_faces(obj)\<close>, on the type and the polygons of the object: six
  empty lists for an object that is no mesh.
\<close>

definition find_all_directional_faces :: "obj_type \<Rightarrow> polygon list \<Rightarrow> face_buckets" where
  "find_all_directional_faces ty ps = (if ty \<noteq> MESH then no_faces else faces_loop 0 ps no_faces)"

text \<open>
  The six lists by name, and the list a normal is appended to: two devices for
  stating facts about all six lists at once.
\<close>

datatype direction = PosX | NegX | PosY | NegY | PosZ | NegZ



subsection \<open>Sample data\<close>

text \<open>
  Three polygons, as a mesh imported with three materials has them: one facing
  \<open>+X\<close>, one facing \<open>+Z\<close>, and one whose unit normal \<open>(0.6, 0.8, 0)\<close> passes none
  of the six tests.
\<close>

definition sample_polygons :: "polygon list" where
  "sample_polygons =
     [\<lparr>normal = (1, 0, 0), material_index = 0\<rparr>,
      \<lparr>normal = (0, 0, 2), material_index = 1\<rparr>,
      \<lparr>normal = (3 / 5, 4 / 5, 0), material_index = 2\<rparr>]"


section \<open>Texture lookup\<close>

text \<open>
  The capital letters among the code points below 256, the 26 of ASCII and the 30
  from \<open>0xc0\<close> to \<open>0xde\<close> (without the multiplication sign \<open>0xd7\<close>), and their small
  letters.
\<close>

definition upper_letters :: string where
  "upper_letters = ''ABCDEFGHIJKLMNOPQRSTUVWXYZ'' @
     [CHR 0xC0, CHR 0xC1, CHR 0xC2, CHR 0xC3, CHR 0xC4, CHR 0xC5, CHR 0xC6,
      CHR 0xC7, CHR 0xC8, CHR 0xC9, CHR 0xCA, CHR 0xCB, CHR 0xCC, CHR 0xCD,
      CHR 0xCE, CHR 0xCF, CHR 0xD0, CHR 0xD1, CHR 0xD2, CHR 0xD3, CHR 0xD4,
      CHR 0xD5, CHR 0xD6, CHR 0xD8, CHR 0xD9, CHR 0xDA, CHR 0xDB, CHR 0xDC,
      CHR 0xDD, CHR 0xDE]"

definition lower_letters :: string where
  "lower_letters = ''abcdefghijklmnopqrstuvwxyz'' @
     [CHR 0xE0, CHR 0xE1, CHR 0xE2, CHR 0xE3, CHR 0xE4, CHR 0xE5, CHR 0xE6,
      CHR 0xE7, CHR 0xE8, CHR 0xE9, CHR 0xEA, CHR 0xEB, CHR 0xEC, CHR 0xED,
      CHR 0xEE, CHR 0xEF, CHR 0xF0, CHR 0xF1, CHR 0xF2, CHR 0xF3, CHR 0xF4,
      CHR 0xF5, CHR 0xF6, CHR 0xF8, CHR 0xF9, CHR 0xFA, CHR 0xFB, CHR 0xFC,
      CHR 0xFD, CHR 0xFE]"

definition lower_char :: "char \<Rightarrow> char" where
  "lower_char c =
     (case map_of (zip upper_letters lower_letters) c of
        Some l \<Rightarrow> l
      | None \<Rightarrow> c)"

text \<open>\<open>s.lower()\<close>.\<close>

definition py_lower :: "string \<Rightarrow> string" where
  "py_lower s = map lower_char s"

definition id_folder :: "model_config \<Rightarrow> string" where
  "id_folder cfg = os_path_join (cfg_texture_base_path cfg) [str_int (cfg_position_id cfg)]"

definition in_id_folder :: "model_config \<Rightarrow> string \<Rightarrow> string" where
  "in_id_folder cfg name = os_path_join (id_folder cfg) [name]"

text \<open>
  \<open>_get_default_texture_path\<close>: the face \<open>x\<close> reads the file with suffix \<open>_z\<close>, \<open>y\<close>
  the one with \<open>_x\<close>, \<open>z\<close> the one with \<open>_y\<close>.
\<close>

definition get_default_texture_path ::
  "(string \<Rightarrow> bool) \<Rightarrow> model_config \<Rightarrow> string \<Rightarrow> string option" where
  "get_default_texture_path ex cfg face_type =
     (let prefix = cfg_main_texture_prefix cfg;
          expected_filename =
            (if py_lower face_type = ''x'' then prefix @ ''_z.png''
             else if py_lower face_type = ''y'' then prefix @ ''_x.png''
             else if py_lower face_type = ''z'' then prefix @ ''_y.png''
             else prefix @ ''_'' @ face_type @ ''.png'');
          path = in_id_folder cfg expected_filename
      in if ex path then Some path else None)"

text \<open>\<open>_get_minestone_texture_path\<close>: the same suffixes, then the bare prefix.\<close>

definition get_minestone_texture_path ::
  "(string \<Rightarrow> bool) \<Rightarrow> model_config \<Rightarrow> string \<Rightarrow> string option" where
  "get_minestone_texture_path ex cfg face_type =
     (let prefix = cfg_main_texture_prefix cfg;
          expected_filename =
            (if py_lower face_type = ''x'' then prefix @ ''_z.png''
             else if py_lower face_type = ''y'' then prefix @ ''_x.png''
             else if py_lower face_type = ''z'' then prefix @ ''_y.png''
             else prefix @ ''.png'');
          path = in_id_folder cfg expected_filename;
          fallback_path = in_id_folder cfg (prefix @ ''.png'')
      in if ex path then Some path
         else if ex fallback_path then Some fallback_path
         else None)"

text \<open>\<open>_get_soil_texture_path\<close>.\<close>

definition get_soil_texture_path ::
  "(string \<Rightarrow> bool) \<Rightarrow> model_config \<Rightarrow> string \<Rightarrow> string option" where
  "get_soil_texture_path ex cfg face_type =
     (let prefix = cfg_main_texture_prefix cfg;
          zprefix = cfg_z_texture_prefix cfg
      in if py_lower face_type = ''z'' then
           (if zprefix \<noteq> [] \<and> ex (in_id_folder cfg (zprefix @ ''.png''))
            then Some (in_id_folder cfg (zprefix @ ''.png''))
            else first_existing ex
                   (map (in_id_folder cfg)
                      [prefix @ ''_y.png'', prefix @ ''.png'', prefix @ ''_z.png'',
                       ''blocks.grass.png'', ''blockd.grass.png'']))
         else
           (if ex (in_id_folder cfg (prefix @ ''.png''))
            then Some (in_id_folder cfg (prefix @ ''.png''))
            else first_existing ex
                   (map (in_id_folder cfg)
                      [prefix @ ''_x.png'', prefix @ ''_y.png'',
                       ''blocks.grass.png'', ''blockd.grass.png''])))"

text \<open>\<open>_get_teamspawn_texture_path\<close>.\<close>

definition get_teamspawn_texture_path ::
  "(string \<Rightarrow> bool) \<Rightarrow> model_config \<Rightarrow> string option" where
  "get_teamspawn_texture_path ex cfg =
     (let prefix = cfg_main_texture_prefix cfg
      in if ex (in_id_folder cfg (prefix @ ''.png''))
         then Some (in_id_folder cfg (prefix @ ''.png''))
         else first_existing ex
                (map (in_id_folder cfg)
                   [prefix @ ''_x.png'', prefix @ ''_y.png'', prefix @ ''_z.png'',
                    ''teamspawn.png'', ''teamspawn0.png'']))"

text \<open>\<open>ModelConfig.get_texture_path(face_type)\<close>.\<close>

definition get_texture_path ::
  "(string \<Rightarrow> bool) \<Rightarrow> model_config \<Rightarrow> string \<Rightarrow> string option" where
  "get_texture_path ex cfg face_type =
     (if cfg_main_texture_prefix cfg = [] then None
      else case material_system cfg of
             Teamspawn_system \<Rightarrow> get_teamspawn_texture_path ex cfg
           | Soil_system \<Rightarrow> get_soil_texture_path ex cfg face_type
           | Minestone_system \<Rightarrow> get_minestone_texture_path ex cfg face_type
           | Submodel_only \<Rightarrow> None
           | Default_system \<Rightarrow> get_default_texture_path ex cfg face_type)"

text \<open>
  \<open>get_submodel_texture_path\<close> and \<open>get_submodel_emission_texture_path\<close>: the first
  existing file of a fixed list of candidates.
\<close>

definition get_submodel_texture_path :: "(string \<Rightarrow> bool) \<Rightarrow> model_config \<Rightarrow> string option" where
  "get_submodel_texture_path ex cfg =
     (let sub = cfg_submodel_name cfg in
      if sub = [] \<or> cfg_blocktype cfg = ''teamspawn'' then None
      else first_existing ex
             [in_id_folder cfg (sub @ ''.png''),
              os_path_join (cfg_texture_base_path cfg) [sub @ ''.png''],
              os_path_join (os_path_join (cfg_models_base_path cfg) [''models'']) [sub @ ''.png''],
              os_path_join (id_folder cfg) [''models'', sub @ ''.png'']])"

definition get_submodel_emission_texture_path ::
  "(string \<Rightarrow> bool) \<Rightarrow> model_config \<Rightarrow> string option" where
  "get_submodel_emission_texture_path ex cfg =
     (let sub = cfg_submodel_name cfg in
      if sub = [] \<or> cfg_blocktype cfg = ''teamspawn'' then None
      else first_existing ex
             [in_id_folder cfg (sub @ ''_emi.png''),
              in_id_folder cfg (sub @ ''_emission.png''),
              in_id_folder cfg (sub @ ''_emit.png''),
              in_id_folder cfg (sub @ ''_light.png''),
              in_id_folder cfg (sub @ ''_glow.png''),
              os_path_join (cfg_texture_base_path cfg) [sub @ ''_emi.png''],
              os_path_join (os_path_join (cfg_models_base_path cfg) [''models''])
                [sub @ ''_emi.png''],
              os_path_join (id_folder cfg) [''models'', sub @ ''_emi.png'']])"

section \<open>Material application\<close>

text \<open>
  A material is identified by the key its name is built from: position id and face
  tag (\<open>BlockMat_X_7\<close>), the default material of an id, the teamspawn material of an
  id, the material of a submodel, or a material that came with an imported file,
  under its name. The node graph behind a material is left to the host.
\<close>

datatype material =
    Face_material int string
  | Default_material int
  | Teamspawn_material int
  | Submodel_material int string bool
  | Imported_material string

datatype py_error = KeyError | ValueError | IndexError | OverflowError

text \<open>The custom properties \<open>load_and_setup_model\<close> stores on a loaded mesh.\<close>

record size_info =
  block_size_x :: real
  block_size_y :: real
  block_size_z :: real
  block_max_size :: real
  is_main_model :: bool
  scale_factor :: real

text \<open>The properties \<open>create_block_from_template\<close> stores on a placed block.\<close>

record block_info =
  grid_x :: int
  grid_y :: int
  grid_z :: int
  block_position_id :: int
  direction :: string

text \<open>
  An object of the scene: name, type, polygons and material slots (none for an
  empty), the size of its bounding box in world space, the name of its parent and
  the names of its children, location, Euler rotation \<open>(X, Y, Z)\<close>, and its stored
  properties. Objects are referred to by name, \<open>bpy.data.objects\<close> being the map
  from names to objects. Selection and visibility are left to the host.
\<close>

record scene_object =
  ob_name :: string
  ob_type :: obj_type
  polygons :: "polygon list"
  materials :: "material list"
  bound_size :: vec3
  custom :: "size_info option"
  parent :: "string option"
  children :: "string list"
  location :: vec3
  rotation_euler :: vec3
  placed :: "block_info option"

text \<open>\<open>material_indices[key]\<close>, which raises \<open>KeyError\<close> for a missing key.\<close>

definition dict_get :: "(string \<rightharpoonup> nat) \<Rightarrow> string \<Rightarrow> py_error + nat" where
  "dict_get d k = (case d k of None \<Rightarrow> Inl KeyError | Some v \<Rightarrow> Inr v)"

text \<open>
  A loop \<open>for poly in obj.data.polygons\<close> whose body may set the material index of
  the polygon, may leave it as it is, or may raise: \<open>body idx p\<close> is the polygon after
  the body. The first error ends the loop; the polygons are returned as the loop
  left them, with the error if there was one.
\<close>

fun polygon_loop ::
  "(nat \<Rightarrow> polygon \<Rightarrow> py_error + polygon) \<Rightarrow> nat \<Rightarrow> polygon list
     \<Rightarrow> py_error option \<times> polygon list" where
  "polygon_loop body idx [] = (None, [])"
| "polygon_loop body idx (p # ps) =
     (case body idx p of
        Inl e \<Rightarrow> (Some e, p # ps)
      | Inr p' \<Rightarrow>
          (case polygon_loop body (Suc idx) ps of
             (r, ps') \<Rightarrow> (r, p' # ps')))"

text \<open>
  The end of a material system after its polygon loop: the error of the loop, or
  the return value \<open>True\<close>, with the object as the loop left it.
\<close>

definition after_loop ::
  "scene_object \<Rightarrow> material list \<Rightarrow> py_error option \<times> polygon list
     \<Rightarrow> (py_error + bool) \<times> scene_object" where
  "after_loop obj m r =
     (case r of
        (Some e, ps) \<Rightarrow> (Inl e, obj\<lparr>materials := m, polygons := ps\<rparr>)
      | (None, ps) \<Rightarrow> (Inr True, obj\<lparr>materials := m, polygons := ps\<rparr>))"

definition set_index :: "polygon \<Rightarrow> py_error + nat \<Rightarrow> py_error + polygon" where
  "set_index p r = (case r of Inl e \<Rightarrow> Inl e | Inr k \<Rightarrow> Inr (p\<lparr>material_index := k\<rparr>))"

definition all_index_0 :: "polygon list \<Rightarrow> polygon list" where
  "all_index_0 ps = map (\<lambda>p. p\<lparr>material_index := 0\<rparr>) ps"

text \<open>
  \<open>apply_teamspawn_material_system\<close>: one slot, the teamspawn material when a
  texture is found and the default material otherwise; every polygon gets index 0.
\<close>

definition apply_teamspawn_material_system ::
  "(string \<Rightarrow> bool) \<Rightarrow> scene_object \<Rightarrow> int \<Rightarrow> model_config \<Rightarrow> (py_error + bool) \<times> scene_object" where
  "apply_teamspawn_material_system ex obj pid cfg =
     (let mat = (case get_teamspawn_texture_path ex cfg of
                   Some t \<Rightarrow> Teamspawn_material pid
                 | None \<Rightarrow> Default_material pid)
      in (Inr True, obj\<lparr>materials := materials obj @ [mat],
                         polygons := all_index_0 (polygons obj)\<rparr>))"

text \<open>The body of the polygon loop of \<open>apply_soil_material_system\<close>.\<close>

definition soil_body ::
  "(string \<rightharpoonup> nat) \<Rightarrow> face_buckets \<Rightarrow> nat \<Rightarrow> polygon \<Rightarrow> py_error + polygon" where
  "soil_body material_indices B idx p =
     (if idx \<in> set (z_faces B) then
        (if material_indices ''z'' \<noteq> None then set_index p (dict_get material_indices ''z'')
         else if material_indices ''main'' \<noteq> None then set_index p (dict_get material_indices ''main'')
         else set_index p (dict_get material_indices ''default''))
      else if idx \<in> set (neg_z_faces B) then
        (if material_indices ''main'' \<noteq> None then set_index p (dict_get material_indices ''main'')
         else set_index p (dict_get material_indices ''default''))
      else
        (if material_indices ''main'' \<noteq> None then set_index p (dict_get material_indices ''main'')
         else set_index p (dict_get material_indices ''default'')))"

text \<open>
  \<open>apply_soil_material_system\<close>: the main material for the main texture, the Z
  material for the Z texture (the main texture when no Z texture is found), the
  default material when there is neither.
\<close>

definition apply_soil_material_system ::
  "(string \<Rightarrow> bool) \<Rightarrow> scene_object \<Rightarrow> int \<Rightarrow> model_config \<Rightarrow> (py_error + bool) \<times> scene_object" where
  "apply_soil_material_system ex obj pid cfg =
     (let main_texture_path = get_texture_path ex cfg ''x'';
          z_texture_path0 = get_texture_path ex cfg ''z'';
          z_texture_path = (if z_texture_path0 = None \<and> main_texture_path \<noteq> None
                            then main_texture_path else z_texture_path0);
          m0 = materials obj;
          m1 = (if main_texture_path \<noteq> None then m0 @ [Face_material pid ''x''] else m0);
          i1 = (if main_texture_path \<noteq> None then Map.empty(''main'' \<mapsto> 0) else Map.empty);
          m2 = (if z_texture_path \<noteq> None then m1 @ [Face_material pid ''z''] else m1);
          i2 = (if z_texture_path \<noteq> None then i1(''z'' \<mapsto> length m2 - 1) else i1);
          m3 = (if main_texture_path = None \<and> z_texture_path = None
                then m2 @ [Default_material pid] else m2);
          i3 = (if main_texture_path = None \<and> z_texture_path = None
                then i2(''default'' \<mapsto> 0) else i2);
          B = find_all_directional_faces (ob_type obj) (polygons obj)
      in if length (polygons obj) = 0 then (Inr False, obj\<lparr>materials := m3\<rparr>)
         else after_loop obj m3 (polygon_loop (soil_body i3 B) 0 (polygons obj)))"

text \<open>
  The body of the polygon loop of \<open>apply_minestone_material_system\<close>: each branch
  sets the index only under a test \<open>key in material_indices\<close>; when neither test of a
  branch holds, the polygon is left as it is.
\<close>

definition minestone_body ::
  "(string \<rightharpoonup> nat) \<Rightarrow> face_buckets \<Rightarrow> nat \<Rightarrow> polygon \<Rightarrow> py_error + polygon" where
  "minestone_body material_indices B idx p =
     (if idx \<in> set (x_faces B) \<or> idx \<in> set (neg_x_faces B) then
        (if material_indices ''x'' \<noteq> None then set_index p (dict_get material_indices ''x'')
         else if material_indices ''default'' \<noteq> None
           then set_index p (dict_get material_indices ''default'')
         else Inr p)
      else if idx \<in> set (y_faces B) \<or> idx \<in> set (neg_y_faces B) then
        (if material_indices ''y'' \<noteq> None then set_index p (dict_get material_indices ''y'')
         else if material_indices ''default'' \<noteq> None
           then set_index p (dict_get material_indices ''default'')
         else Inr p)
      else if idx \<in> set (z_faces B) \<or> idx \<in> set (neg_z_faces B) then
        (if material_indices ''z'' \<noteq> None then set_index p (dict_get material_indices ''z'')
         else if material_indices ''default'' \<noteq> None
           then set_index p (dict_get material_indices ''default'')
         else Inr p)
      else
        (if material_indices ''default'' \<noteq> None
           then set_index p (dict_get material_indices ''default'')
         else Inr p))"

text \<open>
  \<open>apply_minestone_material_system\<close>. Without any texture the default material is
  the only slot and every polygon gets index 0. Otherwise a slot is appended for each
  face that has a texture; the default material is appended only under the test
  \<open>not x_mat and not y_mat and not z_mat\<close>, as in the source.
\<close>

definition apply_minestone_material_system ::
  "(string \<Rightarrow> bool) \<Rightarrow> scene_object \<Rightarrow> int \<Rightarrow> model_config \<Rightarrow> (py_error + bool) \<times> scene_object" where
  "apply_minestone_material_system ex obj pid cfg =
     (let x_texture_path = get_texture_path ex cfg ''x'';
          y_texture_path = get_texture_path ex cfg ''y'';
          z_texture_path = get_texture_path ex cfg ''z''
      in if x_texture_path = None \<and> y_texture_path = None \<and> z_texture_path = None then
           (Inr True, obj\<lparr>materials := materials obj @ [Default_material pid],
                            polygons := all_index_0 (polygons obj)\<rparr>)
         else
           let m0 = materials obj;
               m1 = (if x_texture_path \<noteq> None then m0 @ [Face_material pid ''x''] else m0);
               i1 = (if x_texture_path \<noteq> None then Map.empty(''x'' \<mapsto> length m1 - 1)
                     else Map.empty);
               m2 = (if y_texture_path \<noteq> None then m1 @ [Face_material pid ''y''] else m1);
               i2 = (if y_texture_path \<noteq> None then i1(''y'' \<mapsto> length m2 - 1) else i1);
               m3 = (if z_texture_path \<noteq> None then m2 @ [Face_material pid ''z''] else m2);
               i3 = (if z_texture_path \<noteq> None then i2(''z'' \<mapsto> length m3 - 1) else i2);
               m4 = (if x_texture_path = None \<and> y_texture_path = None \<and> z_texture_path = None
                     then m3 @ [Default_material pid] else m3);
               i4 = (if x_texture_path = None \<and> y_texture_path = None \<and> z_texture_path = None
                     then i3(''default'' \<mapsto> 0) else i3);
               B = find_all_directional_faces (ob_type obj) (polygons obj)
           in if length (polygons obj) = 0 then (Inr False, obj\<lparr>materials := m4\<rparr>)
              else after_loop obj m4 (polygon_loop (minestone_body i4 B) 0 (polygons obj)))"

text \<open>The body of the polygon loop of \<open>apply_default_material_system\<close>.\<close>

definition default_body :: "face_buckets \<Rightarrow> nat \<Rightarrow> polygon \<Rightarrow> py_error + polygon" where
  "default_body B idx p =
     (if idx \<in> set (x_faces B) \<or> idx \<in> set (neg_x_faces B) then Inr (p\<lparr>material_index := 0\<rparr>)
      else if idx \<in> set (y_faces B) \<or> idx \<in> set (neg_y_faces B) then Inr (p\<lparr>material_index := 1\<rparr>)
      else if idx \<in> set (z_faces B) \<or> idx \<in> set (neg_z_faces B) then Inr (p\<lparr>material_index := 2\<rparr>)
      else Inr (p\<lparr>material_index := 3\<rparr>))"

text \<open>
  \<open>apply_default_material_system\<close>: without any texture the default material
  alone; otherwise the four slots X, Y, Z and default, in this order.
\<close>

definition apply_default_material_system ::
  "(string \<Rightarrow> bool) \<Rightarrow> scene_object \<Rightarrow> int \<Rightarrow> model_config \<Rightarrow> (py_error + bool) \<times> scene_object" where
  "apply_default_material_system ex obj pid cfg =
     (let x_texture_path = get_texture_path ex cfg ''x'';
          y_texture_path = get_texture_path ex cfg ''y'';
          z_texture_path = get_texture_path ex cfg ''z''
      in if x_texture_path = None \<and> y_texture_path = None \<and> z_texture_path = None then
           (Inr True, obj\<lparr>materials := materials obj @ [Default_material pid],
                            polygons := all_index_0 (polygons obj)\<rparr>)
         else
           let m = materials obj @ [Face_material pid ''x'', Face_material pid ''y'',
                                    Face_material pid ''z'', Default_material pid];
               B = find_all_directional_faces (ob_type obj) (polygons obj)
           in if length (polygons obj) = 0 then (Inr False, obj\<lparr>materials := m\<rparr>)
              else after_loop obj m (polygon_loop (default_body B) 0 (polygons obj)))"

text \<open>
  The first statement of \<open>apply_main_model_materials\<close>,
  \<open>if len(obj.data.materials) > 0: obj.data.materials.clear()\<close>: when the host clears
  the slots of a mesh it also resets the material index of every polygon to 0.
\<close>

definition clear_slots :: "scene_object \<Rightarrow> scene_object" where
  "clear_slots obj =
     (if length (materials obj) > 0
      then obj\<lparr>materials := [], polygons := all_index_0 (polygons obj)\<rparr>
      else obj)"

text \<open>
  \<open>apply_main_model_materials\<close>: the slots are cleared, then the system of the
  configuration stored for the id is applied. \<open>cfg\<close> is what
  \<open>get_model_config(position_id)\<close> returns.
\<close>

definition apply_main_model_materials ::
  "(string \<Rightarrow> bool) \<Rightarrow> scene_object \<Rightarrow> int \<Rightarrow> model_config option \<Rightarrow> (py_error + bool) \<times> scene_object" where
  "apply_main_model_materials ex obj pid cfg =
     (let obj1 = clear_slots obj in
      case cfg of
        None \<Rightarrow> (Inr False, obj1)
      | Some c \<Rightarrow>
          (case material_system c of
             Teamspawn_system \<Rightarrow> apply_teamspawn_material_system ex obj1 pid c
           | Soil_system \<Rightarrow> apply_soil_material_system ex obj1 pid c
           | Minestone_system \<Rightarrow> apply_minestone_material_system ex obj1 pid c
           | Submodel_only \<Rightarrow> (Inr True, obj1)
           | Default_system \<Rightarrow> apply_default_material_system ex obj1 pid c))"

text \<open>
  \<open>apply_submodel_materials\<close>: one slot, the submodel material when the mapping data
  names a submodel and the blocktype is not teamspawn, the default material
  otherwise.
\<close>

definition apply_submodel_materials ::
  "(string \<Rightarrow> bool) \<Rightarrow> scene_object \<Rightarrow> int \<Rightarrow> mapping_record option \<Rightarrow> model_config option
     \<Rightarrow> (py_error + bool) \<times> scene_object" where
  "apply_submodel_materials ex obj pid mapping_data cfg =
     (let sub = (case mapping_data of Some m \<Rightarrow> submodel_name m | None \<Rightarrow> []);
          bt = (case mapping_data of Some m \<Rightarrow> blocktype m | None \<Rightarrow> []);
          emission = (case cfg of Some c \<Rightarrow> get_submodel_emission_texture_path ex c
                      | None \<Rightarrow> None);
          mat = (if sub \<noteq> [] \<and> bt \<noteq> ''teamspawn''
                 then Submodel_material pid sub (case emission of Some e \<Rightarrow> ex e | None \<Rightarrow> False)
                 else Default_material pid)
      in (Inr True, obj\<lparr>materials := [mat], polygons := all_index_0 (polygons obj)\<rparr>))"

subsection \<open>Sample data\<close>

text \<open>
  A minestone record with prefix \<open>stone\<close>, its configuration, and a file system that
  holds the single texture \<open>/tex/7/stone_z.png\<close>, the one the X faces use.
\<close>

definition stone_record :: mapping_record where
  "stone_record =
     \<lparr> position_id = 7, blocktype = ''minestone'', main_texture_prefix = ''stone'',
       submodel_name = [], z_texture_prefix = [], has_main_texture = True,
       has_submodel = False, has_z_texture = False, all_parts = [] \<rparr>"

definition stone_files :: "string \<Rightarrow> bool" where
  "stone_files p = (p = ''/tex/7/stone_z.png'' \<or> p = ''/models/models/block.obj'')"

definition stone_config :: model_config where
  "stone_config = ModelConfig_init stone_files 7 (Some stone_record) ''/tex'' ''/models''"

definition sample_mesh :: scene_object where
  "sample_mesh =
     \<lparr> ob_name = ''block'', ob_type = MESH, polygons = sample_polygons,
       materials = [Imported_material ''a'', Imported_material ''b'', Imported_material ''c''],
       bound_size = (2, 2, 2), custom = None, parent = None, children = [],
       location = (0, 0, 0), rotation_euler = (0, 0, 0), placed = None \<rparr>"


section \<open>Scaling and placement arithmetic\<close>

text \<open>
  The two thresholds of the scaling code are the doubles the literals \<open>0.001\<close> and
  \<open>0.0001\<close> denote, which differ from the decimal fractions.
\<close>

definition double_0_001 :: real where
  "double_0_001 = 1152921504606847 / 1152921504606846976"

definition double_0_0001 :: real where
  "double_0_0001 = 7378697629483821 / 73786976294838206464"

text \<open>\<open>calculate_scaling_factor(original_size, scale_mode, custom_scale_factor, base_block_size)\<close>.\<close>

definition calculate_scaling_factor :: "real \<Rightarrow> string \<Rightarrow> real \<Rightarrow> real \<Rightarrow> real" where
  "calculate_scaling_factor original_size scale_mode custom_scale_factor base_block_size =
     (if scale_mode = ''ONE_METER'' then
        (if original_size > double_0_001 then base_block_size / original_size else 1)
      else if scale_mode = ''CUSTOM'' then custom_scale_factor
      else 1)"

text \<open>\<open>get_rotation_for_direction(direction_mode)\<close>, in radians.\<close>

definition get_rotation_for_direction :: "string \<Rightarrow> real" where
  "get_rotation_for_direction direction_mode =
     (if direction_mode = ''EAST'' then 0
      else if direction_mode = ''SOUTH'' then pi / 2
      else if direction_mode = ''WEST'' then pi
      else if direction_mode = ''NORTH'' then 3 * pi / 2
      else 0)"

text \<open>
  \<open>get_direction_vector(direction_mode)\<close>, the direction a block of that mode faces.
\<close>

definition get_direction_vector :: "string \<Rightarrow> vec3" where
  "get_direction_vector direction_mode =
     (if direction_mode = ''EAST'' then (1, 0, 0)
      else if direction_mode = ''SOUTH'' then (0, - 1, 0)
      else if direction_mode = ''WEST'' then (- 1, 0, 0)
      else if direction_mode = ''NORTH'' then (0, 1, 0)
      else (1, 0, 0))"

text \<open>
  \<open>get_world_coordinate_for_model\<close>: the grid coordinate times the model size
  (adjacent mode) or times the base block size; centre alignment lifts the block by
  half its height along Z.
\<close>

definition get_world_coordinate_for_model ::
  "int \<times> int \<times> int \<Rightarrow> real \<Rightarrow> real \<Rightarrow> real \<Rightarrow> real \<Rightarrow> string \<Rightarrow> bool \<Rightarrow> bool \<Rightarrow> vec3" where
  "get_world_coordinate_for_model grid_coord base_block_size model_size_x model_size_y
       model_size_z direction_mode use_model_center adjacent_mode =
     (case grid_coord of (x, y, z) \<Rightarrow>
        let world_x = (if adjacent_mode then of_int x * model_size_x else of_int x * base_block_size);
            world_y = (if adjacent_mode then of_int y * model_size_y else of_int y * base_block_size);
            world_z0 = (if adjacent_mode then of_int z * model_size_z else of_int z * base_block_size);
            world_z = (if \<not> use_model_center then world_z0 else world_z0 + model_size_z / 2)
        in (world_x, world_y, world_z))"

text \<open>\<open>calculate_model_dimensions(obj)\<close>: the sides of the bounding box and the largest.\<close>

definition calculate_model_dimensions :: "scene_object \<Rightarrow> real \<times> real \<times> real \<times> real" where
  "calculate_model_dimensions obj =
     (if ob_type obj \<noteq> MESH then (0, 0, 0, 0)
      else case bound_size obj of (sx, sy, sz) \<Rightarrow> (sx, sy, sz, max sx (max sy sz)))"

section \<open>The manager, the scene and the host\<close>

text \<open>
  The state the add-on works on: the caches of \<open>BlockModelManager\<close> (templates by
  position id, as names of scene objects; model configurations; the mapping table,
  \<open>None\<close> before one is loaded), the objects of the scene by name, and the list of
  paths handed to the OBJ importer so far, in order. The cache of material objects
  is left to the host together with the materials.
\<close>

record world =
  templates :: "int \<rightharpoonup> string"
  model_configs :: "int \<rightharpoonup> model_config"
  mapping_table :: "(int \<rightharpoonup> mapping_record) option"
  objects :: "string \<rightharpoonup> scene_object"
  imported_paths :: "string list"

text \<open>
  What the add-on asks of its environment: \<open>os.path.exists\<close>, and the OBJ importer
  followed by the join, the applied transform and the recomputed normals, which
  give the merged mesh of a file or \<open>None\<close> when nothing is imported or the host
  raises. Names requested for new objects are taken to be free in the scene.
\<close>

record host =
  path_exists :: "string \<Rightarrow> bool"
  obj_import :: "string \<Rightarrow> scene_object option"

text \<open>The fields of \<open>context.scene.block_generator_settings\<close> the two builders read.\<close>

record settings =
  scale_mode :: string
  custom_scale_factor :: real
  base_block_size :: real
  adjacent_mode :: bool

definition get_mapping_for_id :: "world \<Rightarrow> int \<Rightarrow> mapping_record option" where
  "get_mapping_for_id w pid = (case mapping_table w of Some t \<Rightarrow> t pid | None \<Rightarrow> None)"

definition has_main_model :: "(string \<Rightarrow> bool) \<Rightarrow> model_config \<Rightarrow> bool" where
  "has_main_model ex cfg = (need_main_model cfg \<and> ex (main_model_path cfg))"

definition has_submodel :: "(string \<Rightarrow> bool) \<Rightarrow> model_config \<Rightarrow> bool" where
  "has_submodel ex cfg =
     (if cfg_blocktype cfg = ''teamspawn'' then False
      else case submodel_path cfg of Some p \<Rightarrow> p \<noteq> [] \<and> ex p | None \<Rightarrow> False)"

text \<open>
  The steps of \<open>load_and_setup_model\<close> between the import and the materials: the
  mesh is named and moved to the origin, measured, scaled on all three axes when
  the factor differs from 1 by more than 0.0001 and measured again, and the sizes
  are stored on it.
\<close>

definition setup_model :: "settings \<Rightarrow> scene_object \<Rightarrow> string \<Rightarrow> bool \<Rightarrow> scene_object" where
  "setup_model st imported model_name as_main =
     (let merged = imported\<lparr>ob_name := model_name, location := (0, 0, 0)\<rparr>;
          dims = calculate_model_dimensions merged;
          factor = calculate_scaling_factor (snd (snd (snd dims))) (scale_mode st)
                     (custom_scale_factor st) (base_block_size st);
          scaled = (if \<bar>factor - 1\<bar> > double_0_0001
                    then merged\<lparr>bound_size :=
                           (case bound_size merged of (sx, sy, sz) \<Rightarrow>
                              (\<bar>factor\<bar> * sx, \<bar>factor\<bar> * sy, \<bar>factor\<bar> * sz))\<rparr>
                    else merged);
          dims' = calculate_model_dimensions scaled
      in scaled\<lparr>custom := Some
                  \<lparr> block_size_x = fst dims', block_size_y = fst (snd dims'),
                    block_size_z = fst (snd (snd dims')),
                    block_max_size = snd (snd (snd dims')),
                    is_main_model = as_main, scale_factor = factor \<rparr>\<rparr>)"

text \<open>
  \<open>load_and_setup_model\<close>: nothing happens for a missing file. Otherwise the file is
  imported, the mesh is set up and the materials are applied. The result is the
  name of the mesh, or \<open>None\<close> when nothing was imported or the material application
  raised; in the latter case the mesh stays in the scene as the application left it.
\<close>

definition load_and_setup_model ::
  "host \<Rightarrow> settings \<Rightarrow> world \<Rightarrow> string \<Rightarrow> string \<Rightarrow> int \<Rightarrow> mapping_record option \<Rightarrow> bool
     \<Rightarrow> string option \<times> world" where
  "load_and_setup_model h st w model_path model_name pid mapping_data as_main =
     (if \<not> path_exists h model_path then (None, w)
      else
        let w1 = w\<lparr>imported_paths := imported_paths w @ [model_path]\<rparr> in
        case obj_import h model_path of
          None \<Rightarrow> (None, w1)
        | Some imported \<Rightarrow>
            let stored = setup_model st imported model_name as_main;
                applied = (if as_main
                           then apply_main_model_materials (path_exists h) stored pid
                                  (model_configs w1 pid)
                           else apply_submodel_materials (path_exists h) stored pid mapping_data
                                  (model_configs w1 pid));
                w2 = w1\<lparr>objects := (objects w1)(model_name \<mapsto> snd applied)\<rparr>
            in case fst applied of
                 Inl e \<Rightarrow> (None, w2)
               | Inr r \<Rightarrow> (Some model_name, w2))"

text \<open>The two loading steps of \<open>create_template_for_position_id\<close>.\<close>

definition build_main_model ::
  "host \<Rightarrow> settings \<Rightarrow> world \<Rightarrow> model_config \<Rightarrow> int \<Rightarrow> mapping_record option
     \<Rightarrow> string option \<times> world" where
  "build_main_model h st w cfg pid mapping_data =
     (if has_main_model (path_exists h) cfg
      then load_and_setup_model h st w (main_model_path cfg) (''BlockMain_'' @ str_int pid) pid
             mapping_data True
      else (None, w))"

definition build_submodel ::
  "host \<Rightarrow> settings \<Rightarrow> world \<Rightarrow> model_config \<Rightarrow> int \<Rightarrow> mapping_record option
     \<Rightarrow> string option \<times> world" where
  "build_submodel h st w cfg pid mapping_data =
     (case submodel_path cfg of
        Some sp \<Rightarrow>
          if has_submodel (path_exists h) cfg
          then load_and_setup_model h st w sp (''BlockSub_'' @ str_int pid) pid mapping_data False
          else (None, w)
      | None \<Rightarrow> (None, w))"

definition set_parent :: "string \<Rightarrow> string option \<Rightarrow> (string \<rightharpoonup> scene_object) \<Rightarrow> (string \<rightharpoonup> scene_object)" where
  "set_parent container child objs =
     (case child of
        None \<Rightarrow> objs
      | Some n \<Rightarrow>
          (case objs n of
             None \<Rightarrow> objs
           | Some ob \<Rightarrow> objs(n \<mapsto> ob\<lparr>parent := Some container\<rparr>)))"

definition empty_object :: "string \<Rightarrow> scene_object" where
  "empty_object name =
     \<lparr> ob_name = name, ob_type = EMPTY, polygons = [], materials = [], bound_size = (0, 0, 0),
       custom = None, parent = None, children = [], location = (0, 0, 0),
       rotation_euler = (0, 0, 0), placed = None \<rparr>"

text \<open>
  \<open>create_template_for_position_id\<close>. A template stored for the id is returned at
  once. Otherwise the configuration is resolved and stored, the main model and the
  submodel are loaded as the configuration asks, and, when at least one of them was
  built, an empty named \<open>BlockTemplate_<id>\<close> becomes their parent and is stored as
  the template. With neither built the result is \<open>None\<close>.
\<close>

definition create_template_for_position_id ::
  "host \<Rightarrow> settings \<Rightarrow> world \<Rightarrow> int \<Rightarrow> string \<Rightarrow> string \<Rightarrow> string option \<times> world" where
  "create_template_for_position_id h st w pid texture_base_path models_base_path =
     (case templates w pid of
        Some template \<Rightarrow> (Some template, w)
      | None \<Rightarrow>
          let mapping_data = get_mapping_for_id w pid;
              cfg = ModelConfig_init (path_exists h) pid mapping_data texture_base_path
                      models_base_path;
              w1 = w\<lparr>model_configs := (model_configs w)(pid \<mapsto> cfg)\<rparr>;
              main = build_main_model h st w1 cfg pid mapping_data;
              sub = build_submodel h st (snd main) cfg pid mapping_data;
              w3 = snd sub
          in if fst main \<noteq> None \<or> fst sub \<noteq> None then
               let name = ''BlockTemplate_'' @ str_int pid;
                   kids = (case fst main of Some n \<Rightarrow> [n] | None \<Rightarrow> [])
                            @ (case fst sub of Some n \<Rightarrow> [n] | None \<Rightarrow> []);
                   container = (empty_object name)\<lparr>children := kids\<rparr>;
                   objs = set_parent name (fst sub)
                            (set_parent name (fst main) ((objects w3)(name \<mapsto> container)))
               in (Some name, w3\<lparr>objects := objs, templates := (templates w3)(pid \<mapsto> name)\<rparr>)
             else (None, w3))"

section \<open>Placing a block\<close>

definition startswith :: "string \<Rightarrow> string \<Rightarrow> bool" where
  "startswith s p = (take (length p) s = p)"

definition block_name :: "int \<Rightarrow> int \<Rightarrow> int \<Rightarrow> int \<Rightarrow> string" where
  "block_name pid x y z =
     ''Block_'' @ str_int pid @ ''_'' @ str_int x @ ''_'' @ str_int y @ ''_'' @ str_int z"

text \<open>The name a duplicated child ends with, after the renaming loop.\<close>

definition child_name :: "string \<Rightarrow> int \<Rightarrow> int \<Rightarrow> int \<Rightarrow> int \<Rightarrow> string" where
  "child_name original pid x y z =
     (if startswith original ''BlockMain_''
      then ''BlockMain_'' @ str_int pid @ ''_'' @ str_int x @ ''_'' @ str_int y @ ''_'' @ str_int z
      else if startswith original ''BlockSub_''
      then ''BlockSub_'' @ str_int pid @ ''_'' @ str_int x @ ''_'' @ str_int y @ ''_'' @ str_int z
      else original @ ''.001'')"

text \<open>The copies of the children of a template, renamed and parented to the new block.\<close>

fun duplicate_children ::
  "string \<Rightarrow> int \<Rightarrow> int \<Rightarrow> int \<Rightarrow> int \<Rightarrow> string list \<Rightarrow> (string \<rightharpoonup> scene_object)
     \<Rightarrow> (string \<rightharpoonup> scene_object)" where
  "duplicate_children new_parent pid x y z [] objs = objs"
| "duplicate_children new_parent pid x y z (c # cs) objs =
     (case objs c of
        None \<Rightarrow> duplicate_children new_parent pid x y z cs objs
      | Some ob \<Rightarrow>
          duplicate_children new_parent pid x y z cs
            (objs(child_name c pid x y z \<mapsto>
               ob\<lparr>ob_name := child_name c pid x y z, parent := Some new_parent\<rparr>)))"

text \<open>
  \<open>create_block_from_template\<close>. An object that already has the name of the block is
  returned at once. Without a template for the id, or with a template that has no
  children, the result is \<open>None\<close>. Otherwise the size of the first child gives the
  world coordinate, the template and its children are duplicated, and the copy of
  the container gets the name of the block, the location, the rotation
  \<open>(0.0, rotation_y, 0.0)\<close> and the grid data. A template or a first child that is
  no longer in the scene is treated like a missing template.
\<close>

definition create_block_from_template ::
  "host \<Rightarrow> settings \<Rightarrow> world \<Rightarrow> int \<Rightarrow> int \<Rightarrow> int \<Rightarrow> int \<Rightarrow> real \<Rightarrow> string \<Rightarrow> bool
     \<Rightarrow> string option \<times> world" where
  "create_block_from_template h st w pid x y z base_size direction_mode use_model_center =
     (if objects w (block_name pid x y z) \<noteq> None then (Some (block_name pid x y z), w)
      else
        case templates w pid of
          None \<Rightarrow> (None, w)
        | Some template_name \<Rightarrow>
            (case objects w template_name of
               None \<Rightarrow> (None, w)
             | Some template_container \<Rightarrow>
                 (case children template_container of
                    [] \<Rightarrow> (None, w)
                  | first # others \<Rightarrow>
                      (case objects w first of
                         None \<Rightarrow> (None, w)
                       | Some child_obj \<Rightarrow>
                           let size = (case custom child_obj of
                                         Some info \<Rightarrow>
                                           (block_size_x info, block_size_y info, block_size_z info)
                                       | None \<Rightarrow>
                                           (case calculate_model_dimensions child_obj of
                                              (sx, sy, sz, m) \<Rightarrow> (sx, sy, sz)));
                               world_pos = (case size of (size_x, size_y, size_z) \<Rightarrow>
                                  get_world_coordinate_for_model (x, y, z) base_size size_x size_y
                                    size_z direction_mode use_model_center (adjacent_mode st));
                               rotation_y = get_rotation_for_direction direction_mode;
                               kids = children template_container;
                               new_container = template_container
                                 \<lparr> ob_name := block_name pid x y z,
                                   children := map (\<lambda>c. child_name c pid x y z) kids,
                                   location := world_pos,
                                   rotation_euler := (0, rotation_y, 0),
                                   placed := Some \<lparr> grid_x = x, grid_y = y, grid_z = z,
                                                    block_position_id = pid,
                                                    direction = direction_mode \<rparr> \<rparr>;
                               objs = (duplicate_children (block_name pid x y z) pid x y z kids
                                         (objects w))(block_name pid x y z \<mapsto> new_container)
                           in (Some (block_name pid x y z), w\<lparr>objects := objs\<rparr>)))))"

subsection \<open>Sample data\<close>

text \<open>
  A host whose file system holds the shared block model and one texture for id 7,
  and whose importer gives the sample mesh for that model; the settings of a fresh
  scene; a manager with the sample mapping table and nothing built yet.
\<close>

definition sample_host :: host where
  "sample_host =
     \<lparr> path_exists = stone_files,
       obj_import = (\<lambda>p. if p = ''/models/models/block.obj'' then Some sample_mesh else None) \<rparr>"

definition sample_settings :: settings where
  "sample_settings =
     \<lparr> scale_mode = ''ONE_METER'', custom_scale_factor = 1, base_block_size = 1,
       adjacent_mode = True \<rparr>"

definition fresh_world :: world where
  "fresh_world =
     \<lparr> templates = Map.empty, model_configs = Map.empty,
       mapping_table = Some [7 \<mapsto> stone_record], objects = Map.empty, imported_paths = [] \<rparr>"

text \<open>The world after the template for id 7 has been built.\<close>

definition template_world :: world where
  "template_world =
     snd (create_template_for_position_id sample_host sample_settings fresh_world 7
            ''/tex'' ''/models'')"

text \<open>
  The main model and the container of that template, and the block placed from it at
  grid coordinate \<open>(2, -1, 3)\<close> facing south.
\<close>

definition built_main :: scene_object where
  "built_main =
     \<lparr> ob_name = ''BlockMain_7'', ob_type = MESH, polygons = all_index_0 sample_polygons,
       materials = [Face_material 7 ''x''], bound_size = (1, 1, 1),
       custom = Some \<lparr> block_size_x = 1, block_size_y = 1, block_size_z = 1,
                       block_max_size = 1, is_main_model = True, scale_factor = 1 / 2 \<rparr>,
       parent = Some ''BlockTemplate_7'', children = [],
       location = (0, 0, 0), rotation_euler = (0, 0, 0), placed = None \<rparr>"

definition built_template :: scene_object where
  "built_template = (empty_object ''BlockTemplate_7'')\<lparr>children := [''BlockMain_7'']\<rparr>"

definition placed_block :: scene_object where
  "placed_block =
     built_template\<lparr> ob_name := ''Block_7_2_-1_3'', children := [''BlockMain_7_2_-1_3''],
       location := (2, - 1, 3), rotation_euler := (0, pi / 2, 0),
       placed := Some \<lparr> grid_x = 2, grid_y = - 1, grid_z = 3, block_position_id = 7,
                        direction = ''SOUTH'' \<rparr> \<rparr>"

text \<open>The same block placed with centre alignment.\<close>

definition centred_block :: scene_object where
  "centred_block =
     built_template\<lparr> ob_name := ''Block_7_2_-1_3'', children := [''BlockMain_7_2_-1_3''],
       location := (2, - 1, 7 / 2), rotation_euler := (0, pi / 2, 0),
       placed := Some \<lparr> grid_x = 2, grid_y = - 1, grid_z = 3, block_position_id = 7,
                        direction = ''SOUTH'' \<rparr> \<rparr>"

text \<open>The configuration resolved for id 5, which the sample mapping table does not list.\<close>

definition unmapped_config :: model_config where
  "unmapped_config = ModelConfig_init stone_files 5 None ''/tex'' ''/models''"

section \<open>The coordinate parser\<close>

subsection \<open>Floating-point literals\<close>

text \<open>
  A Python \<open>float\<close> is an IEEE double: \<open>Finite k j\<close> is the number \<open>k * 2 ^ j\<close>,
  and there are the infinities (their sign plays no part here) and the NaNs.
\<close>

datatype pyfloat = Finite int int | Infinite | NaN

definition finite_value :: "int \<Rightarrow> int \<Rightarrow> real" where
  "finite_value k j = (if j \<ge> 0 then of_int k * 2 ^ nat j else of_int k / 2 ^ nat (- j))"

text \<open>Division of \<open>n\<close> by \<open>d > 0\<close>, rounded to the nearest integer, ties to the even one.\<close>

definition round_half_even :: "int \<Rightarrow> int \<Rightarrow> int" where
  "round_half_even n d =
     (let f = n div d; r = n mod d
      in if 2 * r < d then f
         else if 2 * r > d then f + 1
         else if even f then f else f + 1)"

text \<open>
  \<open>round(x)\<close> for a float: the nearest integer, ties to even; \<open>OverflowError\<close> for an
  infinity and \<open>ValueError\<close> for a NaN.
\<close>

definition py_round :: "pyfloat \<Rightarrow> py_error + int" where
  "py_round f =
     (case f of
        Finite k j \<Rightarrow> Inr (if j \<ge> 0 then k * 2 ^ nat j else round_half_even k (2 ^ nat (- j)))
      | Infinite \<Rightarrow> Inl OverflowError
      | NaN \<Rightarrow> Inl ValueError)"

fun ilog2 :: "nat \<Rightarrow> nat" where
  "ilog2 n = (if n < 2 then 0 else Suc (ilog2 (n div 2)))"

declare ilog2.simps [simp del]

text \<open>The integer part of the binary logarithm of \<open>p / q\<close>, for positive \<open>p\<close> and \<open>q\<close>.\<close>

definition floor_log2 :: "int \<Rightarrow> int \<Rightarrow> int" where
  "floor_log2 p q =
     (if q \<le> p then int (ilog2 (nat (p div q)))
      else - int (Suc (ilog2 (nat ((q - 1) div p)))))"

text \<open>
  The double nearest to \<open>m * 10 ^ e\<close> (\<open>m \<ge> 0\<close>), with the sign given apart: 53
  significant bits, ties to even, exponent not below \<open>-1022\<close> (so that small numbers
  are subnormal or zero), and infinity from \<open>2 ^ 1024\<close> on.
\<close>

definition nearest_double :: "bool \<Rightarrow> int \<Rightarrow> int \<Rightarrow> pyfloat" where
  "nearest_double neg m e =
     (if m = 0 then Finite 0 0
      else
        let p = (if e \<ge> 0 then m * 10 ^ nat e else m);
            q = (if e \<ge> 0 then 1 else 10 ^ nat (- e));
            s = max (floor_log2 p q) (- 1022) - 52;
            k = (if s \<ge> 0 then round_half_even p (q * 2 ^ nat s)
                 else round_half_even (p * 2 ^ nat (- s)) q)
        in if s \<ge> 0 \<and> k * 2 ^ nat s \<ge> 2 ^ 1024 then Infinite
           else Finite (if neg then - k else k) s)"

text \<open>
  A string cut at the first character that satisfies \<open>P\<close>: what stands before it,
  and what stands after it when there is one.
\<close>

definition split_first :: "(char \<Rightarrow> bool) \<Rightarrow> string \<Rightarrow> string \<times> string option" where
  "split_first P s =
     (takeWhile (\<lambda>c. \<not> P c) s,
      case dropWhile (\<lambda>c. \<not> P c) s of [] \<Rightarrow> None | c # rest \<Rightarrow> Some rest)"

definition signed_digits :: "string \<Rightarrow> int option" where
  "signed_digits s =
     (let neg = (s \<noteq> [] \<and> hd s = CHR ''-'');
          body = (if s \<noteq> [] \<and> (hd s = CHR ''-'' \<or> hd s = CHR ''+'') then tl s else s)
      in if valid_digits body
         then Some (if neg then - int (nat_of_digits body) else int (nat_of_digits body))
         else None)"

text \<open>
  A decimal literal \<open>digits [. [digits]] [e [sign] digits]\<close> or
  \<open>. digits [e [sign] digits]\<close>, as the integer of its digits and a power of ten.
\<close>

definition parse_decimal :: "string \<Rightarrow> (int \<times> int) option" where
  "parse_decimal body =
     (case split_first (\<lambda>c. c = CHR ''e'' \<or> c = CHR ''E'') body of
        (mant, ex) \<Rightarrow>
          (case split_first (\<lambda>c. c = CHR ''.'') mant of
             (ip, fr) \<Rightarrow>
               let frac = (case fr of None \<Rightarrow> [] | Some f \<Rightarrow> f);
                   mant_ok = (case fr of
                                None \<Rightarrow> valid_digits ip
                              | Some f \<Rightarrow> (ip = [] \<or> valid_digits ip) \<and> (f = [] \<or> valid_digits f)
                                           \<and> \<not> (ip = [] \<and> f = []));
                   exp_val = (case ex of None \<Rightarrow> Some 0 | Some e \<Rightarrow> signed_digits e)
               in if mant_ok
                  then (case exp_val of
                          None \<Rightarrow> None
                        | Some e \<Rightarrow>
                            Some (int (nat_of_digits (ip @ frac)),
                                  e - int (length (filter is_digit frac))))
                  else None))"

text \<open>
  \<open>float(s)\<close> on a string: surrounding whitespace is ignored, one sign is allowed,
  then \<open>inf\<close>, \<open>infinity\<close> or \<open>nan\<close> in any case, or a decimal literal; \<open>None\<close> stands
  for \<open>ValueError\<close>.
\<close>

definition py_float :: "string \<Rightarrow> pyfloat option" where
  "py_float s =
     (let t = c_strip s;
          neg = (t \<noteq> [] \<and> hd t = CHR ''-'');
          body = (if t \<noteq> [] \<and> (hd t = CHR ''-'' \<or> hd t = CHR ''+'') then tl t else t)
      in if py_lower body = ''inf'' \<or> py_lower body = ''infinity'' then Some Infinite
         else if py_lower body = ''nan'' then Some NaN
         else case parse_decimal body of
                None \<Rightarrow> None
              | Some (m, e) \<Rightarrow> Some (nearest_double neg m e))"

subsection \<open>Lines and placements\<close>

text \<open>
  \<open>re.split(r'\s+', s)\<close>: the fields between runs of whitespace, with an empty first
  or last field when the string starts or ends with whitespace.
\<close>

function ws_split_from :: "string \<Rightarrow> string \<Rightarrow> string list" where
  "ws_split_from cur [] = [cur]"
| "ws_split_from cur (c # cs) =
     (if is_space c then cur # ws_split_from [] (dropWhile is_space cs)
      else ws_split_from (cur @ [c]) cs)"
  by pat_completeness auto
termination
  by (relation "measure (\<lambda>(cur, s). length s)")
     (auto simp add: length_dropWhile_le less_Suc_eq_le)

definition re_split_ws :: "string \<Rightarrow> string list" where
  "re_split_ws s = ws_split_from [] s"

text \<open>One entry of the list \<open>parse_coordinate_string\<close> returns.\<close>

record coordinate =
  coord_id :: int
  coord_x :: int
  coord_y :: int
  coord_z :: int

text \<open>
  The dictionary appended for a line, \<open>int(round(x))\<close> and so on: the roundings are
  evaluated in the order x, y, z and may raise.
\<close>

definition make_coordinate :: "int \<Rightarrow> pyfloat \<Rightarrow> pyfloat \<Rightarrow> pyfloat \<Rightarrow> py_error + coordinate option" where
  "make_coordinate block_id x y z =
     (case py_round x of
        Inl e \<Rightarrow> Inl e
      | Inr xi \<Rightarrow>
          (case py_round y of
             Inl e \<Rightarrow> Inl e
           | Inr yi \<Rightarrow>
               (case py_round z of
                  Inl e \<Rightarrow> Inl e
                | Inr zi \<Rightarrow>
                    Inr (Some \<lparr>coord_id = block_id, coord_x = xi, coord_y = yi,
                                coord_z = zi\<rparr>))))"

text \<open>
  What the parser does with the fields of a line (the same statements in the comma
  branch and in the space branch): four fields are \<open>x, y, z, id\<close>, three are
  \<open>x, y, z\<close> with id 0, any other number gives no placement. The conversions run in
  the order of the source and the first failure raises.
\<close>

definition placement_of_fields :: "string list \<Rightarrow> py_error + coordinate option" where
  "placement_of_fields parts =
     (if length parts = 4 then
        (case py_float (parts ! 0) of
           None \<Rightarrow> Inl ValueError
         | Some x \<Rightarrow>
             (case py_float (parts ! 1) of
                None \<Rightarrow> Inl ValueError
              | Some y \<Rightarrow>
                  (case py_float (parts ! 2) of
                     None \<Rightarrow> Inl ValueError
                   | Some z \<Rightarrow>
                       (case py_int (parts ! 3) of
                          None \<Rightarrow> Inl ValueError
                        | Some block_id \<Rightarrow> make_coordinate block_id x y z))))
      else if length parts = 3 then
        (case py_float (parts ! 0) of
           None \<Rightarrow> Inl ValueError
         | Some x \<Rightarrow>
             (case py_float (parts ! 1) of
                None \<Rightarrow> Inl ValueError
              | Some y \<Rightarrow>
                  (case py_float (parts ! 2) of
                     None \<Rightarrow> Inl ValueError
                   | Some z \<Rightarrow> make_coordinate 0 x y z)))
      else Inr None)"

text \<open>
  The fields of a stripped line: split at the commas, each field stripped, when the
  line holds a comma; split at the runs of whitespace when it holds no comma but a
  space; none otherwise.
\<close>

definition line_fields :: "string \<Rightarrow> string list option" where
  "line_fields line =
     (if CHR '','' \<in> set line then Some (map strip (py_split CHR '','' line))
      else if CHR '' '' \<in> set line then Some (re_split_ws (strip line))
      else None)"

text \<open>
  One round of the loop of \<open>parse_coordinate_string\<close>: the placement of the line, if
  it gives one. Blank lines and lines starting with \<open>#\<close> are passed over, and so is
  a line whose conversion raises \<open>ValueError\<close> or \<open>IndexError\<close>; any other error
  leaves the loop.
\<close>

definition parse_coordinate_line :: "string \<Rightarrow> py_error + coordinate option" where
  "parse_coordinate_line l =
     (let line = strip l in
      if line = [] \<or> hd line = CHR ''#'' then Inr None
      else
        case line_fields line of
          None \<Rightarrow> Inr None
        | Some parts \<Rightarrow>
            (case placement_of_fields parts of
               Inl e \<Rightarrow> (if e = ValueError \<or> e = IndexError then Inr None else Inl e)
             | Inr r \<Rightarrow> Inr r))"

fun parse_coordinate_lines :: "string list \<Rightarrow> coordinate list \<Rightarrow> py_error + coordinate list" where
  "parse_coordinate_lines [] coordinates = Inr coordinates"
| "parse_coordinate_lines (l # ls) coordinates =
     (case parse_coordinate_line l of
        Inl e \<Rightarrow> Inl e
      | Inr None \<Rightarrow> parse_coordinate_lines ls coordinates
      | Inr (Some c) \<Rightarrow> parse_coordinate_lines ls (coordinates @ [c]))"

text \<open>
  \<open>parse_coordinate_string(coord_str)\<close>: the placements of the lines in order, or the
  error that left the loop.
\<close>

definition parse_coordinate_string :: "string \<Rightarrow> py_error + coordinate list" where
  "parse_coordinate_string coord_str =
     parse_coordinate_lines (py_split CHR 0x0A (strip coord_str)) []"

subsection \<open>Sample data\<close>

text \<open>
  The text of two lines \<open>-4,0,9,1\<close> and \<open>2 3 1\<close>; a line of four fields separated by
  tabs; a line that ends with a no-break space; and a line whose first coordinate is
  infinite.
\<close>

definition scenario_text :: string where
  "scenario_text = ''-4,0,9,1'' @ [CHR 0x0A] @ ''2 3 1'' @ [CHR 0x0A]"

definition tab_line :: string where
  "tab_line = ''1'' @ [CHR 0x09] @ ''2'' @ [CHR 0x09] @ ''3'' @ [CHR 0x09] @ ''4''"

definition nbsp_line :: string where
  "nbsp_line = ''1,2,3,4'' @ [CHR 0xA0]"

definition infinite_line :: string where
  "infinite_line = ''inf,0,0''"


section \<open>Facts about the helpers\<close>

lemma str_nat_not_Nil: "str_nat n \<noteq> []"
  by (subst str_nat.simps) simp

lemma digit_char_not_slash: "d < 10 \<Longrightarrow> digit_char d \<noteq> CHR ''/''"
proof -
  assume "d < 10"
  then have "d = 0 \<or> d = 1 \<or> d = 2 \<or> d = 3 \<or> d = 4 \<or> d = 5 \<or> d = 6 \<or> d = 7
    \<or> d = 8 \<or> d = 9"
    by arith
  then show ?thesis
    by (auto simp add: digit_char_def)
qed

lemma join2_plain:
  "a \<noteq> [] \<Longrightarrow> last a \<noteq> CHR ''/'' \<Longrightarrow> b \<noteq> [] \<Longrightarrow> hd b \<noteq> CHR ''/'' \<Longrightarrow>
   join2 a b = a @ ''/'' @ b"
  by (simp add: join2_def)


lemma split_from_no_sep:
  "sep \<notin> set cur \<Longrightarrow> \<forall>p \<in> set (split_from sep cur s). sep \<notin> set p"
proof (induction s arbitrary: cur)
  case Nil
  then show ?case by simp
next
  case (Cons a s)
  show ?case
  proof (cases "a = sep")
    case True
    have "\<forall>p \<in> set (split_from sep [] s). sep \<notin> set p"
      by (rule Cons.IH) simp
    with True Cons.prems show ?thesis by simp
  next
    case False
    with Cons.prems have "sep \<notin> set (cur @ [a])" by simp
    then have "\<forall>p \<in> set (split_from sep (cur @ [a]) s). sep \<notin> set p"
      by (rule Cons.IH)
    with False show ?thesis by simp
  qed
qed

lemma py_split_no_sep: "p \<in> set (py_split sep s) \<Longrightarrow> sep \<notin> set p"
  using split_from_no_sep [of sep "[]" s] by (simp add: py_split_def)

lemma hd_split_from: "hd (split_from sep cur s) = cur @ takeWhile (\<lambda>c. c \<noteq> sep) s"
  by (induction s arbitrary: cur) auto

lemma split_from_not_Nil: "split_from sep cur s \<noteq> []"
  by (induction s arbitrary: cur) auto

lemma py_split_first: "py_split sep s ! 0 = takeWhile (\<lambda>c. c \<noteq> sep) s"
  using hd_split_from [of sep "[]" s] split_from_not_Nil [of sep "[]" s]
  by (simp add: py_split_def hd_conv_nth)

lemma not_packed_prefix: "\<not> packed_prefix (py_split CHR '','' s)"
proof (cases "length (py_split CHR '','' s) > 43")
  case True
  then have "py_split CHR '','' s ! 43 \<in> set (py_split CHR '','' s)"
    by simp
  then have "CHR '','' \<notin> set (py_split CHR '','' s ! 43)"
    by (rule py_split_no_sep)
  with True show ?thesis
    by (simp add: packed_prefix_def)
next
  case False
  then show ?thesis
    by (simp add: packed_prefix_def)
qed

lemma rstrip_prefix: "\<exists>rest. t = rstrip t @ rest"
proof -
  have "rstrip t @ rev (takeWhile is_space (rev t))
        = rev (takeWhile is_space (rev t) @ dropWhile is_space (rev t))"
    by (simp only: rstrip_def rev_append)
  also have "\<dots> = t"
    by (simp only: takeWhile_dropWhile_id rev_rev_ident)
  finally have "t = rstrip t @ rev (takeWhile is_space (rev t))"
    by simp
  then show ?thesis ..
qed

lemma hd_rstrip: "rstrip t \<noteq> [] \<Longrightarrow> hd (rstrip t) = hd t"
proof -
  assume ne: "rstrip t \<noteq> []"
  obtain rest where "t = rstrip t @ rest"
    using rstrip_prefix by blast
  then have "hd t = hd (rstrip t @ rest)" by simp
  with ne show ?thesis by simp
qed

lemma hd_strip_not_space: "strip s \<noteq> [] \<Longrightarrow> \<not> is_space (hd (strip s))"
proof -
  assume ne: "strip s \<noteq> []"
  then have h: "hd (strip s) = hd (lstrip s)"
    by (simp add: strip_def hd_rstrip)
  from ne have "lstrip s \<noteq> []"
    by (auto simp add: strip_def rstrip_def)
  then have "\<not> is_space (hd (lstrip s))"
    by (simp add: lstrip_def hd_dropWhile)
  with h show ?thesis by simp
qed

lemma c_strip_keeps_hd:
  assumes "s \<noteq> []" and "\<not> is_c_space (hd s)"
  shows "c_strip s \<noteq> [] \<and> hd (c_strip s) = hd s"
proof -
  from assms obtain c cs where s: "s = c # cs" and c: "\<not> is_c_space c"
    by (cases s) auto
  have "dropWhile is_c_space (rev cs @ [c]) = dropWhile is_c_space (rev cs) @ [c]"
    using c by (simp add: dropWhile_append)
  then show ?thesis
    using c by (simp add: c_strip_def s)
qed

lemma c_space_is_space: "is_c_space c \<Longrightarrow> is_space c"
  by (auto simp add: is_c_space_def is_space_def)

lemma valid_digits_hd: "valid_digits b \<Longrightarrow> b \<noteq> [] \<and> is_digit (hd b)"
  by (induction b rule: valid_digits.induct) auto

lemma py_int_Some_not_Nil: "py_int t = Some v \<Longrightarrow> t \<noteq> []"
  by (auto simp add: py_int_def Let_def c_strip_def split: if_splits)

lemma py_int_Some_hd:
  assumes "py_int t = Some v" and "\<not> is_space (hd t)"
  shows "hd t \<noteq> CHR ''=''"
proof
  assume eq: "hd t = CHR ''=''"
  from assms(1) have ne: "t \<noteq> []" by (rule py_int_Some_not_Nil)
  from assms(2) have "\<not> is_c_space (hd t)"
    using c_space_is_space by blast
  with ne have st: "c_strip t \<noteq> [] \<and> hd (c_strip t) = hd t"
    by (rule c_strip_keeps_hd)
  from assms(1) have "valid_digits (c_strip t)"
    using st eq by (auto simp add: py_int_def Let_def split: if_splits)
  then have "is_digit (hd (c_strip t))"
    by (simp add: valid_digits_hd)
  with st eq show False
    by (simp add: is_digit_def)
qed

lemma str_nat_no_slash: "CHR ''/'' \<notin> set (str_nat n)"
proof (induction n rule: str_nat.induct)
  case (1 n)
  show ?case
  proof (cases "n < 10")
    case True
    then show ?thesis
      using digit_char_not_slash [of n] by (subst str_nat.simps) auto
  next
    case False
    with 1 have "CHR ''/'' \<notin> set (str_nat (n div 10))" by simp
    moreover have "digit_char (n mod 10) \<noteq> CHR ''/''"
      by (rule digit_char_not_slash) simp
    ultimately show ?thesis
      using False by (subst str_nat.simps) auto
  qed
qed

lemma str_int_no_slash:
  "str_int i \<noteq> [] \<and> hd (str_int i) \<noteq> CHR ''/'' \<and> last (str_int i) \<noteq> CHR ''/''"
proof -
  have ne: "str_int i \<noteq> []"
    by (simp add: str_int_def str_nat_not_Nil)
  have "CHR ''/'' \<notin> set (str_int i)"
    by (simp add: str_int_def str_nat_no_slash)
  with ne show ?thesis
    by (metis hd_in_set last_in_set)
qed

lemma parse_mapping_line_fields:
  assumes "parse_mapping_line l = Parsed r"
  shows "46 \<le> length (all_parts r) \<and> all_parts r = py_split CHR '','' (strip l)
         \<and> py_int (all_parts r ! 0) = Some (position_id r)
         \<and> blocktype r = all_parts r ! 6
         \<and> main_texture_prefix r = all_parts r ! 43
         \<and> submodel_name r = all_parts r ! 44
         \<and> z_texture_prefix r = all_parts r ! 44"
  using assms not_packed_prefix [of "strip l"]
  by (auto simp add: parse_mapping_line_def Let_def split: if_splits option.splits)

lemma parse_step_invariant:
  assumes "\<forall>pid r. mapping st pid = Some r \<longrightarrow> P r"
      and "\<And>r. parse_mapping_line l = Parsed r \<Longrightarrow> P r"
  shows "\<forall>pid r. mapping (parse_step st l) pid = Some r \<longrightarrow> P r"
  using assms by (auto simp add: parse_step_def split: line_result.splits if_splits)

lemma foldl_parse_step_invariant:
  assumes "\<forall>pid r. mapping st pid = Some r \<longrightarrow> P r"
      and "\<And>l r. parse_mapping_line l = Parsed r \<Longrightarrow> P r"
  shows "\<forall>pid r. mapping (foldl parse_step st ls) pid = Some r \<longrightarrow> P r"
  using assms(1)
proof (induction ls arbitrary: st)
  case Nil
  then show ?case by simp
next
  case (Cons l ls)
  have "\<forall>pid r. mapping (parse_step st l) pid = Some r \<longrightarrow> P r"
    using Cons.prems assms(2) by (rule parse_step_invariant)
  then show ?case
    using Cons.IH by simp
qed

lemma parse_mapping_table_invariant:
  assumes "\<And>l r. parse_mapping_line l = Parsed r \<Longrightarrow> P r"
      and "parse_mapping_table files path pid = Some r"
  shows "P r"
proof (cases "files path")
  case None
  with assms(2) show ?thesis by (simp add: parse_mapping_table_def)
next
  case (Some ls)
  have "\<forall>pid r. mapping (foldl parse_step
          \<lparr>mapping = Map.empty, valid_lines = 0, invalid_lines = 0\<rparr> ls) pid = Some r \<longrightarrow> P r"
    by (rule foldl_parse_step_invariant) (simp, rule assms(1))
  with Some assms(2) show ?thesis
    by (simp add: parse_mapping_table_def parse_mapping_lines_def)
qed

lemma scenario_parts:
  "py_split CHR '','' (strip (scenario_line @ [CHR 0x0A])) =
     [''7'', [], [], [], [], [], ''minestone'', [], [], [], [], [], [], [], [],
      [], [], [], [], [], [], [], [], [], [], [], [], [], [], [], [], [], [],
      [], [], [], [], [], [], [], [], [], [], ''hupo'', ''hupo1'', []]"
  by (simp add: scenario_line_def strip_def lstrip_def rstrip_def is_space_def py_split_def
      eval_nat_numeral)

lemma py_int_7: "py_int ''7'' = Some 7"
  by (simp add: py_int_def c_strip_def is_c_space_def is_digit_def
      nat_of_digits_def digit_val_def)

section \<open>Teamspawn configurations\<close>

text \<open>
  C3. For every mapping record whose blocktype is teamspawn, whatever its submodel
  name, the resolved configuration needs the main model, has an empty submodel name
  and no submodel path (the lookup is not run, whatever files exist), and its main
  model path is \<open>os.path.join(models_root, str(position_id), "teamspawn.obj")\<close>, which
  is \<open>{models_root}/{position_id}/teamspawn.obj\<close> for a non-empty root that does not
  end in a separator.
\<close>

theorem teamspawn_configuration:
  assumes "blocktype m = ''teamspawn''"
  shows "need_main_model (ModelConfig_init ex pid (Some m) tex models)
       \<and> cfg_submodel_name (ModelConfig_init ex pid (Some m) tex models) = []
       \<and> submodel_path (ModelConfig_init ex pid (Some m) tex models) = None
       \<and> main_model_path (ModelConfig_init ex pid (Some m) tex models)
           = os_path_join models [str_int pid, ''teamspawn.obj'']
       \<and> (models \<noteq> [] \<and> last models \<noteq> CHR ''/'' \<longrightarrow>
            main_model_path (ModelConfig_init ex pid (Some m) tex models)
              = models @ ''/'' @ str_int pid @ ''/teamspawn.obj'')"
proof -
  have plain: "os_path_join models [str_int pid, ''teamspawn.obj'']
                 = models @ ''/'' @ str_int pid @ ''/teamspawn.obj''"
    if "models \<noteq> []" and "last models \<noteq> CHR ''/''"
  proof -
    have a: "join2 models (str_int pid) = models @ ''/'' @ str_int pid"
      using that str_int_no_slash [of pid] by (simp add: join2_plain)
    have b: "join2 (models @ ''/'' @ str_int pid) ''teamspawn.obj''
               = (models @ ''/'' @ str_int pid) @ ''/'' @ ''teamspawn.obj''"
      using str_int_no_slash [of pid] by (simp add: join2_def)
    have "os_path_join models [str_int pid, ''teamspawn.obj'']
            = (models @ ''/'' @ str_int pid) @ ''/'' @ ''teamspawn.obj''"
      by (simp only: os_path_join_def foldl.simps a b)
    then show ?thesis
      by simp
  qed
  show ?thesis
    using assms plain by (simp add: ModelConfig_init_def select_material_system_def Let_def)
qed

text \<open>
  The theorem at a record with submodel name \<open>flag\<close>, on a file system where every
  path exists.
\<close>

theorem teamspawn_configuration_witness:
  "need_main_model (ModelConfig_init (\<lambda>p. True) 12 (Some teamspawn_record) ''/tex'' ''/assets'')
   \<and> submodel_name teamspawn_record = ''flag''
   \<and> cfg_submodel_name (ModelConfig_init (\<lambda>p. True) 12 (Some teamspawn_record) ''/tex'' ''/assets'') = []
   \<and> submodel_path (ModelConfig_init (\<lambda>p. True) 12 (Some teamspawn_record) ''/tex'' ''/assets'') = None
   \<and> main_model_path (ModelConfig_init (\<lambda>p. True) 12 (Some teamspawn_record) ''/tex'' ''/assets'')
        = ''/assets/12/teamspawn.obj''"
proof -
  have bt: "blocktype teamspawn_record = ''teamspawn''"
    by (simp add: teamspawn_record_def)
  have s: "str_int 12 = ''12''"
    by (simp add: str_int_def str_nat.simps digit_char_def)
  show ?thesis
    using teamspawn_configuration [OF bt, of "\<lambda>p. True" 12 "''/tex''" "''/assets''"] s
    by (simp add: teamspawn_record_def os_path_join_def join2_def)
qed


section \<open>Parsing a mapping line\<close>

lemma parse_mapping_line_Parsed:
  assumes parts: "py_split CHR '','' (strip l) = parts"
      and len: "46 \<le> length parts"
      and pid: "py_int (parts ! 0) = Some i"
  shows "parse_mapping_line l =
           Parsed \<lparr> position_id = i, blocktype = parts ! 6,
                    main_texture_prefix = parts ! 43, submodel_name = parts ! 44,
                    z_texture_prefix = parts ! 44,
                    has_main_texture = (parts ! 43 \<noteq> []),
                    has_submodel = (parts ! 44 \<noteq> []),
                    has_z_texture = (parts ! 44 \<noteq> []),
                    all_parts = parts \<rparr>"
proof -
  have first: "parts ! 0 = takeWhile (\<lambda>c. c \<noteq> CHR '','') (strip l)"
    using parts py_split_first [of "CHR '',''" "strip l"] by simp
  from pid have ne0: "parts ! 0 \<noteq> []"
    by (rule py_int_Some_not_Nil)
  with first have ne: "strip l \<noteq> []"
    by auto
  from ne0 first have hd0: "hd (parts ! 0) = hd (strip l)"
    by (metis hd_append2 takeWhile_dropWhile_id)
  from ne have "\<not> is_space (hd (strip l))"
    by (rule hd_strip_not_space)
  with hd0 have "\<not> is_space (hd (parts ! 0))"
    by simp
  with pid have "hd (parts ! 0) \<noteq> CHR ''=''"
    by (rule py_int_Some_hd)
  with hd0 have noeq: "hd (strip l) \<noteq> CHR ''=''"
    by simp
  have np: "\<not> packed_prefix parts"
    using not_packed_prefix [of "strip l"] parts by simp
  show ?thesis
    using ne noeq parts len pid np
    by (simp add: parse_mapping_line_def Let_def)
qed

text \<open>
  C8, as amended. Every line whose comma-split has at least 46 fields and whose first
  field reads as an integer parses to the record built from the fields as they are:
  the id from field 0, the blocktype from field 6, the main texture prefix from
  field 43, and both the submodel name and the Z texture prefix from field 44; the
  condition of the special case is false for it, and a table read from that line
  maps the id to the record. So a line with id 7, \<open>minestone\<close> at index 6, \<open>hupo\<close>
  at index 43 and \<open>hupo1\<close> at index 44 gives main texture prefix \<open>hupo\<close>, Z texture
  prefix \<open>hupo1\<close> and submodel name \<open>hupo1\<close>, and resolving the record gives the
  minestone material system.
\<close>

theorem mapping_line_scenario:
  assumes parts: "py_split CHR '','' (strip l) = parts"
      and len: "46 \<le> length parts"
      and pid: "py_int (parts ! 0) = Some i"
      and fl: "files path = Some [l]"
  shows "parse_mapping_line l =
           Parsed \<lparr> position_id = i, blocktype = parts ! 6,
                    main_texture_prefix = parts ! 43, submodel_name = parts ! 44,
                    z_texture_prefix = parts ! 44,
                    has_main_texture = (parts ! 43 \<noteq> []),
                    has_submodel = (parts ! 44 \<noteq> []),
                    has_z_texture = (parts ! 44 \<noteq> []),
                    all_parts = parts \<rparr>
       \<and> parse_mapping_table files path i =
           Some \<lparr> position_id = i, blocktype = parts ! 6,
                  main_texture_prefix = parts ! 43, submodel_name = parts ! 44,
                  z_texture_prefix = parts ! 44,
                  has_main_texture = (parts ! 43 \<noteq> []),
                  has_submodel = (parts ! 44 \<noteq> []),
                  has_z_texture = (parts ! 44 \<noteq> []),
                  all_parts = parts \<rparr>
       \<and> \<not> packed_prefix parts
       \<and> (i = 7 \<and> parts ! 6 = ''minestone'' \<and> parts ! 43 = ''hupo'' \<and> parts ! 44 = ''hupo1''
            \<longrightarrow> (\<exists>r. parse_mapping_line l = Parsed r
                   \<and> parse_mapping_table files path 7 = Some r
                   \<and> position_id r = 7
                   \<and> blocktype r = ''minestone''
                   \<and> main_texture_prefix r = ''hupo''
                   \<and> z_texture_prefix r = ''hupo1''
                   \<and> submodel_name r = ''hupo1''
                   \<and> material_system
                        (ModelConfig_init ex 7 (parse_mapping_table files path 7) tex models)
                       = Minestone_system))"
proof -
  let ?r = "\<lparr> position_id = i, blocktype = parts ! 6,
                    main_texture_prefix = parts ! 43, submodel_name = parts ! 44,
                    z_texture_prefix = parts ! 44,
                    has_main_texture = (parts ! 43 \<noteq> []),
                    has_submodel = (parts ! 44 \<noteq> []),
                    has_z_texture = (parts ! 44 \<noteq> []),
                    all_parts = parts \<rparr>"
  have line: "parse_mapping_line l = Parsed ?r"
    using parts len pid by (rule parse_mapping_line_Parsed)
  have table: "parse_mapping_table files path i = Some ?r"
    using fl line
    by (simp add: parse_mapping_table_def parse_mapping_lines_def parse_step_def)
  have np: "\<not> packed_prefix parts"
    using not_packed_prefix [of "strip l"] parts by simp
  have sys: "material_system (ModelConfig_init ex 7 (Some ?r) tex models) = Minestone_system"
    if "parts ! 6 = ''minestone''"
    using that by (simp add: ModelConfig_init_def select_material_system_def Let_def)
  show ?thesis
  proof (intro conjI impI)
    show "parse_mapping_line l = Parsed ?r"
      by (rule line)
    show "parse_mapping_table files path i = Some ?r"
      by (rule table)
    show "\<not> packed_prefix parts"
      by (rule np)
  next
    assume a: "i = 7 \<and> parts ! 6 = ''minestone'' \<and> parts ! 43 = ''hupo''
                 \<and> parts ! 44 = ''hupo1''"
    then have "material_system (ModelConfig_init ex 7 (Some ?r) tex models) = Minestone_system"
      using sys by simp
    with a line table show "\<exists>r. parse_mapping_line l = Parsed r
                   \<and> parse_mapping_table files path 7 = Some r
                   \<and> position_id r = 7
                   \<and> blocktype r = ''minestone''
                   \<and> main_texture_prefix r = ''hupo''
                   \<and> z_texture_prefix r = ''hupo1''
                   \<and> submodel_name r = ''hupo1''
                   \<and> material_system
                        (ModelConfig_init ex 7 (parse_mapping_table files path 7) tex models)
                       = Minestone_system"
      by simp
  qed
qed

text \<open>The theorem at the sample line, read from a one-line file.\<close>

theorem mapping_line_scenario_witness:
  "(\<exists>r. parse_mapping_line (scenario_line @ [CHR 0x0A]) = Parsed r
       \<and> parse_mapping_table scenario_files ''mapping.csv'' 7 = Some r
       \<and> position_id r = 7
       \<and> blocktype r = ''minestone''
       \<and> main_texture_prefix r = ''hupo''
       \<and> z_texture_prefix r = ''hupo1''
       \<and> submodel_name r = ''hupo1''
       \<and> material_system
            (ModelConfig_init (\<lambda>p. False) 7 (parse_mapping_table scenario_files ''mapping.csv'' 7)
               ''/tex'' ''/assets'') = Minestone_system)
   \<and> 46 \<le> length (py_split CHR '','' (strip (scenario_line @ [CHR 0x0A])))
   \<and> py_split CHR '','' (strip (scenario_line @ [CHR 0x0A])) ! 6 = ''minestone''
   \<and> py_split CHR '','' (strip (scenario_line @ [CHR 0x0A])) ! 43 = ''hupo''
   \<and> py_split CHR '','' (strip (scenario_line @ [CHR 0x0A])) ! 44 = ''hupo1''"
proof -
  have fl: "scenario_files ''mapping.csv'' = Some [scenario_line @ [CHR 0x0A]]"
    by (simp add: scenario_files_def)
  have len: "46 \<le> length (py_split CHR '','' (strip (scenario_line @ [CHR 0x0A])))"
    and pid: "py_int (py_split CHR '','' (strip (scenario_line @ [CHR 0x0A])) ! 0) = Some 7"
    and f6: "py_split CHR '','' (strip (scenario_line @ [CHR 0x0A])) ! 6 = ''minestone''"
    and f43: "py_split CHR '','' (strip (scenario_line @ [CHR 0x0A])) ! 43 = ''hupo''"
    and f44: "py_split CHR '','' (strip (scenario_line @ [CHR 0x0A])) ! 44 = ''hupo1''"
    by (simp_all add: scenario_parts py_int_7)
  show ?thesis
    using mapping_line_scenario [where l = "scenario_line @ [CHR 0x0A]"
        and parts = "py_split CHR '','' (strip (scenario_line @ [CHR 0x0A]))" and i = 7
        and files = scenario_files and path = "''mapping.csv''" and ex = "\<lambda>p. False"
        and tex = "''/tex''" and models = "''/assets''", OF refl len pid fl]
      len f6 f43 f44
    by blast
qed

text \<open>
  C8, as claimed, fails in its last clause: the sample line does not realise the
  special case. Its field 43 is \<open>hupo\<close>, which holds no comma, so the condition of
  the special case is false and nothing is split again; the main texture prefix is
  field 43 as a whole and the Z texture prefix is field 44, the field after it.
\<close>

theorem scenario_line_is_not_the_special_case:
  "py_split CHR '','' (strip (scenario_line @ [CHR 0x0A])) ! 43 = ''hupo''
   \<and> CHR '','' \<notin> set (py_split CHR '','' (strip (scenario_line @ [CHR 0x0A])) ! 43)
   \<and> \<not> packed_prefix (py_split CHR '','' (strip (scenario_line @ [CHR 0x0A])))
   \<and> (\<exists>r. parse_mapping_line (scenario_line @ [CHR 0x0A]) = Parsed r
          \<and> main_texture_prefix r = all_parts r ! 43
          \<and> z_texture_prefix r = all_parts r ! 44
          \<and> all_parts r ! 44 = ''hupo1''
          \<and> py_split CHR '','' (all_parts r ! 43) = [''hupo''])"
proof -
  have line: "parse_mapping_line (scenario_line @ [CHR 0x0A]) =
     Parsed \<lparr> position_id = 7, blocktype = ''minestone'',
            main_texture_prefix = ''hupo'', submodel_name = ''hupo1'',
            z_texture_prefix = ''hupo1'', has_main_texture = True,
            has_submodel = True, has_z_texture = True,
            all_parts = py_split CHR '','' (strip (scenario_line @ [CHR 0x0A])) \<rparr>"
    using parse_mapping_line_Parsed [OF refl, of "scenario_line @ [CHR 0x0A]" 7]
    by (simp add: scenario_parts py_int_7)
  have f43: "py_split CHR '','' (strip (scenario_line @ [CHR 0x0A])) ! 43 = ''hupo''"
    and f44: "py_split CHR '','' (strip (scenario_line @ [CHR 0x0A])) ! 44 = ''hupo1''"
    by (simp_all add: scenario_parts)
  have np: "\<not> packed_prefix (py_split CHR '','' (strip (scenario_line @ [CHR 0x0A])))"
    by (simp add: scenario_parts packed_prefix_def)
  have sp: "py_split CHR '','' ''hupo'' = [''hupo'']"
    by (simp add: py_split_def)
  show ?thesis
    by (simp add: line f43 f44 np sp)
qed

text \<open>
  C10. In every record of a parsed mapping table the Z texture prefix equals the
  submodel name: both are field 44 of the line, and the main texture prefix is field
  43 unchanged. The fields come from splitting the line at the commas, so field 43
  holds no comma and the condition of the special case is false for every line.
\<close>

theorem z_prefix_is_submodel_name:
  "(parse_mapping_table files path pid = Some r \<longrightarrow>
      z_texture_prefix r = submodel_name r \<and> z_texture_prefix r = all_parts r ! 44
      \<and> submodel_name r = all_parts r ! 44 \<and> main_texture_prefix r = all_parts r ! 43)
   \<and> \<not> packed_prefix (py_split CHR '','' (strip l))"
proof -
  have "z_texture_prefix r = submodel_name r \<and> z_texture_prefix r = all_parts r ! 44
      \<and> submodel_name r = all_parts r ! 44 \<and> main_texture_prefix r = all_parts r ! 43"
    if "parse_mapping_table files path pid = Some r"
    using _ that
  proof (rule parse_mapping_table_invariant)
    fix l' r'
    assume "parse_mapping_line l' = Parsed r'"
    then show "z_texture_prefix r' = submodel_name r' \<and> z_texture_prefix r' = all_parts r' ! 44
      \<and> submodel_name r' = all_parts r' ! 44 \<and> main_texture_prefix r' = all_parts r' ! 43"
      using parse_mapping_line_fields [of l' r'] by simp
  qed
  then show ?thesis
    using not_packed_prefix [of "strip l"] by simp
qed

text \<open>The table read from the sample file.\<close>

lemma scenario_table:
  "parse_mapping_table scenario_files ''mapping.csv'' 7 =
     Some \<lparr> position_id = 7, blocktype = ''minestone'',
            main_texture_prefix = ''hupo'', submodel_name = ''hupo1'',
            z_texture_prefix = ''hupo1'', has_main_texture = True,
            has_submodel = True, has_z_texture = True,
            all_parts = py_split CHR '','' (strip (scenario_line @ [CHR 0x0A])) \<rparr>"
proof -
  have "parse_mapping_line (scenario_line @ [CHR 0x0A]) =
     Parsed \<lparr> position_id = 7, blocktype = ''minestone'',
            main_texture_prefix = ''hupo'', submodel_name = ''hupo1'',
            z_texture_prefix = ''hupo1'', has_main_texture = True,
            has_submodel = True, has_z_texture = True,
            all_parts = py_split CHR '','' (strip (scenario_line @ [CHR 0x0A])) \<rparr>"
    using parse_mapping_line_Parsed [OF refl, of "scenario_line @ [CHR 0x0A]" 7]
    by (simp add: scenario_parts py_int_7)
  then show ?thesis
    by (simp add: parse_mapping_table_def parse_mapping_lines_def parse_step_def
        scenario_files_def)
qed

text \<open>The theorem at the sample table, whose record for id 7 has both fields \<open>hupo1\<close>.\<close>

theorem z_prefix_is_submodel_name_witness:
  "parse_mapping_table scenario_files ''mapping.csv'' 7 \<noteq> None
   \<and> z_texture_prefix (the (parse_mapping_table scenario_files ''mapping.csv'' 7)) = ''hupo1''
   \<and> submodel_name (the (parse_mapping_table scenario_files ''mapping.csv'' 7)) = ''hupo1''
   \<and> \<not> packed_prefix (py_split CHR '','' (strip (scenario_line @ [CHR 0x0A])))"
  using z_prefix_is_submodel_name [of scenario_files "''mapping.csv''" 7
      "the (parse_mapping_table scenario_files ''mapping.csv'' 7)" "scenario_line @ [CHR 0x0A]"]
  by (simp add: scenario_table)

section \<open>The material-system decision table\<close>

text \<open>
  C2. For every mapping record the resolved configuration's material system is
  teamspawn for blocktype teamspawn; soil for soil and plantash; minestone for
  minestone, stone, buildblueprint, regionreplicator, replicator, airwall and copier;
  default for every other blocktype. The branch that would give \<open>submodel_only\<close>
  tests four blocktypes that the minestone rule has already taken, so no record
  resolves to \<open>submodel_only\<close>.
\<close>

theorem material_system_decision_table:
  "material_system (ModelConfig_init ex pid (Some m) tex models) =
     (if blocktype m = ''teamspawn'' then Teamspawn_system
      else if blocktype m = ''soil'' \<or> blocktype m = ''plantash'' then Soil_system
      else if blocktype m = ''minestone'' \<or> blocktype m = ''stone''
              \<or> blocktype m = ''buildblueprint'' \<or> blocktype m = ''regionreplicator''
              \<or> blocktype m = ''replicator'' \<or> blocktype m = ''airwall''
              \<or> blocktype m = ''copier'' then Minestone_system
      else Default_system)
   \<and> material_system (ModelConfig_init ex pid (Some m) tex models) \<noteq> Submodel_only"
  by (simp add: ModelConfig_init_def select_material_system_def Let_def)

section \<open>Face classification\<close>











section \<open>Material slots of unclassified polygons\<close>

lemma polygon_loop_nth:
  "polygon_loop body k ps = (None, ps') \<Longrightarrow>
   length ps' = length ps \<and> (\<forall>i<length ps. body (k + i) (ps ! i) = Inr (ps' ! i))"
proof (induction ps arbitrary: k ps')
  case Nil
  then show ?case by simp
next
  case (Cons p ps)
  from Cons.prems obtain p' ps'' where b: "body k p = Inr p'"
    and l: "polygon_loop body (Suc k) ps = (None, ps'')" and e: "ps' = p' # ps''"
    by (auto split: sum.splits prod.splits)
  from Cons.IH [OF l] have len: "length ps'' = length ps"
    and rest: "\<forall>i<length ps. body (Suc k + i) (ps ! i) = Inr (ps'' ! i)"
    by simp_all
  show ?case
  proof (intro conjI allI impI)
    show "length ps' = length (p # ps)"
      using len e by simp
  next
    fix i
    assume "i < length (p # ps)"
    then show "body (k + i) ((p # ps) ! i) = Inr (ps' ! i)"
      using b rest e by (cases i) simp_all
  qed
qed

lemma stone_config_eq:
  "stone_config =
     \<lparr> cfg_position_id = 7, cfg_texture_base_path = ''/tex'',
       cfg_models_base_path = ''/models'', cfg_blocktype = ''minestone'',
       cfg_main_texture_prefix = ''stone'', cfg_submodel_name = [],
       cfg_z_texture_prefix = [], material_system = Minestone_system,
       main_model_path = ''/models/models/block.obj'', submodel_path = None,
       need_main_model = True \<rparr>"
  by (simp add: stone_config_def stone_record_def ModelConfig_init_def Let_def
      select_material_system_def os_path_join_def join2_def)

lemma stone_textures:
  "get_texture_path stone_files stone_config ''x'' = Some ''/tex/7/stone_z.png''"
  "get_texture_path stone_files stone_config ''y'' = None"
  "get_texture_path stone_files stone_config ''z'' = None"
  by (simp_all add: stone_config_eq stone_files_def get_texture_path_def
      get_minestone_texture_path_def py_lower_def lower_char_def upper_letters_def lower_letters_def in_id_folder_def id_folder_def
      os_path_join_def join2_def str_int_def str_nat.simps digit_char_def)

lemma sample_buckets:
  "find_all_directional_faces MESH sample_polygons =
     \<lparr> x_faces = [0], neg_x_faces = [], y_faces = [], neg_y_faces = [],
       z_faces = [1], neg_z_faces = [] \<rparr>"
  by (simp add: find_all_directional_faces_def sample_polygons_def classify_polygon_def
      normal_normalized_def vec_length_def no_faces_def power2_eq_square)

lemma faces_loop_index_0: "faces_loop idx (all_index_0 ps) b = faces_loop idx ps b"
  by (induction ps arbitrary: idx b) (simp_all add: all_index_0_def)

lemma find_faces_index_0:
  "find_all_directional_faces ty (all_index_0 ps) = find_all_directional_faces ty ps"
  by (simp add: find_all_directional_faces_def faces_loop_index_0)

lemma clear_slots_simps:
  "materials (clear_slots obj) = []"
  "ob_type (clear_slots obj) = ob_type obj"
  "length (polygons (clear_slots obj)) = length (polygons obj)"
  "find_all_directional_faces ty (polygons (clear_slots obj))
     = find_all_directional_faces ty (polygons obj)"
  by (simp_all add: clear_slots_def find_faces_index_0) (simp_all add: all_index_0_def)

lemma minestone_on_sample_polygons:
  assumes "ob_type obj = MESH" and "polygons obj = sample_polygons" and "materials obj \<noteq> []"
  shows "apply_main_model_materials stone_files obj 7 (Some stone_config) =
     (Inr True, obj\<lparr>materials := [Face_material 7 ''x''],
                     polygons := all_index_0 sample_polygons\<rparr>)"
proof -
  have "apply_minestone_material_system stone_files
          (obj\<lparr>materials := [], polygons := all_index_0 sample_polygons\<rparr>) 7 stone_config =
        (Inr True, obj\<lparr>materials := [Face_material 7 ''x''],
                        polygons := all_index_0 sample_polygons\<rparr>)"
    using assms
    by (simp add: apply_minestone_material_system_def stone_textures Let_def find_faces_index_0
        sample_buckets)
       (simp add: sample_polygons_def all_index_0_def minestone_body_def set_index_def
          dict_get_def after_loop_def)
  then show ?thesis
    using assms
    by (simp add: apply_main_model_materials_def clear_slots_def stone_config_eq [symmetric])
       (simp add: stone_config_eq)
qed

lemma minestone_sample:
  "apply_main_model_materials stone_files sample_mesh 7 (Some stone_config) =
     (Inr True, sample_mesh\<lparr>materials := [Face_material 7 ''x''],
                             polygons := all_index_0 sample_polygons\<rparr>)"
  by (rule minestone_on_sample_polygons) (simp_all add: sample_mesh_def)

text \<open>
  C5. The claim is that in every material system a polygon in none of the six
  lists gets the default slot, so that no polygon is left without an assignment.
  The minestone system does not do so once a face texture exists. The sample mesh
  comes from the importer with three slots and the material indices 0, 1 and 2; the
  only texture of its id is the one of the X faces. After the materials are applied
  the object has the single slot of the X material and the default material is in
  no slot; the loop assigns nothing to the polygon with index 2, which is in none of
  the six lists, so it stays at the index 0 the clearing of the slots left it with,
  and the material it shows is the X material, not the default one.
\<close>

theorem minestone_unclassified_polygon_shows_x_material:
  "\<exists>obj'. apply_main_model_materials stone_files sample_mesh 7 (Some stone_config)
            = (Inr True, obj')
     \<and> materials obj' = [Face_material 7 ''x'']
     \<and> Default_material 7 \<notin> set (materials obj')
     \<and> 2 \<notin> set (x_faces (find_all_directional_faces MESH (polygons sample_mesh))
               @ neg_x_faces (find_all_directional_faces MESH (polygons sample_mesh))
               @ y_faces (find_all_directional_faces MESH (polygons sample_mesh))
               @ neg_y_faces (find_all_directional_faces MESH (polygons sample_mesh))
               @ z_faces (find_all_directional_faces MESH (polygons sample_mesh))
               @ neg_z_faces (find_all_directional_faces MESH (polygons sample_mesh)))
     \<and> material_index (polygons sample_mesh ! 2) = 2
     \<and> material_index (polygons obj' ! 2) = 0
     \<and> materials obj' ! material_index (polygons obj' ! 2) = Face_material 7 ''x''
     \<and> materials obj' ! material_index (polygons obj' ! 2) \<noteq> Default_material 7"
  by (simp add: minestone_sample)
     (simp add: sample_mesh_def sample_buckets, simp add: sample_polygons_def all_index_0_def)

text \<open>
  The default system, for comparison: whenever it returns, a polygon in none of the
  six lists has the default material.
\<close>

lemma default_system_fallback:
  assumes app: "apply_main_model_materials ex obj pid (Some cfg) = (Inr ok, obj')"
      and sys: "material_system cfg = Default_system"
      and mesh: "ob_type obj = MESH"
      and i: "i < length (polygons obj)"
      and un: "i \<notin> set (x_faces (find_all_directional_faces MESH (polygons obj))
               @ neg_x_faces (find_all_directional_faces MESH (polygons obj))
               @ y_faces (find_all_directional_faces MESH (polygons obj))
               @ neg_y_faces (find_all_directional_faces MESH (polygons obj))
               @ z_faces (find_all_directional_faces MESH (polygons obj))
               @ neg_z_faces (find_all_directional_faces MESH (polygons obj)))"
  shows "i < length (polygons obj')
       \<and> material_index (polygons obj' ! i) < length (materials obj')
       \<and> materials obj' ! material_index (polygons obj' ! i) = Default_material pid"
proof -
  let ?o = "clear_slots obj"
  let ?B = "find_all_directional_faces MESH (polygons obj)"
  have app': "apply_default_material_system ex ?o pid cfg = (Inr ok, obj')"
    using app sys by (simp add: apply_main_model_materials_def)
  show ?thesis
  proof (cases "get_texture_path ex cfg ''x'' = None \<and> get_texture_path ex cfg ''y'' = None
                \<and> get_texture_path ex cfg ''z'' = None")
    case True
    with app' have "obj' = ?o\<lparr>materials := [Default_material pid],
                                 polygons := all_index_0 (polygons ?o)\<rparr>"
      by (auto simp add: apply_default_material_system_def clear_slots_simps)
    with i show ?thesis
      using clear_slots_simps(3) [of obj] by (simp add: all_index_0_def)
  next
    case False
    from app' False mesh i obtain ps where
      loop: "polygon_loop (default_body ?B) 0 (polygons ?o) = (None, ps)"
      and obj': "obj' = ?o\<lparr>materials := [Face_material pid ''x'', Face_material pid ''y'',
                   Face_material pid ''z'', Default_material pid], polygons := ps\<rparr>"
      by (auto simp add: apply_default_material_system_def Let_def clear_slots_simps
          after_loop_def split: option.splits prod.splits if_splits)
    from polygon_loop_nth [OF loop] i have len: "length ps = length (polygons obj)"
      and b: "default_body ?B (0 + i) (polygons ?o ! i) = Inr (ps ! i)"
      by (simp_all add: clear_slots_simps)
    from b un have "ps ! i = (polygons ?o ! i)\<lparr>material_index := 3\<rparr>"
      by (simp add: default_body_def)
    then have "material_index (ps ! i) = 3"
      by simp
    with len i obj' show ?thesis
      by simp
  qed
qed

section \<open>Templates and blocks\<close>

lemma load_keeps_caches:
  "templates (snd (load_and_setup_model h st w path name pid md as_main)) = templates w
   \<and> model_configs (snd (load_and_setup_model h st w path name pid md as_main)) = model_configs w
   \<and> mapping_table (snd (load_and_setup_model h st w path name pid md as_main)) = mapping_table w"
  by (simp add: load_and_setup_model_def Let_def split: option.splits sum.splits)

lemma build_main_keeps_caches:
  "templates (snd (build_main_model h st w cfg pid md)) = templates w
   \<and> model_configs (snd (build_main_model h st w cfg pid md)) = model_configs w
   \<and> mapping_table (snd (build_main_model h st w cfg pid md)) = mapping_table w"
  by (simp add: build_main_model_def load_keeps_caches)

lemma build_sub_keeps_caches:
  "templates (snd (build_submodel h st w cfg pid md)) = templates w
   \<and> model_configs (snd (build_submodel h st w cfg pid md)) = model_configs w
   \<and> mapping_table (snd (build_submodel h st w cfg pid md)) = mapping_table w"
  by (simp add: build_submodel_def load_keeps_caches split: option.splits)

lemma create_template_stores:
  assumes "create_template_for_position_id h st w pid tex models = (Some t, w')"
  shows "templates w' pid = Some t"
proof (cases "templates w pid")
  case (Some t0)
  with assms show ?thesis
    by (simp add: create_template_for_position_id_def)
next
  case None
  with assms show ?thesis
    by (auto simp add: create_template_for_position_id_def Let_def split: if_splits)
qed

lemma create_block_stores:
  assumes "create_block_from_template h st w pid x y z base_size dir centre = (Some n, w')"
  shows "n = block_name pid x y z \<and> objects w' (block_name pid x y z) \<noteq> None"
proof (cases "objects w (block_name pid x y z) = None")
  case False
  with assms show ?thesis
    by (auto simp add: create_block_from_template_def)
next
  case True
  with assms show ?thesis
    by (auto simp add: create_block_from_template_def Let_def
        split: option.splits list.splits)
qed

text \<open>
  C1. When a template is stored for a position id, \<open>create_template_for_position_id\<close>
  returns it and leaves the whole state as it was, so nothing is built and no file
  is handed to the importer; and a call that has returned a template returns the same
  one when repeated on the state it left. When an object with the name of the block
  for \<open>(position_id, x, y, z)\<close> exists, \<open>create_block_from_template\<close> returns it and
  leaves the state as it was, so no second instance is made; and a call that has
  returned a block returns the same one when repeated.
\<close>

theorem cached_objects_are_returned:
  "(templates w pid = Some t \<longrightarrow>
      create_template_for_position_id h st w pid tex models = (Some t, w))
   \<and> (create_template_for_position_id h st w pid tex models = (Some t, w') \<longrightarrow>
      create_template_for_position_id h st w' pid tex models = (Some t, w'))
   \<and> (objects w (block_name pid x y z) = Some b \<longrightarrow>
      create_block_from_template h st w pid x y z base_size dir centre
        = (Some (block_name pid x y z), w))
   \<and> (create_block_from_template h st w pid x y z base_size dir centre = (Some n, w'') \<longrightarrow>
      create_block_from_template h st w'' pid x y z base_size dir centre = (Some n, w''))"
proof (intro conjI impI)
  assume "templates w pid = Some t"
  then show "create_template_for_position_id h st w pid tex models = (Some t, w)"
    by (simp add: create_template_for_position_id_def)
next
  assume "create_template_for_position_id h st w pid tex models = (Some t, w')"
  then have "templates w' pid = Some t"
    by (rule create_template_stores)
  then show "create_template_for_position_id h st w' pid tex models = (Some t, w')"
    by (simp add: create_template_for_position_id_def)
next
  assume "objects w (block_name pid x y z) = Some b"
  then show "create_block_from_template h st w pid x y z base_size dir centre
        = (Some (block_name pid x y z), w)"
    by (simp add: create_block_from_template_def)
next
  assume "create_block_from_template h st w pid x y z base_size dir centre = (Some n, w'')"
  then have "n = block_name pid x y z \<and> objects w'' (block_name pid x y z) \<noteq> None"
    by (rule create_block_stores)
  then show "create_block_from_template h st w'' pid x y z base_size dir centre = (Some n, w'')"
    by (simp add: create_block_from_template_def)
qed

text \<open>
  C6, as amended. For a position id without a stored template, when neither the
  main model nor the submodel is built, \<open>create_template_for_position_id\<close> returns
  no template, the template cache is as before (with no entry for the id) and the
  mapping table is as before; the configuration cache is the one before with the
  configuration resolved for the id stored in it.
\<close>

theorem failed_build_keeps_templates:
  assumes none: "templates w pid = None"
      and cfg: "cfg = ModelConfig_init (path_exists h) pid (get_mapping_for_id w pid) tex models"
      and w1: "w1 = w\<lparr>model_configs := (model_configs w)(pid \<mapsto> cfg)\<rparr>"
      and main: "fst (build_main_model h st w1 cfg pid (get_mapping_for_id w pid)) = None"
      and sub: "fst (build_submodel h st
                  (snd (build_main_model h st w1 cfg pid (get_mapping_for_id w pid)))
                  cfg pid (get_mapping_for_id w pid)) = None"
      and r: "r = create_template_for_position_id h st w pid tex models"
  shows "fst r = None
       \<and> templates (snd r) = templates w
       \<and> templates (snd r) pid = None
       \<and> mapping_table (snd r) = mapping_table w
       \<and> model_configs (snd r) = (model_configs w)(pid \<mapsto> cfg)"
proof -
  let ?md = "get_mapping_for_id w pid"
  let ?main = "build_main_model h st w1 cfg pid ?md"
  let ?sub = "build_submodel h st (snd ?main) cfg pid ?md"
  have r': "r = (None, snd ?sub)"
    using none main sub cfg w1 r
    by (simp add: create_template_for_position_id_def Let_def)
  have "templates (snd ?sub) = templates w1"
    and "model_configs (snd ?sub) = model_configs w1"
    and "mapping_table (snd ?sub) = mapping_table w1"
    by (simp_all add: build_sub_keeps_caches build_main_keeps_caches)
  then show ?thesis
    using r' none w1 by simp
qed


lemma str_int_7: "str_int 7 = ''7''"
  by (simp add: str_int_def str_nat.simps digit_char_def)

lemma fresh_config:
  "ModelConfig_init stone_files 7 (get_mapping_for_id fresh_world 7) ''/tex'' ''/models''
     = stone_config"
  by (simp add: get_mapping_for_id_def fresh_world_def stone_config_def)

lemma setup_sample:
  "setup_model sample_settings sample_mesh ''BlockMain_7'' True = built_main
     \<lparr>parent := None, materials := materials sample_mesh, polygons := sample_polygons\<rparr>"
  by (simp add: setup_model_def sample_settings_def calculate_model_dimensions_def
      sample_mesh_def calculate_scaling_factor_def built_main_def Let_def double_0_001_def
      double_0_0001_def)

lemma built_main_materials:
  "apply_main_model_materials stone_files
     (built_main\<lparr>parent := None, materials := materials sample_mesh,
                  polygons := sample_polygons\<rparr>) 7
     (Some stone_config) = (Inr True, built_main\<lparr>parent := None\<rparr>)"
proof -
  have "apply_main_model_materials stone_files
     (built_main\<lparr>parent := None, materials := materials sample_mesh,
                  polygons := sample_polygons\<rparr>) 7
     (Some stone_config) = (Inr True, built_main\<lparr>parent := None,
        materials := materials sample_mesh, polygons := sample_polygons,
        materials := [Face_material 7 ''x''], polygons := all_index_0 sample_polygons\<rparr>)"
    by (rule minestone_on_sample_polygons) (simp_all add: built_main_def sample_mesh_def)
  then show ?thesis
    by (simp add: built_main_def)
qed

lemma load_main_sample:
  "load_and_setup_model sample_host sample_settings
     (fresh_world\<lparr>model_configs := [7 \<mapsto> stone_config]\<rparr>)
     ''/models/models/block.obj'' ''BlockMain_7'' 7 (Some stone_record) True =
   (Some ''BlockMain_7'',
    fresh_world\<lparr>model_configs := [7 \<mapsto> stone_config],
                 imported_paths := [''/models/models/block.obj''],
                 objects := [''BlockMain_7'' \<mapsto> built_main\<lparr>parent := None\<rparr>]\<rparr>)"
  by (simp add: load_and_setup_model_def sample_host_def stone_files_def Let_def setup_sample
      built_main_materials)
     (simp add: fresh_world_def)


lemma template_world_eq:
  "create_template_for_position_id sample_host sample_settings fresh_world 7 ''/tex'' ''/models''
   = (Some ''BlockTemplate_7'',
      fresh_world\<lparr>model_configs := [7 \<mapsto> stone_config],
                 imported_paths := [''/models/models/block.obj''],
                 objects := [''BlockTemplate_7'' \<mapsto> built_template,
                             ''BlockMain_7'' \<mapsto> built_main],
                 templates := [7 \<mapsto> ''BlockTemplate_7'']\<rparr>)"
proof -
  have path: "path_exists sample_host = stone_files"
    by (simp add: sample_host_def)
  have none: "templates fresh_world 7 = None"
    by (simp add: fresh_world_def)
  have md: "get_mapping_for_id fresh_world 7 = Some stone_record"
    by (simp add: get_mapping_for_id_def fresh_world_def)
  have mc: "model_configs fresh_world = Map.empty"
    by (simp add: fresh_world_def)
  have main: "build_main_model sample_host sample_settings
                (fresh_world\<lparr>model_configs := [7 \<mapsto> stone_config]\<rparr>) stone_config 7
                (Some stone_record)
              = (Some ''BlockMain_7'',
                 fresh_world\<lparr>model_configs := [7 \<mapsto> stone_config],
                   imported_paths := [''/models/models/block.obj''],
                   objects := [''BlockMain_7'' \<mapsto> built_main\<lparr>parent := None\<rparr>]\<rparr>)"
    by (simp add: build_main_model_def has_main_model_def path str_int_7)
       (simp add: stone_config_eq stone_files_def load_main_sample [unfolded stone_config_eq])
  have sub: "build_submodel sample_host sample_settings w stone_config 7 (Some stone_record)
              = (None, w)" for w
    by (simp add: build_submodel_def stone_config_eq)
  show ?thesis
    by (simp add: create_template_for_position_id_def none md path fresh_config [unfolded md]
        mc main sub Let_def str_int_7 set_parent_def built_template_def)
       (simp add: fresh_world_def built_main_def)
qed


lemma template_world_eq':
  "template_world =
      fresh_world\<lparr>model_configs := [7 \<mapsto> stone_config],
                 imported_paths := [''/models/models/block.obj''],
                 objects := [''BlockTemplate_7'' \<mapsto> built_template,
                             ''BlockMain_7'' \<mapsto> built_main],
                 templates := [7 \<mapsto> ''BlockTemplate_7'']\<rparr>"
  by (simp add: template_world_def template_world_eq)

lemma sample_block_name: "block_name 7 2 (- 1) 3 = ''Block_7_2_-1_3''"
  by (simp add: block_name_def str_int_def str_nat.simps digit_char_def)

lemma place_sample:
  "create_block_from_template sample_host sample_settings template_world 7 2 (- 1) 3 1
     ''SOUTH'' False =
   (Some ''Block_7_2_-1_3'',
    template_world\<lparr>objects := (objects template_world)
       (''BlockMain_7_2_-1_3'' \<mapsto>
          built_main\<lparr>ob_name := ''BlockMain_7_2_-1_3'', parent := Some ''Block_7_2_-1_3''\<rparr>,
        ''Block_7_2_-1_3'' \<mapsto> placed_block)\<rparr>)"
proof -
  have t: "templates template_world 7 = Some ''BlockTemplate_7''"
    and o1: "objects template_world ''BlockTemplate_7'' = Some built_template"
    and o2: "objects template_world ''BlockMain_7'' = Some built_main"
    and o3: "objects template_world ''Block_7_2_-1_3'' = None"
    by (simp_all add: template_world_eq' fresh_world_def)
  have kids: "children built_template = [''BlockMain_7'']"
    by (simp add: built_template_def)
  have cn: "child_name ''BlockMain_7'' 7 2 (- 1) 3 = ''BlockMain_7_2_-1_3''"
    by (simp add: child_name_def startswith_def str_int_def str_nat.simps digit_char_def)
  have size: "custom built_main = Some \<lparr> block_size_x = 1, block_size_y = 1, block_size_z = 1,
                       block_max_size = 1, is_main_model = True, scale_factor = 1 / 2 \<rparr>"
    by (simp add: built_main_def)
  show ?thesis
    by (simp add: create_block_from_template_def sample_block_name t o1 o2 o3 kids cn size
        Let_def get_world_coordinate_for_model_def get_rotation_for_direction_def
        sample_settings_def placed_block_def)
qed

text \<open>
  The theorem on the sample scene: the template for id 7 is built once, from one
  imported file, and the block at \<open>(2, -1, 3)\<close> is placed once.
\<close>

theorem cached_objects_are_returned_witness:
  "create_template_for_position_id sample_host sample_settings fresh_world 7 ''/tex'' ''/models''
     = (Some ''BlockTemplate_7'', template_world)
   \<and> create_template_for_position_id sample_host sample_settings template_world 7 ''/tex''
       ''/models'' = (Some ''BlockTemplate_7'', template_world)
   \<and> imported_paths template_world = [''/models/models/block.obj'']
   \<and> create_block_from_template sample_host sample_settings
         (snd (create_block_from_template sample_host sample_settings template_world 7 2 (- 1) 3 1
                 ''SOUTH'' False))
         7 2 (- 1) 3 1 ''SOUTH'' False
       = create_block_from_template sample_host sample_settings template_world 7 2 (- 1) 3 1
           ''SOUTH'' False"
proof -
  have first: "create_template_for_position_id sample_host sample_settings fresh_world 7 ''/tex''
      ''/models'' = (Some ''BlockTemplate_7'', template_world)"
    by (simp add: template_world_eq template_world_eq')
  have paths: "imported_paths template_world = [''/models/models/block.obj'']"
    by (simp add: template_world_eq')
  obtain w2 where place: "create_block_from_template sample_host sample_settings template_world
      7 2 (- 1) 3 1 ''SOUTH'' False = (Some ''Block_7_2_-1_3'', w2)"
    using place_sample by blast
  have second: "create_template_for_position_id sample_host sample_settings template_world 7
      ''/tex'' ''/models'' = (Some ''BlockTemplate_7'', template_world)"
    using cached_objects_are_returned [where w = fresh_world and pid = 7
        and t = "''BlockTemplate_7''" and h = sample_host and st = sample_settings
        and tex = "''/tex''" and models = "''/models''" and w' = template_world] first
    by blast
  have again: "create_block_from_template sample_host sample_settings w2 7 2 (- 1) 3 1
      ''SOUTH'' False = (Some ''Block_7_2_-1_3'', w2)"
    using cached_objects_are_returned [where w = template_world and pid = 7
        and h = sample_host and st = sample_settings
        and x = 2 and y = "- 1" and z = 3 and base_size = 1 and dir = "''SOUTH''"
        and centre = False and n = "''Block_7_2_-1_3''" and w'' = w2] place
    by blast
  show ?thesis
    using first second paths again place by simp
qed

text \<open>
  C6, as claimed, fails for the configuration cache: for id 5, which the sample
  mapping table does not list and for which nothing can be built, the build returns
  no template and the configuration cache, empty before, holds a configuration for
  id 5 afterwards.
\<close>

lemma fail_sample:
  "create_template_for_position_id sample_host sample_settings fresh_world 5 ''/tex'' ''/models''
     = (None, fresh_world\<lparr>model_configs := [5 \<mapsto> unmapped_config]\<rparr>)"
proof -
  have path: "path_exists sample_host = stone_files"
    by (simp add: sample_host_def)
  have none: "templates fresh_world 5 = None"
    and md: "get_mapping_for_id fresh_world 5 = None"
    and mc: "model_configs fresh_world = Map.empty"
    by (simp_all add: fresh_world_def get_mapping_for_id_def)
  have need: "\<not> need_main_model unmapped_config" and sp: "submodel_path unmapped_config = None"
    by (simp_all add: unmapped_config_def ModelConfig_init_def select_material_system_def Let_def)
  show ?thesis
    by (simp add: create_template_for_position_id_def none md mc path Let_def
        unmapped_config_def [symmetric] build_main_model_def build_submodel_def
        has_main_model_def need sp)
qed

theorem failed_build_stores_configuration:
  "fst (create_template_for_position_id sample_host sample_settings fresh_world 5 ''/tex''
          ''/models'') = None
   \<and> model_configs (snd (create_template_for_position_id sample_host sample_settings fresh_world
          5 ''/tex'' ''/models'')) \<noteq> model_configs fresh_world
   \<and> model_configs fresh_world 5 = None
   \<and> model_configs (snd (create_template_for_position_id sample_host sample_settings fresh_world
          5 ''/tex'' ''/models'')) 5 = Some unmapped_config"
proof -
  let ?r = "create_template_for_position_id sample_host sample_settings fresh_world 5 ''/tex''
          ''/models''"
  have before: "model_configs fresh_world 5 = None"
    by (simp add: fresh_world_def)
  have after: "model_configs (snd ?r) 5 = Some unmapped_config"
    by (simp add: fail_sample)
  have changed: "model_configs (snd ?r) \<noteq> model_configs fresh_world"
  proof
    assume "model_configs (snd ?r) = model_configs fresh_world"
    then have "model_configs (snd ?r) 5 = model_configs fresh_world 5"
      by simp
    with before after show False
      by simp
  qed
  have "fst ?r = None"
    by (simp add: fail_sample)
  with before after changed show ?thesis
    by blast
qed

text \<open>The amended statement at the same failed build.\<close>

theorem failed_build_keeps_templates_witness:
  "fst (create_template_for_position_id sample_host sample_settings fresh_world 5 ''/tex''
          ''/models'') = None
   \<and> templates (snd (create_template_for_position_id sample_host sample_settings fresh_world 5
          ''/tex'' ''/models'')) 5 = None
   \<and> mapping_table (snd (create_template_for_position_id sample_host sample_settings fresh_world
          5 ''/tex'' ''/models'')) = mapping_table fresh_world
   \<and> model_configs (snd (create_template_for_position_id sample_host sample_settings fresh_world
          5 ''/tex'' ''/models'')) = [5 \<mapsto> unmapped_config]"
proof -
  have path: "path_exists sample_host = stone_files"
    by (simp add: sample_host_def)
  have none: "templates fresh_world 5 = None"
    and md: "get_mapping_for_id fresh_world 5 = None"
    and mc: "model_configs fresh_world = Map.empty"
    by (simp_all add: fresh_world_def get_mapping_for_id_def)
  have cfg: "unmapped_config = ModelConfig_init (path_exists sample_host) 5
               (get_mapping_for_id fresh_world 5) ''/tex'' ''/models''"
    by (simp add: unmapped_config_def path md)
  have need: "\<not> need_main_model unmapped_config" and sp: "submodel_path unmapped_config = None"
    by (simp_all add: unmapped_config_def ModelConfig_init_def select_material_system_def Let_def)
  have main: "build_main_model sample_host sample_settings w unmapped_config 5 md' = (None, w)"
    for w md'
    by (simp add: build_main_model_def has_main_model_def need)
  have sub: "build_submodel sample_host sample_settings w unmapped_config 5 md' = (None, w)"
    for w md'
    by (simp add: build_submodel_def sp)
  show ?thesis
    using failed_build_keeps_templates [OF none cfg refl _ _ refl, of sample_settings]
    by (simp add: main sub mc none)
qed

lemma create_block_new:
  assumes new: "objects w (block_name pid x y z) = None"
      and placed: "create_block_from_template h st w pid x y z base_size dir centre = (Some n, w')"
  shows "\<exists>b. objects w' n = Some b
           \<and> rotation_euler b = (0, get_rotation_for_direction dir, 0)
           \<and> placed b = Some \<lparr> grid_x = x, grid_y = y, grid_z = z, block_position_id = pid,
                                direction = dir \<rparr>"
proof -
  from placed new obtain tn tc first others child where
    "templates w pid = Some tn" and "objects w tn = Some tc"
    and "children tc = first # others" and "objects w first = Some child"
    by (simp add: create_block_from_template_def split: option.splits list.splits)
  with placed new show ?thesis
    by (simp add: create_block_from_template_def Let_def) auto
qed

text \<open>
  The rotation of every block that \<open>create_block_from_template\<close> places: the Euler
  angles are \<open>(0, angle, 0)\<close>, where the angle is 0 for EAST, \<open>\<pi>/2\<close> for SOUTH, \<open>\<pi>\<close> for
  WEST and \<open>3\<pi>/2\<close> for NORTH, and 0 for any other direction value.
\<close>

lemma placement_rotation:
  "(objects w (block_name pid x y z) = None
      \<and> create_block_from_template h st w pid x y z base_size dir centre = (Some n, w')
    \<longrightarrow> (\<exists>b. objects w' n = Some b
           \<and> rotation_euler b = (0, get_rotation_for_direction dir, 0)))
   \<and> get_rotation_for_direction ''EAST'' = 0
   \<and> get_rotation_for_direction ''SOUTH'' = pi / 2
   \<and> get_rotation_for_direction ''WEST'' = pi
   \<and> get_rotation_for_direction ''NORTH'' = 3 * pi / 2
   \<and> (dir \<noteq> ''EAST'' \<and> dir \<noteq> ''SOUTH'' \<and> dir \<noteq> ''WEST'' \<and> dir \<noteq> ''NORTH''
        \<longrightarrow> get_rotation_for_direction dir = 0)"
proof (intro conjI impI)
  assume "objects w (block_name pid x y z) = None
      \<and> create_block_from_template h st w pid x y z base_size dir centre = (Some n, w')"
  then have "\<exists>b. objects w' n = Some b
           \<and> rotation_euler b = (0, get_rotation_for_direction dir, 0)
           \<and> placed b = Some \<lparr> grid_x = x, grid_y = y, grid_z = z, block_position_id = pid,
                                direction = dir \<rparr>"
    using create_block_new [of w pid x y z h st base_size dir centre n w'] by simp
  then show "\<exists>b. objects w' n = Some b
           \<and> rotation_euler b = (0, get_rotation_for_direction dir, 0)"
    by blast
next
  show "get_rotation_for_direction ''EAST'' = 0"
    by (simp add: get_rotation_for_direction_def)
next
  show "get_rotation_for_direction ''SOUTH'' = pi / 2"
    by (simp add: get_rotation_for_direction_def)
next
  show "get_rotation_for_direction ''WEST'' = pi"
    by (simp add: get_rotation_for_direction_def)
next
  show "get_rotation_for_direction ''NORTH'' = 3 * pi / 2"
    by (simp add: get_rotation_for_direction_def)
next
  assume "dir \<noteq> ''EAST'' \<and> dir \<noteq> ''SOUTH'' \<and> dir \<noteq> ''WEST'' \<and> dir \<noteq> ''NORTH''"
  then show "get_rotation_for_direction dir = 0"
    by (simp add: get_rotation_for_direction_def)
qed

text \<open>The lemma at the sample block, which faces south.\<close>

lemma placement_rotation_south:
  "\<exists>b. objects (snd (create_block_from_template sample_host sample_settings template_world 7 2
                      (- 1) 3 1 ''SOUTH'' False)) ''Block_7_2_-1_3'' = Some b
       \<and> rotation_euler b = (0, pi / 2, 0)"
proof -
  have new: "objects template_world (block_name 7 2 (- 1) 3) = None"
    by (simp add: sample_block_name template_world_eq' fresh_world_def)
  obtain w2 where place: "create_block_from_template sample_host sample_settings template_world
      7 2 (- 1) 3 1 ''SOUTH'' False = (Some ''Block_7_2_-1_3'', w2)"
    using place_sample by blast
  have "\<exists>b. objects w2 ''Block_7_2_-1_3'' = Some b
           \<and> rotation_euler b = (0, get_rotation_for_direction ''SOUTH'', 0)"
    using placement_rotation [of template_world 7 2 "- 1" 3 sample_host sample_settings 1
        "''SOUTH''" False "''Block_7_2_-1_3''" w2] new place
    by blast
  moreover have "get_rotation_for_direction ''SOUTH'' = pi / 2"
    by (simp add: get_rotation_for_direction_def)
  ultimately show ?thesis
    using place by simp
qed

lemma place_sample_centred:
  "create_block_from_template sample_host sample_settings template_world 7 2 (- 1) 3 1
     ''SOUTH'' True =
   (Some ''Block_7_2_-1_3'',
    template_world\<lparr>objects := (objects template_world)
       (''BlockMain_7_2_-1_3'' \<mapsto>
          built_main\<lparr>ob_name := ''BlockMain_7_2_-1_3'', parent := Some ''Block_7_2_-1_3''\<rparr>,
        ''Block_7_2_-1_3'' \<mapsto> centred_block)\<rparr>)"
proof -
  have t: "templates template_world 7 = Some ''BlockTemplate_7''"
    and o1: "objects template_world ''BlockTemplate_7'' = Some built_template"
    and o2: "objects template_world ''BlockMain_7'' = Some built_main"
    and o3: "objects template_world ''Block_7_2_-1_3'' = None"
    by (simp_all add: template_world_eq' fresh_world_def)
  have kids: "children built_template = [''BlockMain_7'']"
    by (simp add: built_template_def)
  have cn: "child_name ''BlockMain_7'' 7 2 (- 1) 3 = ''BlockMain_7_2_-1_3''"
    by (simp add: child_name_def startswith_def str_int_def str_nat.simps digit_char_def)
  have size: "custom built_main = Some \<lparr> block_size_x = 1, block_size_y = 1, block_size_z = 1,
                       block_max_size = 1, is_main_model = True, scale_factor = 1 / 2 \<rparr>"
    by (simp add: built_main_def)
  show ?thesis
    by (simp add: create_block_from_template_def sample_block_name t o1 o2 o3 kids cn size
        Let_def get_world_coordinate_for_model_def get_rotation_for_direction_def
        sample_settings_def centred_block_def)
qed

text \<open>
  C7. The claim is that a placed block is turned about the vertical axis only, by 0
  for EAST, \<open>\<pi>/2\<close> for SOUTH, \<open>\<pi>\<close> for WEST and \<open>3\<pi>/2\<close> for NORTH. The angles are the
  ones \<open>get_rotation_for_direction\<close> returns, but the axis they are applied to is not
  the vertical one of the placement. The sample block is placed facing south with
  centre alignment. Its location is \<open>(2, -1, 3 + 1/2)\<close>: the placement lifts it by half
  its height along Z, where bottom alignment leaves it at \<open>(2, -1, 3)\<close>, so the height
  of the scene runs along Z; and \<open>get_direction_vector\<close> gives the south heading as
  \<open>(0, -1, 0)\<close>, in the plane of X and Y. Its Euler rotation is \<open>(0, \<pi>/2, 0)\<close>: the
  quarter turn is made about Y, an axis of the ground plane, and the angle about Z
  is 0.
\<close>

theorem south_block_is_turned_about_y:
  "\<exists>b. objects (snd (create_block_from_template sample_host sample_settings template_world 7 2
                      (- 1) 3 1 ''SOUTH'' True)) ''Block_7_2_-1_3'' = Some b
       \<and> location b = (2, - 1, 3 + 1 / 2)
       \<and> rotation_euler b = (0, pi / 2, 0)
       \<and> fst (snd (rotation_euler b)) = get_rotation_for_direction ''SOUTH''
       \<and> fst (snd (rotation_euler b)) \<noteq> 0
       \<and> snd (snd (rotation_euler b)) = 0
       \<and> get_world_coordinate_for_model (2, - 1, 3) 1 1 1 1 ''SOUTH'' True True
           = (2, - 1, 3 + 1 / 2)
       \<and> get_world_coordinate_for_model (2, - 1, 3) 1 1 1 1 ''SOUTH'' False True = (2, - 1, 3)
       \<and> get_direction_vector ''SOUTH'' = (0, - 1, 0)
       \<and> get_rotation_for_direction ''EAST'' = 0
       \<and> get_rotation_for_direction ''SOUTH'' = pi / 2
       \<and> get_rotation_for_direction ''WEST'' = pi
       \<and> get_rotation_for_direction ''NORTH'' = 3 * pi / 2"
proof -
  have nz: "pi / 2 \<noteq> 0"
    using pi_gt_zero by simp
  have rot: "rotation_euler centred_block = (0, pi / 2, 0)"
    and loc: "location centred_block = (2, - 1, 3 + 1 / 2)"
    by (simp_all add: centred_block_def)
  have b: "objects (snd (create_block_from_template sample_host sample_settings template_world 7 2
                      (- 1) 3 1 ''SOUTH'' True)) ''Block_7_2_-1_3'' = Some centred_block"
    by (simp add: place_sample_centred)
  have angles: "get_rotation_for_direction ''EAST'' = 0"
    "get_rotation_for_direction ''SOUTH'' = pi / 2"
    "get_rotation_for_direction ''WEST'' = pi"
    "get_rotation_for_direction ''NORTH'' = 3 * pi / 2"
    by (simp_all add: get_rotation_for_direction_def)
  have coord: "get_world_coordinate_for_model (2, - 1, 3) 1 1 1 1 ''SOUTH'' True True
           = (2, - 1, 3 + 1 / 2)"
    "get_world_coordinate_for_model (2, - 1, 3) 1 1 1 1 ''SOUTH'' False True = (2, - 1, 3)"
    by (simp_all add: get_world_coordinate_for_model_def)
  have vec: "get_direction_vector ''SOUTH'' = (0, - 1, 0)"
    by (simp add: get_direction_vector_def)
  show ?thesis
    using nz by (simp add: b rot loc angles coord vec)
qed

section \<open>Coordinate parsing\<close>

lemma round_half_even_near:
  assumes "0 < d"
  shows "\<bar>2 * (round_half_even n d * d - n)\<bar> \<le> d"
proof -
  have n: "n = (n div d) * d + n mod d"
    by simp
  have r: "0 \<le> n mod d" "n mod d < d"
    using assms by simp_all
  define f where "f = n div d"
  define m where "m = n mod d"
  have n': "n = f * d + m" and m: "0 \<le> m" "m < d"
    using n r by (simp_all add: f_def m_def)
  have "round_half_even n d = f \<and> 2 * m \<le> d \<or> round_half_even n d = f + 1 \<and> d \<le> 2 * m"
    by (auto simp add: round_half_even_def Let_def f_def m_def)
  then show ?thesis
  proof
    assume a: "round_half_even n d = f \<and> 2 * m \<le> d"
    then have "round_half_even n d * d - n = - m"
      using n' by simp
    with a m show ?thesis by simp
  next
    assume a: "round_half_even n d = f + 1 \<and> d \<le> 2 * m"
    then have "round_half_even n d * d - n = d - m"
      using n' by (simp add: algebra_simps)
    with a m show ?thesis by simp
  qed
qed

lemma py_round_nearest:
  assumes "py_round (Finite k j) = Inr n"
  shows "\<bar>real_of_int n - finite_value k j\<bar> \<le> 1 / 2"
proof (cases "j \<ge> 0")
  case True
  with assms have "n = k * 2 ^ nat j"
    by (simp add: py_round_def)
  with True show ?thesis
    by (simp add: finite_value_def)
next
  case False
  define d :: int where "d = 2 ^ nat (- j)"
  have d: "0 < d"
    by (simp add: d_def)
  from False assms have n: "n = round_half_even k d"
    by (simp add: py_round_def d_def)
  have "\<bar>2 * (n * d - k)\<bar> \<le> d"
    using round_half_even_near [OF d, of k] n by simp
  then have "\<bar>2 * (real_of_int n * real_of_int d - real_of_int k)\<bar> \<le> real_of_int d"
    by (metis (mono_tags) of_int_abs of_int_diff of_int_le_iff of_int_mult of_int_numeral)
  then have "\<bar>2\<bar> * \<bar>real_of_int n * real_of_int d - real_of_int k\<bar> \<le> real_of_int d"
    by (simp only: abs_mult)
  then have "\<bar>real_of_int n * real_of_int d - real_of_int k\<bar> \<le> real_of_int d / 2"
    by simp
  then have "\<bar>(real_of_int n * real_of_int d - real_of_int k) / real_of_int d\<bar> \<le> 1 / 2"
    using d by (simp add: field_simps)
  moreover have "(real_of_int n * real_of_int d - real_of_int k) / real_of_int d
                   = real_of_int n - real_of_int k / real_of_int d"
    using d by (simp add: field_simps)
  moreover have "finite_value k j = real_of_int k / real_of_int d"
    using False by (simp add: finite_value_def d_def)
  ultimately show ?thesis
    by simp
qed


lemma round_half_even_mult: "0 < d \<Longrightarrow> round_half_even (c * d) d = c"
  by (simp add: round_half_even_def Let_def)

lemma small_int_literal:
  assumes m: "0 < m" and E: "floor_log2 m 1 = E" and lo: "0 \<le> E" and hi: "E < 52"
  shows "py_round (nearest_double neg m 0) = Inr (if neg then - m else m)"
proof -
  define d :: int where "d = 2 ^ nat (52 - E)"
  have d: "0 < d"
    by (simp add: d_def)
  have s: "max E (- 1022) = E" and neg_s: "\<not> 0 \<le> E - 52" "\<not> 52 \<le> E"
    and ns: "nat (- (E - 52)) = nat (52 - E)" "nat (52 - E) = nat (52 - E)"
    using lo hi by simp_all
  have k: "round_half_even (m * d) 1 = m * d"
    using round_half_even_mult [of 1 "m * d"] by simp
  have nd: "nearest_double neg m 0 = Finite (if neg then - (m * d) else m * d) (E - 52)"
    using m neg_s
    by (simp add: nearest_double_def E s Let_def ns(1) d_def [symmetric] k)
  have "round_half_even (- (m * d)) d = - m" and "round_half_even (m * d) d = m"
    using round_half_even_mult [OF d, of "- m"] round_half_even_mult [OF d, of m]
    by simp_all
  then show ?thesis
    using neg_s by (simp add: nd py_round_def ns(1) d_def [symmetric])
qed

lemma zero_literal: "py_round (nearest_double neg 0 e) = Inr 0"
  by (simp add: nearest_double_def py_round_def)

lemmas strip_eval = strip_def lstrip_def rstrip_def is_space_def

lemmas float_syntax =
  py_float_def c_strip_def is_c_space_def py_lower_def lower_char_def upper_letters_def lower_letters_def parse_decimal_def
  split_first_def is_digit_def nat_of_digits_def digit_val_def

lemma sample_floats:
  "py_float ''-4'' = Some (nearest_double True 4 0)"
  "py_float ''0'' = Some (nearest_double False 0 0)"
  "py_float ''9'' = Some (nearest_double False 9 0)"
  "py_float ''2'' = Some (nearest_double False 2 0)"
  "py_float ''3'' = Some (nearest_double False 3 0)"
  "py_float ''1'' = Some (nearest_double False 1 0)"
  by (simp_all add: float_syntax)

lemma sample_logs:
  "floor_log2 4 1 = 2" "floor_log2 9 1 = 3" "floor_log2 2 1 = 1" "floor_log2 3 1 = 1"
  "floor_log2 1 1 = 0"
  by (simp_all add: floor_log2_def ilog2.simps)

lemma sample_rounds:
  "py_round (nearest_double True 4 0) = Inr (- 4)"
  "py_round (nearest_double False 0 0) = Inr 0"
  "py_round (nearest_double False 9 0) = Inr 9"
  "py_round (nearest_double False 2 0) = Inr 2"
  "py_round (nearest_double False 3 0) = Inr 3"
  "py_round (nearest_double False 1 0) = Inr 1"
  using small_int_literal [of 4 2 True] small_int_literal [of 9 3 False]
    small_int_literal [of 2 1 False] small_int_literal [of 3 1 False]
    small_int_literal [of 1 0 False] zero_literal [of False 0]
  by (simp_all add: sample_logs)

lemma int_1: "py_int ''1'' = Some 1"
  by (simp add: py_int_def c_strip_def is_c_space_def is_digit_def nat_of_digits_def
      digit_val_def)


lemma round_half_even_tie:
  assumes "0 < d" and "\<bar>2 * (round_half_even n d * d - n)\<bar> = d"
  shows "even (round_half_even n d)"
proof -
  define f where "f = n div d"
  define m where "m = n mod d"
  have n': "n = f * d + m" and m: "0 \<le> m" "m < d"
    using assms(1) by (simp_all add: f_def m_def)
  have "2 * m < d \<or> d < 2 * m \<or> 2 * m = d"
    by arith
  then show ?thesis
  proof (elim disjE)
    assume a: "2 * m < d"
    then have r: "round_half_even n d = f"
      by (simp add: round_half_even_def Let_def f_def m_def)
    have "round_half_even n d * d - n = - m"
      using n' r by simp
    with assms(2) a m show ?thesis
      by simp
  next
    assume a: "d < 2 * m"
    then have r: "round_half_even n d = f + 1"
      by (simp add: round_half_even_def Let_def f_def m_def)
    have "round_half_even n d * d - n = d - m"
      using n' r by (simp add: algebra_simps)
    with assms(2) a m show ?thesis
      by simp
  next
    assume "2 * m = d"
    then show ?thesis
      by (simp add: round_half_even_def Let_def f_def m_def)
  qed
qed

lemma py_round_finite:
  "\<exists>n. py_round (Finite k j) = Inr n
     \<and> \<bar>real_of_int n - finite_value k j\<bar> \<le> 1 / 2
     \<and> (\<bar>real_of_int n - finite_value k j\<bar> = 1 / 2 \<longrightarrow> even n)"
proof (cases "j \<ge> 0")
  case True
  then have "py_round (Finite k j) = Inr (k * 2 ^ nat j)"
    and "real_of_int (k * 2 ^ nat j) - finite_value k j = 0"
    by (simp_all add: py_round_def finite_value_def)
  then show ?thesis
    by simp
next
  case False
  define d :: int where "d = 2 ^ nat (- j)"
  define n where "n = round_half_even k d"
  have d: "0 < d"
    by (simp add: d_def)
  have r: "py_round (Finite k j) = Inr n"
    using False by (simp add: py_round_def d_def n_def)
  then have near: "\<bar>real_of_int n - finite_value k j\<bar> \<le> 1 / 2"
    by (rule py_round_nearest)
  have v: "finite_value k j = real_of_int k / real_of_int d"
    using False by (simp add: finite_value_def d_def)
  have tie: "even n" if t: "\<bar>real_of_int n - finite_value k j\<bar> = 1 / 2"
  proof -
    have dpos: "\<bar>real_of_int d\<bar> = real_of_int d" and rd: "0 < real_of_int d"
      using d by simp_all
    have eq: "real_of_int n - finite_value k j
            = (real_of_int n * real_of_int d - real_of_int k) / real_of_int d"
      using d by (simp add: v field_simps)
    from t have "\<bar>(real_of_int n * real_of_int d - real_of_int k) / real_of_int d\<bar> = 1 / 2"
      by (simp only: eq)
    then have "\<bar>real_of_int n * real_of_int d - real_of_int k\<bar> / real_of_int d = 1 / 2"
      by (simp only: abs_divide dpos)
    then have "\<bar>real_of_int n * real_of_int d - real_of_int k\<bar> = real_of_int d / 2"
      using rd by (simp add: divide_eq_eq)
    then have "real_of_int (2 * \<bar>n * d - k\<bar>) = real_of_int d"
      by simp
    then have "2 * \<bar>n * d - k\<bar> = d"
      by (simp only: of_int_eq_iff)
    then have "\<bar>2 * (round_half_even k d * d - k)\<bar> = d"
      unfolding n_def by (simp only: abs_mult abs_numeral)
    with d show ?thesis
      unfolding n_def by (rule round_half_even_tie)
  qed
  from r near tie show ?thesis
    by blast
qed

lemma make_coordinate_finite:
  "\<exists>x y z. make_coordinate i (Finite kx jx) (Finite ky jy) (Finite kz jz)
              = Inr (Some \<lparr>coord_id = i, coord_x = x, coord_y = y, coord_z = z\<rparr>)
     \<and> \<bar>real_of_int x - finite_value kx jx\<bar> \<le> 1 / 2
     \<and> (\<bar>real_of_int x - finite_value kx jx\<bar> = 1 / 2 \<longrightarrow> even x)
     \<and> \<bar>real_of_int y - finite_value ky jy\<bar> \<le> 1 / 2
     \<and> (\<bar>real_of_int y - finite_value ky jy\<bar> = 1 / 2 \<longrightarrow> even y)
     \<and> \<bar>real_of_int z - finite_value kz jz\<bar> \<le> 1 / 2
     \<and> (\<bar>real_of_int z - finite_value kz jz\<bar> = 1 / 2 \<longrightarrow> even z)"
proof -
  obtain x where x: "py_round (Finite kx jx) = Inr x"
    and nx: "\<bar>real_of_int x - finite_value kx jx\<bar> \<le> 1 / 2"
    and tx: "\<bar>real_of_int x - finite_value kx jx\<bar> = 1 / 2 \<longrightarrow> even x"
    using py_round_finite [of kx jx] by blast
  obtain y where y: "py_round (Finite ky jy) = Inr y"
    and ny: "\<bar>real_of_int y - finite_value ky jy\<bar> \<le> 1 / 2"
    and ty: "\<bar>real_of_int y - finite_value ky jy\<bar> = 1 / 2 \<longrightarrow> even y"
    using py_round_finite [of ky jy] by blast
  obtain z where z: "py_round (Finite kz jz) = Inr z"
    and nz: "\<bar>real_of_int z - finite_value kz jz\<bar> \<le> 1 / 2"
    and tz: "\<bar>real_of_int z - finite_value kz jz\<bar> = 1 / 2 \<longrightarrow> even z"
    using py_round_finite [of kz jz] by blast
  have "make_coordinate i (Finite kx jx) (Finite ky jy) (Finite kz jz)
          = Inr (Some \<lparr>coord_id = i, coord_x = x, coord_y = y, coord_z = z\<rparr>)"
    using x y z by (simp add: make_coordinate_def)
  with nx tx ny ty nz tz show ?thesis
    by blast
qed

lemma lstrip_strip: "lstrip (strip s) = strip s"
proof (cases "strip s = []")
  case True
  then show ?thesis
    by (simp add: lstrip_def)
next
  case False
  then have "\<not> is_space (hd (strip s))"
    by (rule hd_strip_not_space)
  with False show ?thesis
    by (cases "strip s") (simp_all add: lstrip_def)
qed

lemma strip_idem: "strip (strip s) = strip s"
proof -
  have "strip (strip s) = rstrip (strip s)"
    by (simp add: strip_def [of "strip s"] lstrip_strip)
  also have "\<dots> = strip s"
    by (simp add: strip_def rstrip_def)
  finally show ?thesis .
qed

lemma line_fields_rule:
  "line_fields (strip l) =
     (if CHR '','' \<in> set (strip l) then Some (map strip (py_split CHR '','' (strip l)))
      else if CHR '' '' \<in> set (strip l) then Some (re_split_ws (strip l))
      else None)"
  by (simp add: line_fields_def strip_idem)

lemma parse_coordinate_line_fields:
  assumes "strip l \<noteq> []" and "hd (strip l) \<noteq> CHR ''#''"
      and "line_fields (strip l) = Some parts"
  shows "parse_coordinate_line l =
           (case placement_of_fields parts of
              Inl e \<Rightarrow> (if e = ValueError \<or> e = IndexError then Inr None else Inl e)
            | Inr r \<Rightarrow> Inr r)"
  using assms by (simp add: parse_coordinate_line_def Let_def)

lemma make_coordinate_rounded:
  assumes "py_round fx = Inr x" and "py_round fy = Inr y" and "py_round fz = Inr z"
  shows "make_coordinate i fx fy fz
           = Inr (Some \<lparr>coord_id = i, coord_x = x, coord_y = y, coord_z = z\<rparr>)"
  using assms by (simp add: make_coordinate_def)

lemma scenario_lines: "py_split CHR 0x0A (strip scenario_text) = [''-4,0,9,1'', ''2 3 1'']"
  by (simp add: scenario_text_def strip_eval py_split_def)

lemma first_line:
  "strip ''-4,0,9,1'' = ''-4,0,9,1''"
  "line_fields ''-4,0,9,1'' = Some [''-4'', ''0'', ''9'', ''1'']"
  by (simp_all add: line_fields_def strip_eval py_split_def)

lemma second_line:
  "strip ''2 3 1'' = ''2 3 1''"
  "line_fields ''2 3 1'' = Some [''2'', ''3'', ''1'']"
  by (simp_all add: line_fields_def strip_eval re_split_ws_def)

lemma first_line_parsed:
  "parse_coordinate_line ''-4,0,9,1''
     = Inr (Some \<lparr>coord_id = 1, coord_x = - 4, coord_y = 0, coord_z = 9\<rparr>)"
  by (simp add: parse_coordinate_line_def first_line placement_of_fields_def sample_floats int_1
      make_coordinate_rounded sample_rounds)

lemma second_line_parsed:
  "parse_coordinate_line ''2 3 1''
     = Inr (Some \<lparr>coord_id = 0, coord_x = 2, coord_y = 3, coord_z = 1\<rparr>)"
  by (simp add: parse_coordinate_line_def second_line placement_of_fields_def sample_floats
      make_coordinate_rounded sample_rounds)

lemma small_int_double:
  assumes m: "0 < m" and E: "floor_log2 m 1 = E" and lo: "0 \<le> E" and hi: "E < 52"
  shows "nearest_double neg m 0
           = Finite (if neg then - (m * 2 ^ nat (52 - E)) else m * 2 ^ nat (52 - E)) (E - 52)"
proof -
  define d :: int where "d = 2 ^ nat (52 - E)"
  have s: "max E (- 1022) = E" and neg_s: "\<not> 0 \<le> E - 52" "\<not> 52 \<le> E"
    and ns: "nat (- (E - 52)) = nat (52 - E)"
    using lo hi by simp_all
  have k: "round_half_even (m * d) 1 = m * d"
    using round_half_even_mult [of 1 "m * d"] by simp
  have "nearest_double neg m 0 = Finite (if neg then - (m * d) else m * d) (E - 52)"
    using m neg_s
    by (simp add: nearest_double_def E s Let_def ns d_def [symmetric] k)
  then show ?thesis
    by (simp add: d_def)
qed

lemma sample_doubles:
  "py_float ''-4'' = Some (Finite (- 4503599627370496) (- 50))"
  "py_float ''0'' = Some (Finite 0 0)"
  "py_float ''9'' = Some (Finite 5066549580791808 (- 49))"
  "py_float ''2'' = Some (Finite 4503599627370496 (- 51))"
  "py_float ''3'' = Some (Finite 6755399441055744 (- 51))"
  "py_float ''1'' = Some (Finite 4503599627370496 (- 52))"
  using small_int_double [of 4 2 True] small_int_double [of 9 3 False]
    small_int_double [of 2 1 False] small_int_double [of 3 1 False]
    small_int_double [of 1 0 False]
  by (simp_all add: sample_floats sample_logs) (simp add: nearest_double_def)

lemma tie_floats:
  "py_float ''2.5'' = Some (nearest_double False 25 (- 1))"
  "py_float ''0.5'' = Some (nearest_double False 5 (- 1))"
  "py_float ''-1.5'' = Some (nearest_double True 15 (- 1))"
  by (simp_all add: float_syntax)

lemma tie_logs:
  "floor_log2 25 10 = 1" "floor_log2 5 10 = - 1" "floor_log2 15 10 = 0"
  by (simp_all add: floor_log2_def ilog2.simps)

lemma tie_quotients:
  "round_half_even 56294995342131200 10 = 5629499534213120"
  "round_half_even 45035996273704960 10 = 4503599627370496"
  "round_half_even 67553994410557440 10 = 6755399441055744"
  using round_half_even_mult [of 10 5629499534213120]
    round_half_even_mult [of 10 4503599627370496]
    round_half_even_mult [of 10 6755399441055744]
  by simp_all

lemma tie_doubles:
  "py_float ''2.5'' = Some (Finite 5629499534213120 (- 51))"
  "py_float ''0.5'' = Some (Finite 4503599627370496 (- 53))"
  "py_float ''-1.5'' = Some (Finite (- 6755399441055744) (- 52))"
  by (simp_all add: tie_floats nearest_double_def tie_logs Let_def tie_quotients)

lemma sample_values:
  "finite_value (- 4503599627370496) (- 50) = - 4"
  "finite_value 0 0 = 0"
  "finite_value 5066549580791808 (- 49) = 9"
  "finite_value 4503599627370496 (- 51) = 2"
  "finite_value 6755399441055744 (- 51) = 3"
  "finite_value 4503599627370496 (- 52) = 1"
  "finite_value 5629499534213120 (- 51) = 5 / 2"
  "finite_value 4503599627370496 (- 53) = 1 / 2"
  "finite_value (- 6755399441055744) (- 52) = - 3 / 2"
  by (simp_all add: finite_value_def)

lemma sample_ints: "py_int ''1'' = Some 1" "py_int ''3'' = Some 3" "py_int ''4'' = Some 4"
  by (simp_all add: py_int_def c_strip_def is_c_space_def is_digit_def nat_of_digits_def
      digit_val_def)

lemma nearest_unique: "\<bar>real_of_int x - real_of_int c\<bar> \<le> 1 / 2 \<Longrightarrow> x = c"
proof -
  assume "\<bar>real_of_int x - real_of_int c\<bar> \<le> 1 / 2"
  then have "\<bar>real_of_int (x - c)\<bar> < 1"
    by simp
  then have "real_of_int \<bar>x - c\<bar> < 1"
    by (simp only: of_int_abs)
  then have "\<bar>x - c\<bar> < 1"
    by (simp only: of_int_less_1_iff)
  then show "x = c"
    by arith
qed

lemma tie_even:
  assumes near: "\<bar>real_of_int x - (real_of_int c + 1 / 2)\<bar> \<le> 1 / 2"
      and tie: "\<bar>real_of_int x - (real_of_int c + 1 / 2)\<bar> = 1 / 2 \<longrightarrow> even x"
      and c: "even c"
  shows "x = c"
proof -
  from near have "real_of_int c \<le> real_of_int x" and "real_of_int x \<le> real_of_int c + 1"
    by linarith+
  then have "real_of_int c \<le> real_of_int x" and "real_of_int x \<le> real_of_int (c + 1)"
    by simp_all
  then have "c \<le> x" and "x \<le> c + 1"
    by (simp_all only: of_int_le_iff)
  then have "x = c \<or> x = c + 1"
    by arith
  then show ?thesis
  proof
    assume "x = c"
    then show ?thesis .
  next
    assume x: "x = c + 1"
    then have "\<bar>real_of_int x - (real_of_int c + 1 / 2)\<bar> = 1 / 2"
      by simp
    with tie have "even x"
      by simp
    with x c show ?thesis
      by simp
  qed
qed

text \<open>
  C9, as amended. A line that is neither blank nor a comment is split at its commas,
  each field stripped, when it holds a comma, and at its runs of whitespace when it
  holds no comma but a space character. With four such fields, of which the first
  three read as finite floats and the last as an integer, the line gives a placement
  with the id of the last field; with three such fields it gives a placement with
  id 0. Each coordinate of the placement is an integer nearest to the float, at most
  one half away from it, and the even one of the two when the float lies half-way
  between two integers. Blank lines, comments, lines with neither a comma nor a
  space, lines with another number of fields and lines with a field that does not
  read as a number give no placement, and the parser goes on with the next line.
  The text of the two lines \<open>-4,0,9,1\<close> and \<open>2 3 1\<close> gives exactly the placements
  \<open>{id 1, x -4, y 0, z 9}\<close> and \<open>{id 0, x 2, y 3, z 1}\<close>.
\<close>

theorem coordinate_parsing:
  "(strip l \<noteq> [] \<and> hd (strip l) \<noteq> CHR ''#''
      \<and> (CHR '','' \<in> set (strip l) \<and> parts = map strip (py_split CHR '','' (strip l))
          \<or> CHR '','' \<notin> set (strip l) \<and> CHR '' '' \<in> set (strip l)
            \<and> parts = re_split_ws (strip l))
      \<and> length parts = 4
      \<and> py_float (parts ! 0) = Some (Finite kx jx)
      \<and> py_float (parts ! 1) = Some (Finite ky jy)
      \<and> py_float (parts ! 2) = Some (Finite kz jz)
      \<and> py_int (parts ! 3) = Some i
    \<longrightarrow> (\<exists>x y z. parse_coordinate_line l
                     = Inr (Some \<lparr>coord_id = i, coord_x = x, coord_y = y, coord_z = z\<rparr>)
            \<and> \<bar>real_of_int x - finite_value kx jx\<bar> \<le> 1 / 2
            \<and> (\<bar>real_of_int x - finite_value kx jx\<bar> = 1 / 2 \<longrightarrow> even x)
            \<and> \<bar>real_of_int y - finite_value ky jy\<bar> \<le> 1 / 2
            \<and> (\<bar>real_of_int y - finite_value ky jy\<bar> = 1 / 2 \<longrightarrow> even y)
            \<and> \<bar>real_of_int z - finite_value kz jz\<bar> \<le> 1 / 2
            \<and> (\<bar>real_of_int z - finite_value kz jz\<bar> = 1 / 2 \<longrightarrow> even z)))
   \<and> (strip l \<noteq> [] \<and> hd (strip l) \<noteq> CHR ''#''
      \<and> (CHR '','' \<in> set (strip l) \<and> parts = map strip (py_split CHR '','' (strip l))
          \<or> CHR '','' \<notin> set (strip l) \<and> CHR '' '' \<in> set (strip l)
            \<and> parts = re_split_ws (strip l))
      \<and> length parts = 3
      \<and> py_float (parts ! 0) = Some (Finite kx jx)
      \<and> py_float (parts ! 1) = Some (Finite ky jy)
      \<and> py_float (parts ! 2) = Some (Finite kz jz)
    \<longrightarrow> (\<exists>x y z. parse_coordinate_line l
                     = Inr (Some \<lparr>coord_id = 0, coord_x = x, coord_y = y, coord_z = z\<rparr>)
            \<and> \<bar>real_of_int x - finite_value kx jx\<bar> \<le> 1 / 2
            \<and> (\<bar>real_of_int x - finite_value kx jx\<bar> = 1 / 2 \<longrightarrow> even x)
            \<and> \<bar>real_of_int y - finite_value ky jy\<bar> \<le> 1 / 2
            \<and> (\<bar>real_of_int y - finite_value ky jy\<bar> = 1 / 2 \<longrightarrow> even y)
            \<and> \<bar>real_of_int z - finite_value kz jz\<bar> \<le> 1 / 2
            \<and> (\<bar>real_of_int z - finite_value kz jz\<bar> = 1 / 2 \<longrightarrow> even z)))
   \<and> (strip l = [] \<or> hd (strip l) = CHR ''#''
      \<or> CHR '','' \<notin> set (strip l) \<and> CHR '' '' \<notin> set (strip l)
    \<longrightarrow> parse_coordinate_line l = Inr None)
   \<and> ((CHR '','' \<in> set (strip l) \<and> parts = map strip (py_split CHR '','' (strip l))
          \<or> CHR '','' \<notin> set (strip l) \<and> CHR '' '' \<in> set (strip l)
            \<and> parts = re_split_ws (strip l))
      \<and> (length parts \<noteq> 3 \<and> length parts \<noteq> 4
         \<or> py_float (parts ! 0) = None \<or> py_float (parts ! 1) = None
         \<or> py_float (parts ! 2) = None
         \<or> length parts = 4 \<and> py_int (parts ! 3) = None)
    \<longrightarrow> parse_coordinate_line l = Inr None)
   \<and> (parse_coordinate_line l = Inr None
    \<longrightarrow> parse_coordinate_lines (l # ls) acc = parse_coordinate_lines ls acc)
   \<and> (parse_coordinate_line l = Inr (Some c)
    \<longrightarrow> parse_coordinate_lines (l # ls) acc = parse_coordinate_lines ls (acc @ [c]))
   \<and> parse_coordinate_string coord_str
       = parse_coordinate_lines (py_split CHR 0x0A (strip coord_str)) []
   \<and> parse_coordinate_string scenario_text
       = Inr [\<lparr>coord_id = 1, coord_x = - 4, coord_y = 0, coord_z = 9\<rparr>,
              \<lparr>coord_id = 0, coord_x = 2, coord_y = 3, coord_z = 1\<rparr>]"
proof (intro conjI impI)
  assume a: "strip l \<noteq> [] \<and> hd (strip l) \<noteq> CHR ''#''
      \<and> (CHR '','' \<in> set (strip l) \<and> parts = map strip (py_split CHR '','' (strip l))
          \<or> CHR '','' \<notin> set (strip l) \<and> CHR '' '' \<in> set (strip l)
            \<and> parts = re_split_ws (strip l))
      \<and> length parts = 4
      \<and> py_float (parts ! 0) = Some (Finite kx jx)
      \<and> py_float (parts ! 1) = Some (Finite ky jy)
      \<and> py_float (parts ! 2) = Some (Finite kz jz)
      \<and> py_int (parts ! 3) = Some i"
  then have f: "line_fields (strip l) = Some parts"
    by (auto simp add: line_fields_rule)
  obtain x y z where m: "make_coordinate i (Finite kx jx) (Finite ky jy) (Finite kz jz)
              = Inr (Some \<lparr>coord_id = i, coord_x = x, coord_y = y, coord_z = z\<rparr>)"
    and n: "\<bar>real_of_int x - finite_value kx jx\<bar> \<le> 1 / 2
            \<and> (\<bar>real_of_int x - finite_value kx jx\<bar> = 1 / 2 \<longrightarrow> even x)"
      "\<bar>real_of_int y - finite_value ky jy\<bar> \<le> 1 / 2
            \<and> (\<bar>real_of_int y - finite_value ky jy\<bar> = 1 / 2 \<longrightarrow> even y)"
      "\<bar>real_of_int z - finite_value kz jz\<bar> \<le> 1 / 2
            \<and> (\<bar>real_of_int z - finite_value kz jz\<bar> = 1 / 2 \<longrightarrow> even z)"
    using make_coordinate_finite [of i kx jx ky jy kz jz] by blast
  from a m have "placement_of_fields parts
               = Inr (Some \<lparr>coord_id = i, coord_x = x, coord_y = y, coord_z = z\<rparr>)"
    by (simp add: placement_of_fields_def)
  with a f have "parse_coordinate_line l
          = Inr (Some \<lparr>coord_id = i, coord_x = x, coord_y = y, coord_z = z\<rparr>)"
    by (simp add: parse_coordinate_line_fields)
  with n show "(\<exists>x y z. parse_coordinate_line l
                     = Inr (Some \<lparr>coord_id = i, coord_x = x, coord_y = y, coord_z = z\<rparr>)
            \<and> \<bar>real_of_int x - finite_value kx jx\<bar> \<le> 1 / 2
            \<and> (\<bar>real_of_int x - finite_value kx jx\<bar> = 1 / 2 \<longrightarrow> even x)
            \<and> \<bar>real_of_int y - finite_value ky jy\<bar> \<le> 1 / 2
            \<and> (\<bar>real_of_int y - finite_value ky jy\<bar> = 1 / 2 \<longrightarrow> even y)
            \<and> \<bar>real_of_int z - finite_value kz jz\<bar> \<le> 1 / 2
            \<and> (\<bar>real_of_int z - finite_value kz jz\<bar> = 1 / 2 \<longrightarrow> even z))"
    by blast
next
  assume a: "strip l \<noteq> [] \<and> hd (strip l) \<noteq> CHR ''#''
      \<and> (CHR '','' \<in> set (strip l) \<and> parts = map strip (py_split CHR '','' (strip l))
          \<or> CHR '','' \<notin> set (strip l) \<and> CHR '' '' \<in> set (strip l)
            \<and> parts = re_split_ws (strip l))
      \<and> length parts = 3
      \<and> py_float (parts ! 0) = Some (Finite kx jx)
      \<and> py_float (parts ! 1) = Some (Finite ky jy)
      \<and> py_float (parts ! 2) = Some (Finite kz jz)"
  then have f: "line_fields (strip l) = Some parts"
    by (auto simp add: line_fields_rule)
  obtain x y z where m: "make_coordinate 0 (Finite kx jx) (Finite ky jy) (Finite kz jz)
              = Inr (Some \<lparr>coord_id = 0, coord_x = x, coord_y = y, coord_z = z\<rparr>)"
    and n: "\<bar>real_of_int x - finite_value kx jx\<bar> \<le> 1 / 2
            \<and> (\<bar>real_of_int x - finite_value kx jx\<bar> = 1 / 2 \<longrightarrow> even x)"
      "\<bar>real_of_int y - finite_value ky jy\<bar> \<le> 1 / 2
            \<and> (\<bar>real_of_int y - finite_value ky jy\<bar> = 1 / 2 \<longrightarrow> even y)"
      "\<bar>real_of_int z - finite_value kz jz\<bar> \<le> 1 / 2
            \<and> (\<bar>real_of_int z - finite_value kz jz\<bar> = 1 / 2 \<longrightarrow> even z)"
    using make_coordinate_finite [of 0 kx jx ky jy kz jz] by blast
  from a m have "placement_of_fields parts
               = Inr (Some \<lparr>coord_id = 0, coord_x = x, coord_y = y, coord_z = z\<rparr>)"
    by (simp add: placement_of_fields_def)
  with a f have "parse_coordinate_line l
          = Inr (Some \<lparr>coord_id = 0, coord_x = x, coord_y = y, coord_z = z\<rparr>)"
    by (simp add: parse_coordinate_line_fields)
  with n show "(\<exists>x y z. parse_coordinate_line l
                     = Inr (Some \<lparr>coord_id = 0, coord_x = x, coord_y = y, coord_z = z\<rparr>)
            \<and> \<bar>real_of_int x - finite_value kx jx\<bar> \<le> 1 / 2
            \<and> (\<bar>real_of_int x - finite_value kx jx\<bar> = 1 / 2 \<longrightarrow> even x)
            \<and> \<bar>real_of_int y - finite_value ky jy\<bar> \<le> 1 / 2
            \<and> (\<bar>real_of_int y - finite_value ky jy\<bar> = 1 / 2 \<longrightarrow> even y)
            \<and> \<bar>real_of_int z - finite_value kz jz\<bar> \<le> 1 / 2
            \<and> (\<bar>real_of_int z - finite_value kz jz\<bar> = 1 / 2 \<longrightarrow> even z))"
    by blast
next
  assume "strip l = [] \<or> hd (strip l) = CHR ''#''
      \<or> CHR '','' \<notin> set (strip l) \<and> CHR '' '' \<notin> set (strip l)"
  then have "strip l = [] \<or> hd (strip l) = CHR ''#'' \<or> line_fields (strip l) = None"
    by (auto simp add: line_fields_rule)
  then show "parse_coordinate_line l = Inr None"
    by (auto simp add: parse_coordinate_line_def Let_def)
next
  assume a: "(CHR '','' \<in> set (strip l) \<and> parts = map strip (py_split CHR '','' (strip l))
          \<or> CHR '','' \<notin> set (strip l) \<and> CHR '' '' \<in> set (strip l)
            \<and> parts = re_split_ws (strip l))
      \<and> (length parts \<noteq> 3 \<and> length parts \<noteq> 4
         \<or> py_float (parts ! 0) = None \<or> py_float (parts ! 1) = None
         \<or> py_float (parts ! 2) = None
         \<or> length parts = 4 \<and> py_int (parts ! 3) = None)"
  then have f: "line_fields (strip l) = Some parts"
    by (auto simp add: line_fields_rule)
  from a have "placement_of_fields parts = Inr None \<or> placement_of_fields parts = Inl ValueError"
    by (auto simp add: placement_of_fields_def split: option.splits)
  with f show "parse_coordinate_line l = Inr None"
    by (auto simp add: parse_coordinate_line_def Let_def)
next
  assume "parse_coordinate_line l = Inr None"
  then show "parse_coordinate_lines (l # ls) acc = parse_coordinate_lines ls acc"
    by simp
next
  assume "parse_coordinate_line l = Inr (Some c)"
  then show "parse_coordinate_lines (l # ls) acc = parse_coordinate_lines ls (acc @ [c])"
    by simp
next
  show "parse_coordinate_string coord_str
       = parse_coordinate_lines (py_split CHR 0x0A (strip coord_str)) []"
    by (simp add: parse_coordinate_string_def)
next
  show "parse_coordinate_string scenario_text
       = Inr [\<lparr>coord_id = 1, coord_x = - 4, coord_y = 0, coord_z = 9\<rparr>,
              \<lparr>coord_id = 0, coord_x = 2, coord_y = 3, coord_z = 1\<rparr>]"
    by (simp add: parse_coordinate_string_def scenario_lines first_line_parsed
        second_line_parsed)
qed

text \<open>
  The theorem at the two lines of the sample text, at a line that ends with a
  no-break space, at a line whose three coordinates lie half-way between two
  integers, and at a line of two fields, which is passed over.
\<close>

theorem coordinate_parsing_witness:
  "parse_coordinate_line ''-4,0,9,1''
     = Inr (Some \<lparr>coord_id = 1, coord_x = - 4, coord_y = 0, coord_z = 9\<rparr>)
   \<and> parse_coordinate_line ''2 3 1''
     = Inr (Some \<lparr>coord_id = 0, coord_x = 2, coord_y = 3, coord_z = 1\<rparr>)
   \<and> parse_coordinate_line nbsp_line
     = Inr (Some \<lparr>coord_id = 4, coord_x = 1, coord_y = 2, coord_z = 3\<rparr>)
   \<and> parse_coordinate_line ''2.5,0.5,-1.5,3''
     = Inr (Some \<lparr>coord_id = 3, coord_x = 2, coord_y = 0, coord_z = - 2\<rparr>)
   \<and> parse_coordinate_line ''1,2'' = Inr None
   \<and> parse_coordinate_lines [''1,2'', ''2 3 1''] []
     = Inr [\<lparr>coord_id = 0, coord_x = 2, coord_y = 3, coord_z = 1\<rparr>]"
proof -
  have a: "parse_coordinate_line ''-4,0,9,1''
     = Inr (Some \<lparr>coord_id = 1, coord_x = - 4, coord_y = 0, coord_z = 9\<rparr>)"
  proof -
    have a_strip: "strip ''-4,0,9,1'' = ''-4,0,9,1''"
      and a_fields: "map strip (py_split CHR '','' ''-4,0,9,1'') = [''-4'', ''0'', ''9'', ''1'']"
      by (simp_all add: strip_eval py_split_def)
    have a_all: "\<exists>x y z. parse_coordinate_line ''-4,0,9,1''
                  = Inr (Some \<lparr>coord_id = 1, coord_x = x, coord_y = y, coord_z = z\<rparr>)
            \<and> \<bar>real_of_int x - finite_value (- 4503599627370496) (- 50)\<bar> \<le> 1 / 2
            \<and> (\<bar>real_of_int x - finite_value (- 4503599627370496) (- 50)\<bar> = 1 / 2 \<longrightarrow> even x)
            \<and> \<bar>real_of_int y - finite_value 0 0\<bar> \<le> 1 / 2
            \<and> (\<bar>real_of_int y - finite_value 0 0\<bar> = 1 / 2 \<longrightarrow> even y)
            \<and> \<bar>real_of_int z - finite_value 5066549580791808 (- 49)\<bar> \<le> 1 / 2
            \<and> (\<bar>real_of_int z - finite_value 5066549580791808 (- 49)\<bar> = 1 / 2 \<longrightarrow> even z)"
    proof (rule coordinate_parsing [where l = "''-4,0,9,1''" and parts = "[''-4'', ''0'', ''9'', ''1'']" and kx = "- 4503599627370496" and jx = "- 50" and ky = "0" and jy = "0" and kz = "5066549580791808" and jz = "- 49" and i = 1, THEN conjunct1, THEN mp])
      show "strip ''-4,0,9,1'' \<noteq> [] \<and> hd (strip ''-4,0,9,1'') \<noteq> CHR ''#''
          \<and> (CHR '','' \<in> set (strip ''-4,0,9,1'') \<and> [''-4'', ''0'', ''9'', ''1''] = map strip (py_split CHR '','' (strip ''-4,0,9,1''))
              \<or> CHR '','' \<notin> set (strip ''-4,0,9,1'') \<and> CHR '' '' \<in> set (strip ''-4,0,9,1'')
                \<and> [''-4'', ''0'', ''9'', ''1''] = re_split_ws (strip ''-4,0,9,1''))
          \<and> length [''-4'', ''0'', ''9'', ''1''] = 4
          \<and> py_float ([''-4'', ''0'', ''9'', ''1''] ! 0) = Some (Finite (- 4503599627370496) (- 50))
          \<and> py_float ([''-4'', ''0'', ''9'', ''1''] ! 1) = Some (Finite 0 0)
          \<and> py_float ([''-4'', ''0'', ''9'', ''1''] ! 2) = Some (Finite 5066549580791808 (- 49))
          \<and> py_int ([''-4'', ''0'', ''9'', ''1''] ! 3) = Some 1"
        by (simp add: a_strip a_fields sample_doubles tie_doubles sample_ints)
    qed
    then obtain x y z where a_line: "parse_coordinate_line ''-4,0,9,1''
                  = Inr (Some \<lparr>coord_id = 1, coord_x = x, coord_y = y, coord_z = z\<rparr>)"
      and a_nx: "\<bar>real_of_int x - finite_value (- 4503599627370496) (- 50)\<bar> \<le> 1 / 2"
      and a_tx: "\<bar>real_of_int x - finite_value (- 4503599627370496) (- 50)\<bar> = 1 / 2 \<longrightarrow> even x"
      and a_ny: "\<bar>real_of_int y - finite_value 0 0\<bar> \<le> 1 / 2"
      and a_ty: "\<bar>real_of_int y - finite_value 0 0\<bar> = 1 / 2 \<longrightarrow> even y"
      and a_nz: "\<bar>real_of_int z - finite_value 5066549580791808 (- 49)\<bar> \<le> 1 / 2"
      and a_tz: "\<bar>real_of_int z - finite_value 5066549580791808 (- 49)\<bar> = 1 / 2 \<longrightarrow> even z"
      by blast
    have a_x: "x = - 4"
      using a_nx by (intro nearest_unique) (simp add: sample_values)
    have a_y: "y = 0"
      using a_ny by (intro nearest_unique) (simp add: sample_values)
    have a_z: "z = 9"
      using a_nz by (intro nearest_unique) (simp add: sample_values)
    show ?thesis
      using a_line a_x a_y a_z by simp
  qed
  have b: "parse_coordinate_line ''2 3 1''
     = Inr (Some \<lparr>coord_id = 0, coord_x = 2, coord_y = 3, coord_z = 1\<rparr>)"
  proof -
    have b_strip: "strip ''2 3 1'' = ''2 3 1''"
      and b_fields: "re_split_ws ''2 3 1'' = [''2'', ''3'', ''1'']"
      by (simp_all add: strip_eval re_split_ws_def)
    have b_all: "\<exists>x y z. parse_coordinate_line ''2 3 1''
                  = Inr (Some \<lparr>coord_id = 0, coord_x = x, coord_y = y, coord_z = z\<rparr>)
            \<and> \<bar>real_of_int x - finite_value 4503599627370496 (- 51)\<bar> \<le> 1 / 2
            \<and> (\<bar>real_of_int x - finite_value 4503599627370496 (- 51)\<bar> = 1 / 2 \<longrightarrow> even x)
            \<and> \<bar>real_of_int y - finite_value 6755399441055744 (- 51)\<bar> \<le> 1 / 2
            \<and> (\<bar>real_of_int y - finite_value 6755399441055744 (- 51)\<bar> = 1 / 2 \<longrightarrow> even y)
            \<and> \<bar>real_of_int z - finite_value 4503599627370496 (- 52)\<bar> \<le> 1 / 2
            \<and> (\<bar>real_of_int z - finite_value 4503599627370496 (- 52)\<bar> = 1 / 2 \<longrightarrow> even z)"
    proof (rule coordinate_parsing [where l = "''2 3 1''" and parts = "[''2'', ''3'', ''1'']" and kx = "4503599627370496" and jx = "- 51" and ky = "6755399441055744" and jy = "- 51" and kz = "4503599627370496" and jz = "- 52", THEN conjunct2, THEN conjunct1, THEN mp])
      show "strip ''2 3 1'' \<noteq> [] \<and> hd (strip ''2 3 1'') \<noteq> CHR ''#''
          \<and> (CHR '','' \<in> set (strip ''2 3 1'') \<and> [''2'', ''3'', ''1''] = map strip (py_split CHR '','' (strip ''2 3 1''))
              \<or> CHR '','' \<notin> set (strip ''2 3 1'') \<and> CHR '' '' \<in> set (strip ''2 3 1'')
                \<and> [''2'', ''3'', ''1''] = re_split_ws (strip ''2 3 1''))
          \<and> length [''2'', ''3'', ''1''] = 3
          \<and> py_float ([''2'', ''3'', ''1''] ! 0) = Some (Finite 4503599627370496 (- 51))
          \<and> py_float ([''2'', ''3'', ''1''] ! 1) = Some (Finite 6755399441055744 (- 51))
          \<and> py_float ([''2'', ''3'', ''1''] ! 2) = Some (Finite 4503599627370496 (- 52))"
        by (simp add: b_strip b_fields sample_doubles tie_doubles sample_ints)
    qed
    then obtain x y z where b_line: "parse_coordinate_line ''2 3 1''
                  = Inr (Some \<lparr>coord_id = 0, coord_x = x, coord_y = y, coord_z = z\<rparr>)"
      and b_nx: "\<bar>real_of_int x - finite_value 4503599627370496 (- 51)\<bar> \<le> 1 / 2"
      and b_tx: "\<bar>real_of_int x - finite_value 4503599627370496 (- 51)\<bar> = 1 / 2 \<longrightarrow> even x"
      and b_ny: "\<bar>real_of_int y - finite_value 6755399441055744 (- 51)\<bar> \<le> 1 / 2"
      and b_ty: "\<bar>real_of_int y - finite_value 6755399441055744 (- 51)\<bar> = 1 / 2 \<longrightarrow> even y"
      and b_nz: "\<bar>real_of_int z - finite_value 4503599627370496 (- 52)\<bar> \<le> 1 / 2"
      and b_tz: "\<bar>real_of_int z - finite_value 4503599627370496 (- 52)\<bar> = 1 / 2 \<longrightarrow> even z"
      by blast
    have b_x: "x = 2"
      using b_nx by (intro nearest_unique) (simp add: sample_values)
    have b_y: "y = 3"
      using b_ny by (intro nearest_unique) (simp add: sample_values)
    have b_z: "z = 1"
      using b_nz by (intro nearest_unique) (simp add: sample_values)
    show ?thesis
      using b_line b_x b_y b_z by simp
  qed
  have c: "parse_coordinate_line nbsp_line
     = Inr (Some \<lparr>coord_id = 4, coord_x = 1, coord_y = 2, coord_z = 3\<rparr>)"
  proof -
    have c_strip: "strip nbsp_line = ''1,2,3,4''"
      and c_fields: "map strip (py_split CHR '','' ''1,2,3,4'') = [''1'', ''2'', ''3'', ''4'']"
      by (simp_all add: nbsp_line_def strip_eval py_split_def)
    have c_all: "\<exists>x y z. parse_coordinate_line nbsp_line
                  = Inr (Some \<lparr>coord_id = 4, coord_x = x, coord_y = y, coord_z = z\<rparr>)
            \<and> \<bar>real_of_int x - finite_value 4503599627370496 (- 52)\<bar> \<le> 1 / 2
            \<and> (\<bar>real_of_int x - finite_value 4503599627370496 (- 52)\<bar> = 1 / 2 \<longrightarrow> even x)
            \<and> \<bar>real_of_int y - finite_value 4503599627370496 (- 51)\<bar> \<le> 1 / 2
            \<and> (\<bar>real_of_int y - finite_value 4503599627370496 (- 51)\<bar> = 1 / 2 \<longrightarrow> even y)
            \<and> \<bar>real_of_int z - finite_value 6755399441055744 (- 51)\<bar> \<le> 1 / 2
            \<and> (\<bar>real_of_int z - finite_value 6755399441055744 (- 51)\<bar> = 1 / 2 \<longrightarrow> even z)"
    proof (rule coordinate_parsing [where l = "nbsp_line" and parts = "[''1'', ''2'', ''3'', ''4'']" and kx = "4503599627370496" and jx = "- 52" and ky = "4503599627370496" and jy = "- 51" and kz = "6755399441055744" and jz = "- 51" and i = 4, THEN conjunct1, THEN mp])
      show "strip nbsp_line \<noteq> [] \<and> hd (strip nbsp_line) \<noteq> CHR ''#''
          \<and> (CHR '','' \<in> set (strip nbsp_line) \<and> [''1'', ''2'', ''3'', ''4''] = map strip (py_split CHR '','' (strip nbsp_line))
              \<or> CHR '','' \<notin> set (strip nbsp_line) \<and> CHR '' '' \<in> set (strip nbsp_line)
                \<and> [''1'', ''2'', ''3'', ''4''] = re_split_ws (strip nbsp_line))
          \<and> length [''1'', ''2'', ''3'', ''4''] = 4
          \<and> py_float ([''1'', ''2'', ''3'', ''4''] ! 0) = Some (Finite 4503599627370496 (- 52))
          \<and> py_float ([''1'', ''2'', ''3'', ''4''] ! 1) = Some (Finite 4503599627370496 (- 51))
          \<and> py_float ([''1'', ''2'', ''3'', ''4''] ! 2) = Some (Finite 6755399441055744 (- 51))
          \<and> py_int ([''1'', ''2'', ''3'', ''4''] ! 3) = Some 4"
        by (simp add: c_strip c_fields sample_doubles tie_doubles sample_ints)
    qed
    then obtain x y z where c_line: "parse_coordinate_line nbsp_line
                  = Inr (Some \<lparr>coord_id = 4, coord_x = x, coord_y = y, coord_z = z\<rparr>)"
      and c_nx: "\<bar>real_of_int x - finite_value 4503599627370496 (- 52)\<bar> \<le> 1 / 2"
      and c_tx: "\<bar>real_of_int x - finite_value 4503599627370496 (- 52)\<bar> = 1 / 2 \<longrightarrow> even x"
      and c_ny: "\<bar>real_of_int y - finite_value 4503599627370496 (- 51)\<bar> \<le> 1 / 2"
      and c_ty: "\<bar>real_of_int y - finite_value 4503599627370496 (- 51)\<bar> = 1 / 2 \<longrightarrow> even y"
      and c_nz: "\<bar>real_of_int z - finite_value 6755399441055744 (- 51)\<bar> \<le> 1 / 2"
      and c_tz: "\<bar>real_of_int z - finite_value 6755399441055744 (- 51)\<bar> = 1 / 2 \<longrightarrow> even z"
      by blast
    have c_x: "x = 1"
      using c_nx by (intro nearest_unique) (simp add: sample_values)
    have c_y: "y = 2"
      using c_ny by (intro nearest_unique) (simp add: sample_values)
    have c_z: "z = 3"
      using c_nz by (intro nearest_unique) (simp add: sample_values)
    show ?thesis
      using c_line c_x c_y c_z by simp
  qed
  have d: "parse_coordinate_line ''2.5,0.5,-1.5,3''
     = Inr (Some \<lparr>coord_id = 3, coord_x = 2, coord_y = 0, coord_z = - 2\<rparr>)"
  proof -
    have d_strip: "strip ''2.5,0.5,-1.5,3'' = ''2.5,0.5,-1.5,3''"
      and d_fields: "map strip (py_split CHR '','' ''2.5,0.5,-1.5,3'') = [''2.5'', ''0.5'', ''-1.5'', ''3'']"
      by (simp_all add: strip_eval py_split_def)
    have d_all: "\<exists>x y z. parse_coordinate_line ''2.5,0.5,-1.5,3''
                  = Inr (Some \<lparr>coord_id = 3, coord_x = x, coord_y = y, coord_z = z\<rparr>)
            \<and> \<bar>real_of_int x - finite_value 5629499534213120 (- 51)\<bar> \<le> 1 / 2
            \<and> (\<bar>real_of_int x - finite_value 5629499534213120 (- 51)\<bar> = 1 / 2 \<longrightarrow> even x)
            \<and> \<bar>real_of_int y - finite_value 4503599627370496 (- 53)\<bar> \<le> 1 / 2
            \<and> (\<bar>real_of_int y - finite_value 4503599627370496 (- 53)\<bar> = 1 / 2 \<longrightarrow> even y)
            \<and> \<bar>real_of_int z - finite_value (- 6755399441055744) (- 52)\<bar> \<le> 1 / 2
            \<and> (\<bar>real_of_int z - finite_value (- 6755399441055744) (- 52)\<bar> = 1 / 2 \<longrightarrow> even z)"
    proof (rule coordinate_parsing [where l = "''2.5,0.5,-1.5,3''" and parts = "[''2.5'', ''0.5'', ''-1.5'', ''3'']" and kx = "5629499534213120" and jx = "- 51" and ky = "4503599627370496" and jy = "- 53" and kz = "- 6755399441055744" and jz = "- 52" and i = 3, THEN conjunct1, THEN mp])
      show "strip ''2.5,0.5,-1.5,3'' \<noteq> [] \<and> hd (strip ''2.5,0.5,-1.5,3'') \<noteq> CHR ''#''
          \<and> (CHR '','' \<in> set (strip ''2.5,0.5,-1.5,3'') \<and> [''2.5'', ''0.5'', ''-1.5'', ''3''] = map strip (py_split CHR '','' (strip ''2.5,0.5,-1.5,3''))
              \<or> CHR '','' \<notin> set (strip ''2.5,0.5,-1.5,3'') \<and> CHR '' '' \<in> set (strip ''2.5,0.5,-1.5,3'')
                \<and> [''2.5'', ''0.5'', ''-1.5'', ''3''] = re_split_ws (strip ''2.5,0.5,-1.5,3''))
          \<and> length [''2.5'', ''0.5'', ''-1.5'', ''3''] = 4
          \<and> py_float ([''2.5'', ''0.5'', ''-1.5'', ''3''] ! 0) = Some (Finite 5629499534213120 (- 51))
          \<and> py_float ([''2.5'', ''0.5'', ''-1.5'', ''3''] ! 1) = Some (Finite 4503599627370496 (- 53))
          \<and> py_float ([''2.5'', ''0.5'', ''-1.5'', ''3''] ! 2) = Some (Finite (- 6755399441055744) (- 52))
          \<and> py_int ([''2.5'', ''0.5'', ''-1.5'', ''3''] ! 3) = Some 3"
        by (simp add: d_strip d_fields sample_doubles tie_doubles sample_ints)
    qed
    then obtain x y z where d_line: "parse_coordinate_line ''2.5,0.5,-1.5,3''
                  = Inr (Some \<lparr>coord_id = 3, coord_x = x, coord_y = y, coord_z = z\<rparr>)"
      and d_nx: "\<bar>real_of_int x - finite_value 5629499534213120 (- 51)\<bar> \<le> 1 / 2"
      and d_tx: "\<bar>real_of_int x - finite_value 5629499534213120 (- 51)\<bar> = 1 / 2 \<longrightarrow> even x"
      and d_ny: "\<bar>real_of_int y - finite_value 4503599627370496 (- 53)\<bar> \<le> 1 / 2"
      and d_ty: "\<bar>real_of_int y - finite_value 4503599627370496 (- 53)\<bar> = 1 / 2 \<longrightarrow> even y"
      and d_nz: "\<bar>real_of_int z - finite_value (- 6755399441055744) (- 52)\<bar> \<le> 1 / 2"
      and d_tz: "\<bar>real_of_int z - finite_value (- 6755399441055744) (- 52)\<bar> = 1 / 2 \<longrightarrow> even z"
      by blast
    have d_x: "x = 2"
    proof (rule tie_even)
      show "\<bar>real_of_int x - (real_of_int 2 + 1 / 2)\<bar> \<le> 1 / 2"
        using d_nx by (simp add: sample_values)
      show "\<bar>real_of_int x - (real_of_int 2 + 1 / 2)\<bar> = 1 / 2 \<longrightarrow> even x"
        using d_tx by (simp add: sample_values)
      show "even (2 :: int)"
        by simp
    qed
    have d_y: "y = 0"
    proof (rule tie_even)
      show "\<bar>real_of_int y - (real_of_int 0 + 1 / 2)\<bar> \<le> 1 / 2"
        using d_ny by (simp add: sample_values)
      show "\<bar>real_of_int y - (real_of_int 0 + 1 / 2)\<bar> = 1 / 2 \<longrightarrow> even y"
        using d_ty by (simp add: sample_values)
      show "even (0 :: int)"
        by simp
    qed
    have d_z: "z = - 2"
    proof (rule tie_even)
      show "\<bar>real_of_int z - (real_of_int (- 2) + 1 / 2)\<bar> \<le> 1 / 2"
        using d_nz by (simp add: sample_values)
      show "\<bar>real_of_int z - (real_of_int (- 2) + 1 / 2)\<bar> = 1 / 2 \<longrightarrow> even z"
        using d_tz by (simp add: sample_values)
      show "even (- 2 :: int)"
        by simp
    qed
    show ?thesis
      using d_line d_x d_y d_z by simp
  qed
  have short: "strip ''1,2'' = ''1,2''" "map strip (py_split CHR '','' ''1,2'') = [''1'', ''2'']"
    by (simp_all add: strip_eval py_split_def)
  have e: "parse_coordinate_line ''1,2'' = Inr None"
  proof (rule coordinate_parsing [where l = "''1,2''" and parts = "[''1'', ''2'']",
        THEN conjunct2, THEN conjunct2, THEN conjunct2, THEN conjunct1, THEN mp])
    show "(CHR '','' \<in> set (strip ''1,2'')
            \<and> [''1'', ''2''] = map strip (py_split CHR '','' (strip ''1,2''))
          \<or> CHR '','' \<notin> set (strip ''1,2'') \<and> CHR '' '' \<in> set (strip ''1,2'')
            \<and> [''1'', ''2''] = re_split_ws (strip ''1,2''))
      \<and> (length [''1'', ''2''] \<noteq> 3 \<and> length [''1'', ''2''] \<noteq> 4
         \<or> py_float ([''1'', ''2''] ! 0) = None \<or> py_float ([''1'', ''2''] ! 1) = None
         \<or> py_float ([''1'', ''2''] ! 2) = None
         \<or> length [''1'', ''2''] = 4 \<and> py_int ([''1'', ''2''] ! 3) = None)"
      by (simp add: short)
  qed
  have f: "parse_coordinate_lines [''1,2'', ''2 3 1''] [] = parse_coordinate_lines [''2 3 1''] []"
    using coordinate_parsing [where l = "''1,2''" and ls = "[''2 3 1'']" and acc = "[]"] e
    by blast
  show ?thesis
    using a b c d e f by simp
qed

text \<open>
  C9, as claimed, fails for a line whose fields are separated by tabs alone: the
  line \<open>1<tab>2<tab>3<tab>4\<close> is neither blank nor a comment, its four
  whitespace-separated fields read as numbers, and it gives no placement.
\<close>

theorem tab_separated_line_is_dropped:
  "strip tab_line \<noteq> [] \<and> hd (strip tab_line) \<noteq> CHR ''#''
   \<and> re_split_ws (strip tab_line) = [''1'', ''2'', ''3'', ''4'']
   \<and> py_float ''1'' = Some (nearest_double False 1 0)
   \<and> py_float ''2'' = Some (nearest_double False 2 0)
   \<and> py_float ''3'' = Some (nearest_double False 3 0)
   \<and> py_int ''4'' = Some 4
   \<and> parse_coordinate_line tab_line = Inr None
   \<and> parse_coordinate_string tab_line = Inr []"
proof -
  have s: "strip tab_line = tab_line"
    by (simp add: tab_line_def strip_eval)
  have ne: "tab_line \<noteq> []" "hd tab_line \<noteq> CHR ''#''"
    by (simp_all add: tab_line_def)
  have f: "re_split_ws tab_line = [''1'', ''2'', ''3'', ''4'']"
    by (simp add: tab_line_def re_split_ws_def is_space_def)
  have none: "line_fields tab_line = None"
    by (simp add: line_fields_def tab_line_def)
  have l: "parse_coordinate_line tab_line = Inr None"
    by (simp add: parse_coordinate_line_def s ne none)
  have one: "py_split CHR 0x0A tab_line = [tab_line]"
    by (simp add: py_split_def tab_line_def)
  have i4: "py_int ''4'' = Some 4"
    by (simp add: py_int_def c_strip_def is_c_space_def is_digit_def nat_of_digits_def
        digit_val_def)
  show ?thesis
    using s ne f l i4 by (simp add: parse_coordinate_string_def one sample_floats)
qed

text \<open>
  A line whose coordinate reads as an infinite float is not passed over: rounding
  it raises \<open>OverflowError\<close>, which the handler for \<open>ValueError\<close> and \<open>IndexError\<close>
  does not catch, and the parse ends with that error.
\<close>

lemma infinite_coordinate_aborts: "parse_coordinate_string infinite_line = Inl OverflowError"
proof -
  have s: "strip infinite_line = infinite_line"
    by (simp add: infinite_line_def strip_eval)
  have one: "py_split CHR 0x0A infinite_line = [infinite_line]"
    by (simp add: py_split_def infinite_line_def)
  have f: "line_fields infinite_line = Some [''inf'', ''0'', ''0'']"
    by (simp add: line_fields_def infinite_line_def strip_eval py_split_def)
  have inf: "py_float ''inf'' = Some Infinite"
    by (simp add: float_syntax)
  have "placement_of_fields [''inf'', ''0'', ''0''] = Inl OverflowError"
    by (simp add: placement_of_fields_def inf sample_floats make_coordinate_def py_round_def)
  then have "parse_coordinate_line infinite_line = Inl OverflowError"
    by (simp add: parse_coordinate_line_def s f infinite_line_def [symmetric])
       (simp add: infinite_line_def)
  then show ?thesis
    by (simp add: parse_coordinate_string_def s one)
qed

end
